theory Spec2Isabelle
  imports Complex_Main "HOL-Library.Word"
begin

unbundle bit_operations_syntax

section \<open>RC Driver: the control tick of a PMSM inverter\<close>

text \<open>
  A shallow embedding of the control core of the repository: the periodic entry point
  \<^verbatim>\<open>Control()\<close> of \<^verbatim>\<open>control.c\<close>, the fault handlers of \<^verbatim>\<open>fault.c\<close>, the sampling
  functions of \<^verbatim>\<open>adc.c\<close>, the regulators and sequencers of \<^verbatim>\<open>inv.c\<close> that
  \<^verbatim>\<open>Control()\<close> reaches, and the observer \<^verbatim>\<open>EXT_SS_Sync\<close> of \<^verbatim>\<open>speed_observer.c\<close>.

  Conventions of the embedding.
  \<^item> The C globals form one record \<open>state\<close>; a C function \<^verbatim>\<open>void f(void)\<close> or
    \<^verbatim>\<open>void f(struct INVERTER *INV)\<close> (always called with \<^verbatim>\<open>&INV\<close>) is a function
    \<open>state \<Rightarrow> state\<close>. Inside a body, \<open>i\<close> stands for the struct behind the pointer
    \<^verbatim>\<open>INV\<close>, and assignments are the bindings of a \<open>let\<close>, in the order of the source.
  \<^item> The arithmetic of the regulators on the C type \<^verbatim>\<open>float\<close> is modelled in \<open>real\<close>,
    exact and without NaN or infinity. Single precision is modelled where a statement
    depends on it: the conversions between integers and \<^verbatim>\<open>float\<close>, the sampling path
    (\<^verbatim>\<open>AdcProcess\<close>, \<^verbatim>\<open>Offset\<close>) and the duty update round every operation with
    \<open>round32\<close>; the timer \<^verbatim>\<open>Time_align += Tsamp\<close> of the alignment sequencer stores its
    sum through the rounding function \<open>f32\<close> of the platform, so that both the exact
    reading (\<open>f32 = id\<close>) and single precision can be instantiated; and the observer
    \<^verbatim>\<open>EXT_SS_Sync\<close> works on the values \<open>float32\<close>, with overflow to the infinities and
    NaN.
  \<^item> Unsigned machine integers are words (\<^verbatim>\<open>uint16_t\<close> is \<open>16 word\<close>, \<^verbatim>\<open>uint32_t\<close>,
    \<^verbatim>\<open>unsigned int\<close> and \<^verbatim>\<open>unsigned long\<close> of the 32-bit target are \<open>32 word\<close>), so
    they wrap. The signed \<^verbatim>\<open>int\<close> variables (flags, sequencer states, small counters)
    are \<open>int\<close>: none of them is incremented without a bound in the code.
  \<^item> The headers of the repository are not among its sources. Their constants and the
    macros \<^verbatim>\<open>BOUND_PI\<close>, \<^verbatim>\<open>COS\<close>, \<^verbatim>\<open>SIN\<close> are the fields of the record \<open>platform\<close>, a
    parameter of every function that uses one; \<^verbatim>\<open>ABS\<close>, \<^verbatim>\<open>MAX\<close>, \<^verbatim>\<open>LIMIT\<close> and the
    output-buffer macros \<^verbatim>\<open>PWM_BUF_ON\<close>/\<^verbatim>\<open>PWM_BUF_OFF\<close> are modelled from the
    specification.
\<close>

subsection \<open>Data model\<close>

text \<open>\<^verbatim>\<open>struct CONTROL_FLAG\<close> (initialised in \<^verbatim>\<open>flag.c\<close>): a field is true in C when it
  is not zero. \<open>FAULT\<close> is 0 (none), 1 (hardware) or 2 (software).\<close>

record CONTROL_FLAG =
  READY :: int
  FAULT :: int
  FAULT_CLEAR :: int
  INV_RUN :: int
  INV_OLC :: int
  INV_VOLC :: int
  INV_Vref_Gen :: int
  INV_ALIGN :: int
  INV_NLC :: int
  TS_MODE :: int
  TS_MODE_STOP :: int
  DUTY_TEST :: int
  Param_Estimation :: int
  HALL_POS_TEST :: int

text \<open>\<^verbatim>\<open>struct FAULT_VAL\<close> (\<^verbatim>\<open>FLTVAL\<close> of \<^verbatim>\<open>fault.c\<close>). The fields carry the prefix
  \<open>FLT_\<close>, since the names \<^verbatim>\<open>Vdc\<close>, \<^verbatim>\<open>Ia\<close>, ... are those of the inverter struct too.\<close>

record FAULT_VAL =
  FLT_Vdc :: real
  FLT_Idc :: real
  FLT_Ia :: real
  FLT_Ib :: real
  FLT_Ic :: real
  FLT_Wrpm :: real

text \<open>\<^verbatim>\<open>struct INVERTER\<close>: the fields that the modelled functions read or write, in the
  order of their first use.\<close>

record INVERTER =
  Kpd_cc :: real
  Wcc :: real
  Ld :: real
  Kpq_cc :: real
  Lq :: real
  Kid_cc :: real
  Rs :: real
  Kiq_cc :: real
  Kad_cc :: real
  Kaq_cc :: real
  Kp_sc :: real
  Jm :: real
  Wsc :: real
  Ki_scale :: real
  Ki_sc :: real
  Ka_sc :: real
  Wrm_ref_set :: real
  Wrpm_ref_set :: real
  Wrpm_ref_set_old :: real
  Wrm_ref :: real
  Wrpm_ref :: real
  Te_ref_integ :: real
  Te_ref_aw :: real
  Idsr_ref_integ :: real
  Idsr_ref_aw :: real
  Te_ref_sat :: real
  Te_ref :: real
  Idsr_ref :: real
  Iqsr_ref :: real
  Idsr_ref_OLC :: real
  Iqsr_ref_OLC :: real
  Vdsr_ref_OLC :: real
  Vqsr_ref_OLC :: real
  Thetar_OLC :: real
  Wrpm_ref_OLC :: real
  Wrpm_ref_set_OLC :: real
  Wrpm_slope_OLC :: real
  Vdsr_ref_integ :: real
  Vqsr_ref_integ :: real
  Vdsr_ref_unsat :: real
  Vqsr_ref_unsat :: real
  Vdsr_ref_aw :: real
  Vqsr_ref_aw :: real
  TestDuty_A :: real
  TestDuty_B :: real
  TestDuty_C :: real
  alpha_LPF :: real
  Iqsr_ref_unsat :: real
  INV_Kt :: real
  Is_rated :: real
  Vdsr_ref_old :: real
  Vdsr_ref :: real
  Vqsr_ref_old :: real
  Vqsr_ref :: real
  Idss :: real
  Ia :: real
  Ib :: real
  Ic :: real
  Iqss :: real
  Thetar :: real
  Wr :: real
  PP :: real
  Thetar_est_Hall :: real
  Wr_est_Hall :: real
  Wrm :: real
  INV_PP :: real
  Wrpm :: real
  Thetar_adv :: real
  cosThetar :: real
  sinThetar :: real
  cosThetar_adv :: real
  sinThetar_adv :: real
  Idsr :: real
  Iqsr :: real
  Idsr_err :: real
  Iqsr_err :: real
  Vdsr_ref_ff :: real
  Vqsr_ref_ff :: real
  Lamf :: real
  Vdsr_ref_unsat_old :: real
  Ractive :: real
  Vqsr_ref_unsat_old :: real
  Vdc :: real
  Vdss_ref :: real
  Vqss_ref :: real
  Vas_ref :: real
  Vbs_ref :: real
  Vcs_ref :: real
  Vmax :: real
  Vmin :: real
  Voffset :: real
  Idss_ref :: real
  Iqss_ref :: real
  Ia_ref :: real
  Ib_ref :: real
  Ic_ref :: real
  Va_NLC :: real
  A_NLC :: real
  B_NLC :: real
  Vb_NLC :: real
  Vc_NLC :: real
  Van_ref :: real
  Vbn_ref :: real
  Vcn_ref :: real
  Duty_A :: real
  INV_Vdc :: real
  Duty_B :: real
  Duty_C :: real
  Wrpm_ref_cmd :: real
  Wrpm_rated :: real
  dWrm :: real
  Wrm_err :: real
  Te_ref_unsat :: real
  Te_rated :: real
  Idsr_ref_set_OLC :: real
  Idsr_slope_OLC :: real
  Wr_ref_OLC :: real
  Vmag_inj :: real
  Thetar_err_Hall :: real
  Thetar_Hall_PLL :: real
  integ_PLL_Hall :: real
  Ki_PLL_Hall :: real
  Kp_PLL_Hall :: real
  hall_a :: bool
  hall_b :: bool
  hall_c :: bool
  hall_state :: "8 word"
  duty_state :: int
  Duty_Test :: real
  Thetar_offset :: real
  Idsr_align :: real
  Idc :: real
  Vdc_control :: real

text \<open>\<^verbatim>\<open>struct EXT_Sensorless\<close> (\<^verbatim>\<open>EXT_1\<close> of \<^verbatim>\<open>speed_observer.c\<close>): the fields used by
  \<^verbatim>\<open>EXT_SS_Sync\<close> and by \<^verbatim>\<open>VoltageOpenLoopControl\<close>. All fields are \<^verbatim>\<open>float\<close>; the type
  of their values is a parameter, \<open>real\<close> in the state of the control tick and the
  single-precision values \<open>float32\<close> (with infinities and NaN) for the observer itself.\<close>

record 'a EXT_Sensorless =
  Kpd_EXT :: 'a
  Kid_EXT :: 'a
  Kpq_EXT :: 'a
  Kiq_EXT :: 'a
  Ld_hat :: 'a
  Lq_hat :: 'a
  Rs_hat :: 'a
  INV_Ld_hat :: 'a
  Wec :: 'a
  Sin_Thetar_EXT :: 'a
  Cos_Thetar_EXT :: 'a
  Thetar_EXT :: 'a
  Thetar_EXT_old :: 'a
  Thetarm_EXT :: 'a
  Thetarm_EXT_old :: 'a
  Vdss_ref_EXT :: 'a
  Vqss_ref_EXT :: 'a
  Vdss_ref_old :: 'a
  Vqss_ref_old :: 'a
  Vdse_ref_EXT :: 'a
  Vqse_ref_EXT :: 'a
  Idse_EXT :: 'a
  Iqse_EXT :: 'a
  Err_Idse_EXT :: 'a
  Err_Iqse_EXT :: 'a
  Idse_EXT_est :: 'a
  Iqse_EXT_est :: 'a
  integ_Idse_EXT_est :: 'a
  integ_Iqse_EXT_est :: 'a
  EEMFd_est :: 'a
  EEMFq_est :: 'a
  Vdse_FF_EXT :: 'a
  Vqse_FF_EXT :: 'a
  Wr_EXT :: 'a
  Wr_EXT_f :: 'a
  Err_Thetar_EXT :: 'a

text \<open>The registers of timer 1 that the code writes (\<^verbatim>\<open>htim1.Instance\<close>), and the
  six PWM outputs that the HAL calls \<^verbatim>\<open>HAL_TIM_PWM_Start/Stop\<close> and
  \<^verbatim>\<open>HAL_TIMEx_PWMN_Start/Stop\<close> switch.\<close>

record TIM1_regs =
  ARR :: "32 word"
  CCR1 :: "32 word"
  CCR2 :: "32 word"
  CCR3 :: "32 word"
  CH1 :: bool
  CH1N :: bool
  CH2 :: bool
  CH2N :: bool
  CH3 :: bool
  CH3N :: bool

text \<open>The globals of \<^verbatim>\<open>control.c\<close>, \<^verbatim>\<open>adc.c\<close>, \<^verbatim>\<open>fault.c\<close>, \<^verbatim>\<open>flag.c\<close>, \<^verbatim>\<open>inv.c\<close>,
  \<^verbatim>\<open>speed_observer.c\<close> and \<^verbatim>\<open>variable.c\<close> that the modelled functions use, the static
  local \<^verbatim>\<open>AdDummyCnt\<close> of \<^verbatim>\<open>Offset()\<close>, and the hardware they touch: the injected data
  registers of ADC1, the three Hall pins, timer 1 and the enable pin of the gate-driver
  buffer (\<open>PWM_BUF\<close>).\<close>

record state =
  ControlCnt :: "32 word"
  JDR1 :: "32 word"
  JDR2 :: "32 word"
  JDR3 :: "32 word"
  JDR4 :: "32 word"
  AdInitFlag :: int
  adc1Val :: "real list"
  ADC1_Result :: "real list"
  ADC1_Offset :: "real list"
  ADC1_Offset_sum :: "32 word list"
  scale_comp :: real
  ADCgain :: "real list"
  Ia_arr :: "real list"
  store_cnt :: int
  store_flag :: int
  AdOffCalcCnt :: "32 word"
  AdDummyCnt :: "32 word"
  FaultCnt :: "16 word"
  FLTVAL :: FAULT_VAL
  FLAG :: CONTROL_FLAG
  INV :: INVERTER
  EXT_1 :: "real EXT_Sensorless"
  Mode_align :: int
  Time_align :: real
  cnt_inj :: int
  Align_done :: int
  Theta_mode :: int
  Van :: real
  Vbn :: real
  Vcn :: real
  Vdss_ref_set :: real
  Vqss_ref_set :: real
  GPIOC_PIN_6 :: bool
  GPIOC_PIN_7 :: bool
  GPIOD_PIN_2 :: bool
  htim1 :: TIM1_regs
  PWM_BUF :: bool

text \<open>The constants and macros of the absent headers (\<^verbatim>\<open>inv.h\<close>, \<^verbatim>\<open>variable.h\<close>),
  taken as parameters; \<open>f32\<close> is the rounding of a sum stored in a \<^verbatim>\<open>float\<close>.\<close>

record platform =
  Tsamp :: real
  INV_3 :: real
  INV_SQRT3 :: real
  SQRT3HALF :: real
  RPM2RM :: real
  RM2RPM :: real
  Rm2Rpm :: real
  PIOF3 :: real
  BOUND_PI :: "real \<Rightarrow> real"
  COS :: "real \<Rightarrow> real"
  SIN :: "real \<Rightarrow> real \<Rightarrow> real"
  f32 :: "real \<Rightarrow> real"

subsection \<open>Macros and library functions\<close>

definition ABS :: "real \<Rightarrow> real" where
  \<comment> \<open>Modelled from the spec: the macro \<^verbatim>\<open>ABS\<close> of the absent header; the specification
     compares the magnitude of a phase current with 80 A.\<close>
  "ABS x = (if x < 0 then - x else x)"

definition MAX2 :: "real \<Rightarrow> real \<Rightarrow> real" where
  \<comment> \<open>Modelled from the spec: the macro \<^verbatim>\<open>MAX\<close> of the absent header (\<open>MAX\<close> is taken in HOL); the specification
     clamps the bus voltage to a minimum of 1 V before taking its reciprocal.\<close>
  "MAX2 a b = (if a > b then a else b)"

definition LIMIT :: "real \<Rightarrow> real \<Rightarrow> real \<Rightarrow> real" where
  \<comment> \<open>Modelled from the spec: the macro \<^verbatim>\<open>LIMIT\<close> of the absent header; the specification
     calls it a saturation (clamp) to the interval of its second and third argument.\<close>
  "LIMIT x lo hi = (if x > hi then hi else if x < lo then lo else x)"

subsection \<open>Single precision\<close>

text \<open>IEEE 754 single precision, rounding to nearest: a real number is rounded to the
  nearest multiple of the unit in the last place of its binade (of the smallest normal
  binade, \<open>2 ^ -126\<close>, for a subnormal number), a tie to the even multiple. \<open>round32\<close> is
  this rounding without the overflow to infinity.\<close>

definition rne :: "real \<Rightarrow> int" where
  "rne x = (let f = \<lfloor>x\<rfloor>; d = x - of_int f
            in if d < 1 / 2 then f else if d > 1 / 2 then f + 1
               else if even f then f else f + 1)"

definition round32 :: "real \<Rightarrow> real" where
  "round32 y =
     (if y = 0 then 0
      else (let u = 2 powr of_int (max \<lfloor>log 2 \<bar>y\<bar>\<rfloor> (- 126) - 23)
            in of_int (rne (y / u)) * u))"

definition f2u32 :: "real \<Rightarrow> 32 word" where
  \<comment> \<open>The conversion of a \<^verbatim>\<open>float\<close> to \<^verbatim>\<open>unsigned int\<close> or \<^verbatim>\<open>unsigned long\<close>: the
     value is truncated toward zero. C leaves the conversion of a value that is \<open>-1\<close> or
     less, or too large, undefined; the model wraps it.\<close>
  "f2u32 x = word_of_int (if x < 0 then \<lceil>x\<rceil> else \<lfloor>x\<rfloor>)"

definition u2f :: "32 word \<Rightarrow> real" where
  \<comment> \<open>The conversion of an unsigned integer to \<^verbatim>\<open>float\<close>: exact below \<open>2 ^ 24\<close>, rounded
     above.\<close>
  "u2f w = round32 (real (unat w))"

text \<open>The values of a \<^verbatim>\<open>float\<close> with the infinities and NaN, for the observer
  \<^verbatim>\<open>EXT_SS_Sync\<close>, and the operations on them: a result of magnitude \<open>2 ^ 128 - 2 ^ 103\<close>
  or more (the largest \<^verbatim>\<open>float\<close> plus half a unit in its last place) overflows to an
  infinity, the product of zero and an infinity and the sum of opposite infinities are
  NaN, NaN propagates, and every comparison with NaN is false. The sign of a zero is not
  modelled.\<close>

datatype float32 = Finite real | PInf | MInf | NaN

definition to_float :: "real \<Rightarrow> float32" where
  "to_float x =
     (if 2 ^ 128 - 2 ^ 103 \<le> x then PInf
      else if x \<le> - (2 ^ 128 - 2 ^ 103) then MInf
      else Finite (round32 x))"

fun fneg :: "float32 \<Rightarrow> float32" where
  "fneg (Finite x) = Finite (- x)"
| "fneg PInf = MInf"
| "fneg MInf = PInf"
| "fneg NaN = NaN"

fun fadd :: "float32 \<Rightarrow> float32 \<Rightarrow> float32" where
  "fadd (Finite x) (Finite y) = to_float (x + y)"
| "fadd NaN b = NaN"
| "fadd a NaN = NaN"
| "fadd PInf MInf = NaN"
| "fadd MInf PInf = NaN"
| "fadd PInf b = PInf"
| "fadd a PInf = PInf"
| "fadd MInf b = MInf"
| "fadd a MInf = MInf"

definition fsub :: "float32 \<Rightarrow> float32 \<Rightarrow> float32" where
  "fsub a b = fadd a (fneg b)"

fun fmul :: "float32 \<Rightarrow> float32 \<Rightarrow> float32" where
  "fmul (Finite x) (Finite y) = to_float (x * y)"
| "fmul NaN b = NaN"
| "fmul a NaN = NaN"
| "fmul (Finite x) PInf = (if x = 0 then NaN else if 0 < x then PInf else MInf)"
| "fmul (Finite x) MInf = (if x = 0 then NaN else if 0 < x then MInf else PInf)"
| "fmul PInf (Finite y) = (if y = 0 then NaN else if 0 < y then PInf else MInf)"
| "fmul MInf (Finite y) = (if y = 0 then NaN else if 0 < y then MInf else PInf)"
| "fmul PInf PInf = PInf"
| "fmul PInf MInf = MInf"
| "fmul MInf PInf = MInf"
| "fmul MInf MInf = PInf"

fun fabs :: "float32 \<Rightarrow> float32" where
  "fabs (Finite x) = Finite \<bar>x\<bar>"
| "fabs PInf = PInf"
| "fabs MInf = PInf"
| "fabs NaN = NaN"

fun flt :: "float32 \<Rightarrow> float32 \<Rightarrow> bool" where
  \<comment> \<open>The comparison \<^verbatim>\<open><\<close>.\<close>
  "flt (Finite x) (Finite y) = (x < y)"
| "flt NaN b = False"
| "flt a NaN = False"
| "flt a MInf = False"
| "flt PInf b = False"
| "flt MInf b = True"
| "flt a PInf = True"

definition fle :: "float32 \<Rightarrow> float32 \<Rightarrow> bool" where
  \<comment> \<open>The comparison \<^verbatim>\<open><=\<close>.\<close>
  "fle a b = (a \<noteq> NaN \<and> b \<noteq> NaN \<and> \<not> flt b a)"

fun sinf :: "float32 \<Rightarrow> float32" where
  \<comment> \<open>The C library function \<^verbatim>\<open>sinf\<close>, taken as correctly rounded.\<close>
  "sinf (Finite x) = to_float (sin x)"
| "sinf a = NaN"

fun cosf :: "float32 \<Rightarrow> float32" where
  \<comment> \<open>The C library function \<^verbatim>\<open>cosf\<close>, taken as correctly rounded.\<close>
  "cosf (Finite x) = to_float (cos x)"
| "cosf a = NaN"

definition atan2 :: "real \<Rightarrow> real \<Rightarrow> real" where
  \<comment> \<open>The angle of the point \<open>(x, y)\<close> in \<open>(-\<pi>, \<pi>]\<close>, 0 at the origin.\<close>
  "atan2 y x =
     (if x > 0 then arctan (y / x)
      else if x < 0 \<and> y \<ge> 0 then arctan (y / x) + pi
      else if x < 0 then arctan (y / x) - pi
      else if y > 0 then pi / 2
      else if y < 0 then - pi / 2
      else 0)"

fun atan2f :: "float32 \<Rightarrow> float32 \<Rightarrow> float32" where
  \<comment> \<open>The C library function \<^verbatim>\<open>atan2f(y, x)\<close>, taken as correctly rounded, with the
     values that Annex F of the C standard gives it at the infinities; at \<open>(0, 0)\<close> it
     returns 0.\<close>
  "atan2f (Finite y) (Finite x) = to_float (atan2 y x)"
| "atan2f NaN b = NaN"
| "atan2f a NaN = NaN"
| "atan2f (Finite y) PInf = Finite 0"
| "atan2f (Finite y) MInf = to_float (if y < 0 then - pi else pi)"
| "atan2f PInf (Finite x) = to_float (pi / 2)"
| "atan2f MInf (Finite x) = to_float (- pi / 2)"
| "atan2f PInf PInf = to_float (pi / 4)"
| "atan2f PInf MInf = to_float (3 * pi / 4)"
| "atan2f MInf PInf = to_float (- pi / 4)"
| "atan2f MInf MInf = to_float (- 3 * pi / 4)"

subsection \<open>PWM output (\<^verbatim>\<open>inv.c\<close>, lines 914--958)\<close>

definition PWM_BUF_ON :: "state \<Rightarrow> state" where
  \<comment> \<open>Modelled from the spec: the macro \<^verbatim>\<open>PWM_BUF_ON\<close> of the absent header, the request
     that enables the output gate.\<close>
  "PWM_BUF_ON s = s\<lparr>PWM_BUF := True\<rparr>"

definition PWM_BUF_OFF :: "state \<Rightarrow> state" where
  \<comment> \<open>Modelled from the spec: the macro \<^verbatim>\<open>PWM_BUF_OFF\<close> of the absent header, the request
     that disables the output gate.\<close>
  "PWM_BUF_OFF s = s\<lparr>PWM_BUF := False\<rparr>"

definition PwmSwOn :: "state \<Rightarrow> state" where
  "PwmSwOn s =
     s\<lparr>htim1 := (htim1 s)\<lparr>CH1 := True, CH1N := True, CH2 := True, CH2N := True,
                             CH3 := True, CH3N := True\<rparr>\<rparr>"

definition PwmSwOff :: "state \<Rightarrow> state" where
  "PwmSwOff s =
     (let s = PWM_BUF_OFF s;
          s = s\<lparr>INV := (INV s)\<lparr>Duty_A := 0\<rparr>\<rparr>;
          s = s\<lparr>INV := (INV s)\<lparr>Duty_B := 0\<rparr>\<rparr>;
          s = s\<lparr>INV := (INV s)\<lparr>Duty_C := 0\<rparr>\<rparr>
      in s\<lparr>htim1 := (htim1 s)\<lparr>CH1 := False, CH1N := False, CH2 := False, CH2N := False,
                                CH3 := False, CH3N := False\<rparr>\<rparr>)"

definition PwmDutyUpt :: "state \<Rightarrow> state" where
  \<comment> \<open>\<^verbatim>\<open>(unsigned int)(INV.Duty_A * htim1.Instance->ARR)\<close>: the register is converted to
     \<^verbatim>\<open>float\<close>, the product is rounded to a \<^verbatim>\<open>float\<close> and then truncated.\<close>
  "PwmDutyUpt s =
     (let s = s\<lparr>htim1 := (htim1 s)\<lparr>CCR1 :=
                  f2u32 (round32 (Duty_A (INV s) * u2f (ARR (htim1 s))))\<rparr>\<rparr>;
          s = s\<lparr>htim1 := (htim1 s)\<lparr>CCR2 :=
                  f2u32 (round32 (Duty_B (INV s) * u2f (ARR (htim1 s))))\<rparr>\<rparr>;
          s = s\<lparr>htim1 := (htim1 s)\<lparr>CCR3 :=
                  f2u32 (round32 (Duty_C (INV s) * u2f (ARR (htim1 s))))\<rparr>\<rparr>
      in s)"

subsection \<open>Fault handling (\<^verbatim>\<open>fault.c\<close>)\<close>

definition HardWareFault :: "state \<Rightarrow> state" where
  "HardWareFault s =
     (let s = PwmSwOff s;
          s = s\<lparr>FLAG := (FLAG s)\<lparr>FAULT := 1\<rparr>\<rparr>;
          s = s\<lparr>FLAG := (FLAG s)\<lparr>READY := 0\<rparr>\<rparr>;
          s = s\<lparr>FLTVAL := (FLTVAL s)\<lparr>FLT_Vdc := Vdc (INV s)\<rparr>\<rparr>;
          s = s\<lparr>FLTVAL := (FLTVAL s)\<lparr>FLT_Idc := Idc (INV s)\<rparr>\<rparr>;
          s = s\<lparr>FLTVAL := (FLTVAL s)\<lparr>FLT_Ia := Ia (INV s)\<rparr>\<rparr>;
          s = s\<lparr>FLTVAL := (FLTVAL s)\<lparr>FLT_Ib := Ib (INV s)\<rparr>\<rparr>;
          s = s\<lparr>FLTVAL := (FLTVAL s)\<lparr>FLT_Ic := Ic (INV s)\<rparr>\<rparr>;
          s = s\<lparr>FLTVAL := (FLTVAL s)\<lparr>FLT_Wrpm := Wrpm (INV s)\<rparr>\<rparr>
      in s\<lparr>FaultCnt := FaultCnt s + 1\<rparr>)"

definition HAL_GPIO_EXTI_Callback :: "state \<Rightarrow> state" where
  "HAL_GPIO_EXTI_Callback s = HardWareFault (PwmSwOff s)"

definition SoftWareFault :: "state \<Rightarrow> state" where
  "SoftWareFault s =
     (let s = PwmSwOff s;
          s = s\<lparr>FLAG := (FLAG s)\<lparr>READY := 0\<rparr>\<rparr>;
          s = (if FAULT (FLAG s) \<noteq> 1 then s\<lparr>FLAG := (FLAG s)\<lparr>FAULT := 2\<rparr>\<rparr> else s);
          s = s\<lparr>FLTVAL := (FLTVAL s)\<lparr>FLT_Vdc := Vdc (INV s)\<rparr>\<rparr>;
          s = s\<lparr>FLTVAL := (FLTVAL s)\<lparr>FLT_Idc := Idc (INV s)\<rparr>\<rparr>;
          s = s\<lparr>FLTVAL := (FLTVAL s)\<lparr>FLT_Ia := Ia (INV s)\<rparr>\<rparr>;
          s = s\<lparr>FLTVAL := (FLTVAL s)\<lparr>FLT_Ib := Ib (INV s)\<rparr>\<rparr>;
          s = s\<lparr>FLTVAL := (FLTVAL s)\<lparr>FLT_Ic := Ic (INV s)\<rparr>\<rparr>;
          s = s\<lparr>FLTVAL := (FLTVAL s)\<lparr>FLT_Wrpm := Wrpm (INV s)\<rparr>\<rparr>
      in s\<lparr>FaultCnt := FaultCnt s + 1\<rparr>)"

subsection \<open>Sampling and offset calibration (\<^verbatim>\<open>adc.c\<close>, lines 197--250)\<close>

text \<open>The sampling path in single precision: every operation of \<^verbatim>\<open>AdcProcess\<close> and the
  quotient of \<^verbatim>\<open>Offset\<close> are rounded, each on its own, and a constant with the suffix
  \<^verbatim>\<open>f\<close> is the \<^verbatim>\<open>float\<close> nearest to it.\<close>

definition AdcProcess :: "state \<Rightarrow> state" where
  "AdcProcess s =
     (let s = s\<lparr>ADC1_Result := (ADC1_Result s)[0 :=
                  round32 (round32 (adc1Val s ! 0 - ADC1_Offset s ! 0) / round32 81.9)]\<rparr>;
          s = s\<lparr>ADC1_Result := (ADC1_Result s)[1 :=
                  round32 (round32 (adc1Val s ! 1 - ADC1_Offset s ! 1) / round32 81.9)]\<rparr>;
          s = s\<lparr>ADC1_Result := (ADC1_Result s)[2 :=
                  round32 (round32 (adc1Val s ! 2 - ADC1_Offset s ! 2) / round32 81.9)]\<rparr>;
          s = s\<lparr>ADC1_Result := (ADC1_Result s)[3 := round32 (adc1Val s ! 3 / round32 203.4)]\<rparr>;
          s = s\<lparr>INV := (INV s)\<lparr>Ia :=
                  round32 (round32 (ADCgain s ! 0 * ADC1_Result s ! 0) * scale_comp s)\<rparr>\<rparr>;
          s = s\<lparr>INV := (INV s)\<lparr>Ib :=
                  round32 (round32 (ADCgain s ! 1 * ADC1_Result s ! 1) * scale_comp s)\<rparr>\<rparr>;
          s = s\<lparr>INV := (INV s)\<lparr>Ic :=
                  round32 (round32 (ADCgain s ! 2 * ADC1_Result s ! 2) * scale_comp s)\<rparr>\<rparr>;
          s = s\<lparr>INV := (INV s)\<lparr>Vdc :=
                  round32 (round32 (ADCgain s ! 3 * ADC1_Result s ! 3) * scale_comp s)\<rparr>\<rparr>;
          alpha = round32 0.999;
          s = s\<lparr>INV := (INV s)\<lparr>Vdc_control :=
                  round32 (round32 (Vdc (INV s) * round32 (1.0 - alpha))
                           + round32 (alpha * Vdc_control (INV s)))\<rparr>\<rparr>;
          s = s\<lparr>INV := (INV s)\<lparr>Vdc := Vdc_control (INV s)\<rparr>\<rparr>;
          s = s\<lparr>INV := (INV s)\<lparr>INV_Vdc := round32 (1.0 / MAX2 (Vdc_control (INV s)) 1)\<rparr>\<rparr>
      in if store_flag s = 1 then
           (if store_cnt s < 3000
            then s\<lparr>Ia_arr := (Ia_arr s)[nat (store_cnt s) := Ia (INV s)],
                   store_cnt := store_cnt s + 1\<rparr>
            else s\<lparr>store_flag := 0\<rparr>)
         else s)"

definition Offset :: "state \<Rightarrow> state" where
  "Offset s =
     (if AdDummyCnt s < 5000 then s\<lparr>AdDummyCnt := AdDummyCnt s + 1\<rparr>
      else
        (let s = s\<lparr>AdOffCalcCnt := AdOffCalcCnt s + 1\<rparr>;
             s = s\<lparr>ADC1_Offset_sum :=
                    (ADC1_Offset_sum s)[0 := ADC1_Offset_sum s ! 0 + f2u32 (adc1Val s ! 0)]\<rparr>;
             s = s\<lparr>ADC1_Offset_sum :=
                    (ADC1_Offset_sum s)[1 := ADC1_Offset_sum s ! 1 + f2u32 (adc1Val s ! 1)]\<rparr>;
             s = s\<lparr>ADC1_Offset_sum :=
                    (ADC1_Offset_sum s)[2 := ADC1_Offset_sum s ! 2 + f2u32 (adc1Val s ! 2)]\<rparr>
         in if AdOffCalcCnt s = 5000 then
              (let s = s\<lparr>ADC1_Offset := (ADC1_Offset s)[0 :=
                          round32 (u2f (ADC1_Offset_sum s ! 0) / 5000)]\<rparr>;
                   s = s\<lparr>ADC1_Offset := (ADC1_Offset s)[1 :=
                          round32 (u2f (ADC1_Offset_sum s ! 1) / 5000)]\<rparr>;
                   s = s\<lparr>ADC1_Offset := (ADC1_Offset s)[2 :=
                          round32 (u2f (ADC1_Offset_sum s ! 2) / 5000)]\<rparr>
               in s\<lparr>AdInitFlag := 1\<rparr>)
            else s))"

subsection \<open>Regulator gains and reset (\<^verbatim>\<open>inv.c\<close>, lines 251--307)\<close>

definition UpdateController :: "state \<Rightarrow> state" where
  "UpdateController s =
     (let i = INV s;
          i = i\<lparr>Kpd_cc := Wcc i * Ld i\<rparr>;
          i = i\<lparr>Kpq_cc := Wcc i * Lq i\<rparr>;
          i = i\<lparr>Kid_cc := Wcc i * Rs i\<rparr>;
          i = i\<lparr>Kiq_cc := Wcc i * Rs i\<rparr>;
          i = i\<lparr>Kad_cc := 1 / max (Kpd_cc i) (1 / 10 ^ 9)\<rparr>;
          i = i\<lparr>Kaq_cc := 1 / max (Kpq_cc i) (1 / 10 ^ 9)\<rparr>;
          i = i\<lparr>Kp_sc := Jm i * Wsc i\<rparr>;
          i = i\<lparr>Ki_scale := 0.25\<rparr>;
          i = i\<lparr>Ki_sc := Kp_sc i * Wsc i * Ki_scale i\<rparr>;
          i = i\<lparr>Ka_sc := 1 / max (Kp_sc i) (1 / 10 ^ 9)\<rparr>
      in s\<lparr>INV := i\<rparr>)"

definition ResetController :: "state \<Rightarrow> state" where
  "ResetController s =
     (let i = INV s;
          i = i\<lparr>Wrm_ref_set := 0\<rparr>;
          i = i\<lparr>Wrpm_ref_set := 0\<rparr>;
          i = i\<lparr>Wrpm_ref_set_old := 0\<rparr>;
          i = i\<lparr>Wrm_ref := 0\<rparr>;
          i = i\<lparr>Wrpm_ref := 0\<rparr>;
          i = i\<lparr>Te_ref_integ := 0\<rparr>;
          i = i\<lparr>Te_ref_aw := 0\<rparr>;
          i = i\<lparr>Idsr_ref_integ := 0\<rparr>;
          i = i\<lparr>Idsr_ref_aw := 0\<rparr>;
          i = i\<lparr>Te_ref_sat := 0\<rparr>;
          i = i\<lparr>Te_ref := 0\<rparr>;
          i = i\<lparr>Idsr_ref := 0\<rparr>;
          i = i\<lparr>Iqsr_ref := 0\<rparr>;
          i = i\<lparr>Idsr_ref_OLC := 0\<rparr>;
          i = i\<lparr>Iqsr_ref_OLC := 0\<rparr>;
          i = i\<lparr>Vdsr_ref_OLC := 0\<rparr>;
          i = i\<lparr>Vqsr_ref_OLC := 0\<rparr>;
          i = i\<lparr>Thetar_OLC := 0\<rparr>;
          i = i\<lparr>Wrpm_ref_OLC := 0\<rparr>;
          i = i\<lparr>Wrpm_ref_set_OLC := 0\<rparr>;
          i = i\<lparr>Wrpm_slope_OLC := 5\<rparr>;
          i = i\<lparr>Vdsr_ref_integ := 0\<rparr>;
          i = i\<lparr>Vqsr_ref_integ := 0\<rparr>;
          i = i\<lparr>Vdsr_ref_unsat := 0\<rparr>;
          i = i\<lparr>Vqsr_ref_unsat := 0\<rparr>;
          i = i\<lparr>Vdsr_ref_aw := 0\<rparr>;
          i = i\<lparr>Vqsr_ref_aw := 0\<rparr>;
          i = i\<lparr>TestDuty_A := 0\<rparr>;
          i = i\<lparr>TestDuty_B := 0\<rparr>;
          i = i\<lparr>TestDuty_C := 0\<rparr>;
          i = i\<lparr>alpha_LPF := 0\<rparr>
      in s\<lparr>INV := i\<rparr>)"

subsection \<open>Current regulator (\<^verbatim>\<open>inv.c\<close>, lines 354--462)\<close>

definition CurrentControl :: "platform \<Rightarrow> state \<Rightarrow> state" where
  "CurrentControl P s =
     (let i = INV s;
          i = (if INV_RUN (FLAG s) \<noteq> 0 then
                 (let i = i\<lparr>Iqsr_ref_unsat := Te_ref i * INV_Kt i\<rparr>;
                      i = i\<lparr>Iqsr_ref := LIMIT (Iqsr_ref_unsat i) (- 3 * Is_rated i) (3 * Is_rated i)\<rparr>
                  in i\<lparr>Idsr_ref := 0\<rparr>)
               else i);
          i = i\<lparr>Vdsr_ref_old := Vdsr_ref i\<rparr>;
          i = i\<lparr>Vqsr_ref_old := Vqsr_ref i\<rparr>;
          \<comment> \<open>Clarke transform\<close>
          i = i\<lparr>Idss := (2 * Ia i - Ib i - Ic i) * INV_3 P\<rparr>;
          i = i\<lparr>Iqss := (Ib i - Ic i) * INV_SQRT3 P\<rparr>;
          s = s\<lparr>Vdss_ref_set := (2 * Van s - Vbn s - Vcn s) * INV_3 P\<rparr>;
          s = s\<lparr>Vqss_ref_set := INV_SQRT3 P * (Vbn s - Vcn s)\<rparr>;
          \<comment> \<open>angle selection\<close>
          i = (if Theta_mode s = 1 then
                 (let i = i\<lparr>Thetar := Thetar_OLC i\<rparr>
                  in i\<lparr>Wr := Wrpm_ref_OLC i * RPM2RM P * PP i\<rparr>)
               else
                 (let i = i\<lparr>Thetar := Thetar_est_Hall i\<rparr>
                  in i\<lparr>Wr := Wr_est_Hall i\<rparr>));
          i = i\<lparr>Wrm := Wr i * INV_PP i\<rparr>;
          i = i\<lparr>Wrpm := Wrm i * RM2RPM P\<rparr>;
          i = i\<lparr>Thetar_adv := BOUND_PI P (Thetar i + 1.5 * Wr i * Tsamp P)\<rparr>;
          i = i\<lparr>cosThetar := COS P (Thetar i * Thetar i)\<rparr>;
          i = i\<lparr>sinThetar := SIN P (Thetar i) (Thetar i * Thetar i)\<rparr>;
          i = i\<lparr>cosThetar_adv := COS P (Thetar_adv i * Thetar_adv i)\<rparr>;
          i = i\<lparr>sinThetar_adv := SIN P (Thetar_adv i) (Thetar_adv i * Thetar_adv i)\<rparr>;
          \<comment> \<open>Park transform\<close>
          i = i\<lparr>Idsr := Idss i * cosThetar i + Iqss i * sinThetar i\<rparr>;
          i = i\<lparr>Iqsr := - Idss i * sinThetar i + Iqss i * cosThetar i\<rparr>;
          \<comment> \<open>PI regulator with anti-windup\<close>
          i = i\<lparr>Idsr_err := Idsr_ref i - Idsr i\<rparr>;
          i = i\<lparr>Iqsr_err := Iqsr_ref i - Iqsr i\<rparr>;
          i = i\<lparr>Vdsr_ref_integ := Vdsr_ref_integ i
                 + Kid_cc i * (Idsr_err i - Kad_cc i * Vdsr_ref_aw i) * Tsamp P\<rparr>;
          i = i\<lparr>Vqsr_ref_integ := Vqsr_ref_integ i
                 + Kiq_cc i * (Iqsr_err i - Kaq_cc i * Vqsr_ref_aw i) * Tsamp P\<rparr>;
          i = i\<lparr>Vdsr_ref_ff := - Wr i * Lq i * Iqsr_ref i\<rparr>;
          i = i\<lparr>Vqsr_ref_ff := Wr i * (Ld i * Idsr_ref i + Lamf i)\<rparr>;
          i = i\<lparr>Vdsr_ref_unsat_old := Kpd_cc i * Idsr_err i + Vdsr_ref_integ i + Vdsr_ref_ff i
                 - Ractive i * Idsr i\<rparr>;
          i = i\<lparr>Vqsr_ref_unsat_old := Kpq_cc i * Iqsr_err i + Vqsr_ref_integ i + Vqsr_ref_ff i
                 - Ractive i * Iqsr i\<rparr>;
          i = i\<lparr>Vdsr_ref_unsat := alpha_LPF i * Vdsr_ref_unsat i
                 + (1 - alpha_LPF i) * Vdsr_ref_unsat_old i\<rparr>;
          i = i\<lparr>Vqsr_ref_unsat := alpha_LPF i * Vqsr_ref_unsat i
                 + (1 - alpha_LPF i) * Vqsr_ref_unsat_old i\<rparr>;
          \<comment> \<open>voltage saturation\<close>
          i = i\<lparr>Vdsr_ref := LIMIT (Vdsr_ref_unsat i) (- Vdc i * INV_SQRT3 P) (Vdc i * INV_SQRT3 P)\<rparr>;
          i = i\<lparr>Vqsr_ref := LIMIT (Vqsr_ref_unsat i) (- Vdc i * INV_SQRT3 P) (Vdc i * INV_SQRT3 P)\<rparr>;
          i = i\<lparr>Vdsr_ref_aw := Vdsr_ref_unsat i - Vdsr_ref i\<rparr>;
          i = i\<lparr>Vqsr_ref_aw := Vqsr_ref_unsat i - Vqsr_ref i\<rparr>;
          \<comment> \<open>inverse Park and inverse Clarke transform\<close>
          i = i\<lparr>Vdss_ref := Vdsr_ref i * cosThetar_adv i - Vqsr_ref i * sinThetar_adv i\<rparr>;
          i = i\<lparr>Vqss_ref := Vdsr_ref i * sinThetar_adv i + Vqsr_ref i * cosThetar_adv i\<rparr>;
          i = i\<lparr>Vas_ref := Vdss_ref i\<rparr>;
          i = i\<lparr>Vbs_ref := - 0.5 * Vdss_ref i + SQRT3HALF P * Vqss_ref i\<rparr>;
          i = i\<lparr>Vcs_ref := - 0.5 * Vdss_ref i - SQRT3HALF P * Vqss_ref i\<rparr>;
          \<comment> \<open>SVPWM offset\<close>
          i = i\<lparr>Vmax := Vas_ref i\<rparr>;
          i = (if Vmax i < Vbs_ref i then i\<lparr>Vmax := Vbs_ref i\<rparr> else i);
          i = (if Vmax i < Vcs_ref i then i\<lparr>Vmax := Vcs_ref i\<rparr> else i);
          i = i\<lparr>Vmin := Vas_ref i\<rparr>;
          i = (if Vmin i > Vbs_ref i then i\<lparr>Vmin := Vbs_ref i\<rparr> else i);
          i = (if Vmin i > Vcs_ref i then i\<lparr>Vmin := Vcs_ref i\<rparr> else i);
          i = i\<lparr>Voffset := - 0.5 * (Vmax i + Vmin i)\<rparr>;
          \<comment> \<open>current references in the stationary frame\<close>
          i = i\<lparr>Idss_ref := Idsr_ref i * cosThetar_adv i - Iqsr_ref i * sinThetar_adv i\<rparr>;
          i = i\<lparr>Iqss_ref := Idsr_ref i * sinThetar_adv i + Iqsr_ref i * cosThetar_adv i\<rparr>;
          i = i\<lparr>Ia_ref := Idss_ref i\<rparr>;
          i = i\<lparr>Ib_ref := - 0.5 * Idss_ref i + SQRT3HALF P * Iqss_ref i\<rparr>;
          i = i\<lparr>Ic_ref := - 0.5 * Idss_ref i - SQRT3HALF P * Iqss_ref i\<rparr>;
          \<comment> \<open>nonlinear compensation\<close>
          i = i\<lparr>Va_NLC := A_NLC i * arctan (B_NLC i * Ia_ref i)\<rparr>;
          i = i\<lparr>Vb_NLC := A_NLC i * arctan (B_NLC i * Ib_ref i)\<rparr>;
          i = i\<lparr>Vc_NLC := A_NLC i * arctan (B_NLC i * Ic_ref i)\<rparr>;
          i = i\<lparr>Van_ref := LIMIT (Vas_ref i + Voffset i + Va_NLC i) (- 0.5 * Vdc i) (0.5 * Vdc i)\<rparr>;
          i = i\<lparr>Vbn_ref := LIMIT (Vbs_ref i + Voffset i + Vb_NLC i) (- 0.5 * Vdc i) (0.5 * Vdc i)\<rparr>;
          i = i\<lparr>Vcn_ref := LIMIT (Vcs_ref i + Voffset i + Vc_NLC i) (- 0.5 * Vdc i) (0.5 * Vdc i)\<rparr>;
          s = s\<lparr>Van := Van_ref i\<rparr>;
          s = s\<lparr>Vbn := Vbn_ref i\<rparr>;
          s = s\<lparr>Vcn := Vcn_ref i\<rparr>;
          \<comment> \<open>duties\<close>
          i = i\<lparr>Duty_A := LIMIT (Van_ref i * INV_Vdc i + 0.5) 0 1\<rparr>;
          i = i\<lparr>Duty_B := LIMIT (Vbn_ref i * INV_Vdc i + 0.5) 0 1\<rparr>;
          i = i\<lparr>Duty_C := LIMIT (Vcn_ref i * INV_Vdc i + 0.5) 0 1\<rparr>;
          s = s\<lparr>INV := i\<rparr>;
          s = PwmSwOn s;
          s = PwmDutyUpt s
      in if FAULT (FLAG s) = 0 then PWM_BUF_ON s else s)"

subsection \<open>Speed regulator and open-loop references (\<^verbatim>\<open>inv.c\<close>, lines 473--523)\<close>

definition SpeedControl :: "platform \<Rightarrow> state \<Rightarrow> state" where
  "SpeedControl P s =
     (let i = INV s;
          i = i\<lparr>Wrpm_ref_set := Wrpm_ref_cmd i\<rparr>;
          i = (if ABS (Wrpm_ref_set i) < 0.05 * Wrpm_rated i then i\<lparr>Wrpm_ref_set := 0\<rparr> else i);
          i = i\<lparr>Wrm_ref_set := Wrpm_ref_set i * RPM2RM P\<rparr>;
          i = (if Wrm_ref i < Wrm_ref_set i - dWrm i then i\<lparr>Wrm_ref := Wrm_ref i + dWrm i\<rparr>
               else if Wrm_ref i > Wrm_ref_set i + dWrm i then i\<lparr>Wrm_ref := Wrm_ref i - dWrm i\<rparr>
               else i\<lparr>Wrm_ref := Wrm_ref_set i\<rparr>);
          i = i\<lparr>Wrpm_ref := Wrm_ref i * RM2RPM P\<rparr>;
          i = i\<lparr>Wrm_err := Wrm_ref i - Wrm i\<rparr>;
          i = i\<lparr>Te_ref_integ := Te_ref_integ i
                 + Ki_sc i * (Wrm_err i - Ka_sc i * Te_ref_aw i) * Tsamp P\<rparr>;
          i = i\<lparr>Te_ref_unsat := Kp_sc i * Wrm_err i + Te_ref_integ i\<rparr>;
          i = i\<lparr>Te_ref := LIMIT (Te_ref_unsat i) (- Te_rated i) (Te_rated i)\<rparr>;
          i = i\<lparr>Te_ref_aw := Te_ref_unsat i - Te_ref i\<rparr>
      in s\<lparr>INV := i\<rparr>)"

definition OpenLoopControl :: "platform \<Rightarrow> state \<Rightarrow> state" where
  "OpenLoopControl P s =
     (let i = INV s;
          i = (if Idsr_ref_set_OLC i > Idsr_ref_OLC i + Tsamp P * Idsr_slope_OLC i
               then i\<lparr>Idsr_ref_OLC := Idsr_ref_OLC i + Tsamp P * Idsr_slope_OLC i\<rparr>
               else if Idsr_ref_set_OLC i < Idsr_ref_OLC i - Tsamp P * Idsr_slope_OLC i
               then i\<lparr>Idsr_ref_OLC := Idsr_ref_OLC i - Tsamp P * Idsr_slope_OLC i\<rparr>
               else i\<lparr>Idsr_ref_OLC := Idsr_ref_set_OLC i\<rparr>);
          i = i\<lparr>Idsr_ref := Idsr_ref_OLC i\<rparr>;
          i = i\<lparr>Iqsr_ref := Iqsr_ref_OLC i\<rparr>;
          i = (if Wrpm_ref_set_OLC i > Wrpm_ref_OLC i + Tsamp P * Wrpm_slope_OLC i
               then i\<lparr>Wrpm_ref_OLC := Wrpm_ref_OLC i + Tsamp P * Wrpm_slope_OLC i\<rparr>
               else if Wrpm_ref_set_OLC i < Wrpm_ref_OLC i - Tsamp P * Wrpm_slope_OLC i
               then i\<lparr>Wrpm_ref_OLC := Wrpm_ref_OLC i - Tsamp P * Wrpm_slope_OLC i\<rparr>
               else i\<lparr>Wrpm_ref_OLC := Wrpm_ref_set_OLC i\<rparr>);
          i = i\<lparr>Thetar_OLC := BOUND_PI P (Thetar_OLC i + Wrpm_ref_OLC i * RPM2RM P * PP i * Tsamp P)\<rparr>
      in s\<lparr>INV := i\<rparr>)"

subsection \<open>Voltage feed-forward generator (\<^verbatim>\<open>inv.c\<close>, lines 534--617)\<close>

definition Vref_GenControl :: "platform \<Rightarrow> state \<Rightarrow> state" where
  "Vref_GenControl P s =
     (let i = INV s;
          i = (if Theta_mode s = 1 then
                 (let i = (if Idsr_ref_set_OLC i > Idsr_ref_OLC i + Tsamp P * Idsr_slope_OLC i
                           then i\<lparr>Idsr_ref_OLC := Idsr_ref_OLC i + Tsamp P * Idsr_slope_OLC i\<rparr>
                           else if Idsr_ref_set_OLC i < Idsr_ref_OLC i - Tsamp P * Idsr_slope_OLC i
                           then i\<lparr>Idsr_ref_OLC := Idsr_ref_OLC i - Tsamp P * Idsr_slope_OLC i\<rparr>
                           else i\<lparr>Idsr_ref_OLC := Idsr_ref_set_OLC i\<rparr>);
                      i = i\<lparr>Idsr_ref := Idsr_ref_OLC i\<rparr>;
                      i = i\<lparr>Iqsr_ref := Iqsr_ref_OLC i\<rparr>;
                      i = (if Wrpm_ref_set_OLC i > Wrpm_ref_OLC i + Tsamp P * Wrpm_slope_OLC i
                           then i\<lparr>Wrpm_ref_OLC := Wrpm_ref_OLC i + Tsamp P * Wrpm_slope_OLC i\<rparr>
                           else if Wrpm_ref_set_OLC i < Wrpm_ref_OLC i - Tsamp P * Wrpm_slope_OLC i
                           then i\<lparr>Wrpm_ref_OLC := Wrpm_ref_OLC i - Tsamp P * Wrpm_slope_OLC i\<rparr>
                           else i\<lparr>Wrpm_ref_OLC := Wrpm_ref_set_OLC i\<rparr>);
                      i = i\<lparr>Wr_ref_OLC := Wrpm_ref_OLC i * RPM2RM P * PP i\<rparr>;
                      i = i\<lparr>Vdsr_ref_OLC := Rs i * Idsr_ref_OLC i
                             - Wr_ref_OLC i * Lq i * Iqsr_ref_OLC i\<rparr>;
                      i = i\<lparr>Vqsr_ref_OLC := Rs i * Iqsr_ref_OLC i
                             + Wr_ref_OLC i * (Ld i * Idsr_ref_OLC i + Lamf i)\<rparr>;
                      i = i\<lparr>Vdsr_ref_unsat := Vdsr_ref_OLC i\<rparr>;
                      i = i\<lparr>Vqsr_ref_unsat := Vqsr_ref_OLC i\<rparr>;
                      i = i\<lparr>Thetar_OLC := BOUND_PI P (Thetar_OLC i + Wr_ref_OLC i * Tsamp P)\<rparr>
                  in i\<lparr>Thetar := Thetar_OLC i\<rparr>)
               else
                 (let i = i\<lparr>Iqsr_ref_unsat := Te_ref i * INV_Kt i\<rparr>;
                      i = i\<lparr>Iqsr_ref := LIMIT (Iqsr_ref_unsat i) (- 1.3 * Is_rated i) (1.3 * Is_rated i)\<rparr>;
                      i = i\<lparr>Idsr_ref := 0\<rparr>;
                      i = i\<lparr>Vdsr_ref := Rs i * Idsr_ref i - Wrm_ref i * PP i * Lq i * Iqsr_ref i\<rparr>;
                      i = i\<lparr>Vqsr_ref := Rs i * Iqsr_ref i
                             + Wrm_ref i * PP i * (Ld i * Idsr_ref i + Lamf i)\<rparr>;
                      i = i\<lparr>Vdsr_ref_unsat := Vdsr_ref i\<rparr>;
                      i = i\<lparr>Vqsr_ref_unsat := Vqsr_ref i\<rparr>
                  in i\<lparr>Thetar := Thetar_est_Hall i\<rparr>));
          i = i\<lparr>Thetar_adv := BOUND_PI P (Thetar i + 1.5 * Wr i * Tsamp P)\<rparr>;
          i = i\<lparr>cosThetar := COS P (Thetar i * Thetar i)\<rparr>;
          i = i\<lparr>sinThetar := SIN P (Thetar i) (Thetar i * Thetar i)\<rparr>;
          i = i\<lparr>cosThetar_adv := COS P (Thetar_adv i * Thetar_adv i)\<rparr>;
          i = i\<lparr>sinThetar_adv := SIN P (Thetar_adv i) (Thetar_adv i * Thetar_adv i)\<rparr>;
          i = i\<lparr>Vdsr_ref := LIMIT (Vdsr_ref_unsat i) (- Vdc i * INV_SQRT3 P) (Vdc i * INV_SQRT3 P)\<rparr>;
          i = i\<lparr>Vqsr_ref := LIMIT (Vqsr_ref_unsat i) (- Vdc i * INV_SQRT3 P) (Vdc i * INV_SQRT3 P)\<rparr>;
          i = i\<lparr>Vdsr_ref_aw := Vdsr_ref_unsat i - Vdsr_ref i\<rparr>;
          i = i\<lparr>Vqsr_ref_aw := Vqsr_ref_unsat i - Vqsr_ref i\<rparr>;
          i = i\<lparr>Vdss_ref := Vdsr_ref i * cosThetar_adv i - Vqsr_ref i * sinThetar_adv i\<rparr>;
          i = i\<lparr>Vqss_ref := Vdsr_ref i * sinThetar_adv i + Vqsr_ref i * cosThetar_adv i\<rparr>;
          i = i\<lparr>Vas_ref := Vdss_ref i\<rparr>;
          i = i\<lparr>Vbs_ref := - 0.5 * Vdss_ref i + SQRT3HALF P * Vqss_ref i\<rparr>;
          i = i\<lparr>Vcs_ref := - 0.5 * Vdss_ref i - SQRT3HALF P * Vqss_ref i\<rparr>;
          i = i\<lparr>Vmax := Vas_ref i\<rparr>;
          i = (if Vmax i < Vbs_ref i then i\<lparr>Vmax := Vbs_ref i\<rparr> else i);
          i = (if Vmax i < Vcs_ref i then i\<lparr>Vmax := Vcs_ref i\<rparr> else i);
          i = i\<lparr>Vmin := Vas_ref i\<rparr>;
          i = (if Vmin i > Vbs_ref i then i\<lparr>Vmin := Vbs_ref i\<rparr> else i);
          i = (if Vmin i > Vcs_ref i then i\<lparr>Vmin := Vcs_ref i\<rparr> else i);
          i = i\<lparr>Voffset := - 0.5 * (Vmax i + Vmin i)\<rparr>;
          i = i\<lparr>Van_ref := LIMIT (Vas_ref i + Voffset i) (- 0.5 * Vdc i) (0.5 * Vdc i)\<rparr>;
          i = i\<lparr>Vbn_ref := LIMIT (Vbs_ref i + Voffset i) (- 0.5 * Vdc i) (0.5 * Vdc i)\<rparr>;
          i = i\<lparr>Vcn_ref := LIMIT (Vcs_ref i + Voffset i) (- 0.5 * Vdc i) (0.5 * Vdc i)\<rparr>;
          s = s\<lparr>Van := Van_ref i\<rparr>;
          s = s\<lparr>Vbn := Vbn_ref i\<rparr>;
          s = s\<lparr>Vcn := Vcn_ref i\<rparr>;
          i = i\<lparr>Duty_A := LIMIT (Van_ref i * INV_Vdc i + 0.5) 0 1\<rparr>;
          i = i\<lparr>Duty_B := LIMIT (Vbn_ref i * INV_Vdc i + 0.5) 0 1\<rparr>;
          i = i\<lparr>Duty_C := LIMIT (Vcn_ref i * INV_Vdc i + 0.5) 0 1\<rparr>;
          s = s\<lparr>INV := i\<rparr>;
          s = PwmSwOn s;
          s = PwmDutyUpt s
      in if FAULT (FLAG s) = 0 then PWM_BUF_ON s else s)"

subsection \<open>Voltage open-loop control (\<^verbatim>\<open>inv.c\<close>, lines 627--683)\<close>

definition VoltageOpenLoopControl :: "platform \<Rightarrow> state \<Rightarrow> state" where
  "VoltageOpenLoopControl P s =
     (let i = INV s;
          i = i\<lparr>Vdsr_ref_unsat := Vdsr_ref_OLC i\<rparr>;
          i = i\<lparr>Vqsr_ref_unsat := Vqsr_ref_OLC i\<rparr>;
          i = i\<lparr>Thetar_OLC := BOUND_PI P (Thetar_OLC i + Wrpm_ref_OLC i * RPM2RM P * PP i * Tsamp P)\<rparr>;
          i = (if Theta_mode s \<noteq> 0 then
                 (let i = i\<lparr>Thetar := Thetar_EXT_old (EXT_1 s)\<rparr>
                  in i\<lparr>Wr := Wr_EXT_f (EXT_1 s)\<rparr>)
               else
                 (let i = i\<lparr>Thetar := Thetar_OLC i\<rparr>
                  in i\<lparr>Wr := Wrpm_ref_OLC i * RPM2RM P * PP i\<rparr>));
          i = i\<lparr>Idss := (2 * Ia i - Ib i - Ic i) * INV_3 P\<rparr>;
          i = i\<lparr>Iqss := (Ib i - Ic i) * INV_SQRT3 P\<rparr>;
          i = i\<lparr>Thetar_adv := BOUND_PI P (Thetar i + 1.5 * Wr i * Tsamp P)\<rparr>;
          i = i\<lparr>cosThetar := COS P (Thetar i * Thetar i)\<rparr>;
          i = i\<lparr>sinThetar := SIN P (Thetar i) (Thetar i * Thetar i)\<rparr>;
          i = i\<lparr>cosThetar_adv := COS P (Thetar_adv i * Thetar_adv i)\<rparr>;
          i = i\<lparr>sinThetar_adv := SIN P (Thetar_adv i) (Thetar_adv i * Thetar_adv i)\<rparr>;
          i = i\<lparr>Vdsr_ref := LIMIT (Vdsr_ref_unsat i) (- Vdc i * INV_SQRT3 P) (Vdc i * INV_SQRT3 P)\<rparr>;
          i = i\<lparr>Vqsr_ref := LIMIT (Vqsr_ref_unsat i) (- Vdc i * INV_SQRT3 P) (Vdc i * INV_SQRT3 P)\<rparr>;
          i = i\<lparr>Vdsr_ref_aw := Vdsr_ref_unsat i - Vdsr_ref i\<rparr>;
          i = i\<lparr>Vqsr_ref_aw := Vqsr_ref_unsat i - Vqsr_ref i\<rparr>;
          i = i\<lparr>Vdss_ref := Vdsr_ref i * cosThetar_adv i - Vqsr_ref i * sinThetar_adv i\<rparr>;
          i = i\<lparr>Vqss_ref := Vdsr_ref i * sinThetar_adv i + Vqsr_ref i * cosThetar_adv i\<rparr>;
          i = i\<lparr>Vas_ref := Vdss_ref i\<rparr>;
          i = i\<lparr>Vbs_ref := - 0.5 * Vdss_ref i + SQRT3HALF P * Vqss_ref i\<rparr>;
          i = i\<lparr>Vcs_ref := - 0.5 * Vdss_ref i - SQRT3HALF P * Vqss_ref i\<rparr>;
          i = i\<lparr>Vmax := Vas_ref i\<rparr>;
          i = (if Vmax i < Vbs_ref i then i\<lparr>Vmax := Vbs_ref i\<rparr> else i);
          i = (if Vmax i < Vcs_ref i then i\<lparr>Vmax := Vcs_ref i\<rparr> else i);
          i = i\<lparr>Vmin := Vas_ref i\<rparr>;
          i = (if Vmin i > Vbs_ref i then i\<lparr>Vmin := Vbs_ref i\<rparr> else i);
          i = (if Vmin i > Vcs_ref i then i\<lparr>Vmin := Vcs_ref i\<rparr> else i);
          i = i\<lparr>Voffset := - 0.5 * (Vmax i + Vmin i)\<rparr>;
          i = i\<lparr>Van_ref := LIMIT (Vas_ref i + Voffset i) (- 0.5 * Vdc i) (0.5 * Vdc i)\<rparr>;
          i = i\<lparr>Vbn_ref := LIMIT (Vbs_ref i + Voffset i) (- 0.5 * Vdc i) (0.5 * Vdc i)\<rparr>;
          i = i\<lparr>Vcn_ref := LIMIT (Vcs_ref i + Voffset i) (- 0.5 * Vdc i) (0.5 * Vdc i)\<rparr>;
          s = s\<lparr>Van := Van_ref i\<rparr>;
          s = s\<lparr>Vbn := Vbn_ref i\<rparr>;
          s = s\<lparr>Vcn := Vcn_ref i\<rparr>;
          i = i\<lparr>Duty_A := LIMIT (Van_ref i * INV_Vdc i + 0.5) 0 1\<rparr>;
          i = i\<lparr>Duty_B := LIMIT (Vbn_ref i * INV_Vdc i + 0.5) 0 1\<rparr>;
          i = i\<lparr>Duty_C := LIMIT (Vcn_ref i * INV_Vdc i + 0.5) 0 1\<rparr>;
          s = s\<lparr>INV := i\<rparr>;
          s = PwmSwOn s;
          s = PwmDutyUpt s
      in if FAULT (FLAG s) = 0 then PWM_BUF_ON s else s)"

subsection \<open>Square-wave voltage injection (\<^verbatim>\<open>inv.c\<close>, lines 694--755)\<close>

definition VoltageInjection_SquareWave :: "platform \<Rightarrow> state \<Rightarrow> state" where
  "VoltageInjection_SquareWave P s =
     (let i = INV s;
          i = i\<lparr>Vmag_inj := 1\<rparr>;
          i = i\<lparr>Thetar := Thetar_OLC i\<rparr>;
          i = i\<lparr>Thetar_adv := Thetar_OLC i\<rparr>;
          i = i\<lparr>cosThetar := 1\<rparr>;
          i = i\<lparr>sinThetar := 0\<rparr>;
          i = i\<lparr>cosThetar_adv := 1\<rparr>;
          i = i\<lparr>sinThetar_adv := 0\<rparr>;
          s = s\<lparr>INV := i\<rparr>;
          s = (if cnt_inj s \<ge> 2 then
                 (let s = s\<lparr>INV := (INV s)\<lparr>Vdsr_ref_unsat := Vmag_inj (INV s)\<rparr>\<rparr>;
                      s = s\<lparr>INV := (INV s)\<lparr>Vqsr_ref_unsat := 0\<rparr>\<rparr>
                  in s\<lparr>cnt_inj := 0\<rparr>)
               else
                 (let s = s\<lparr>INV := (INV s)\<lparr>Vdsr_ref_unsat := - Vmag_inj (INV s)\<rparr>\<rparr>;
                      s = s\<lparr>INV := (INV s)\<lparr>Vqsr_ref_unsat := 0\<rparr>\<rparr>
                  in s\<lparr>cnt_inj := 1\<rparr>));
          s = s\<lparr>cnt_inj := cnt_inj s + 1\<rparr>;
          i = INV s;
          i = i\<lparr>Vdsr_ref := LIMIT (Vdsr_ref_unsat i) (- Vdc i * INV_SQRT3 P) (Vdc i * INV_SQRT3 P)\<rparr>;
          i = i\<lparr>Vqsr_ref := LIMIT (Vqsr_ref_unsat i) (- Vdc i * INV_SQRT3 P) (Vdc i * INV_SQRT3 P)\<rparr>;
          i = i\<lparr>Vdsr_ref_aw := Vdsr_ref_unsat i - Vdsr_ref i\<rparr>;
          i = i\<lparr>Vqsr_ref_aw := Vqsr_ref_unsat i - Vqsr_ref i\<rparr>;
          i = i\<lparr>Vdss_ref := Vdsr_ref i * cosThetar_adv i - Vqsr_ref i * sinThetar_adv i\<rparr>;
          i = i\<lparr>Vqss_ref := Vdsr_ref i * sinThetar_adv i + Vqsr_ref i * cosThetar_adv i\<rparr>;
          i = i\<lparr>Vas_ref := Vdss_ref i\<rparr>;
          i = i\<lparr>Vbs_ref := - 0.5 * Vdss_ref i + SQRT3HALF P * Vqss_ref i\<rparr>;
          i = i\<lparr>Vcs_ref := - 0.5 * Vdss_ref i - SQRT3HALF P * Vqss_ref i\<rparr>;
          i = i\<lparr>Vmax := Vas_ref i\<rparr>;
          i = (if Vmax i < Vbs_ref i then i\<lparr>Vmax := Vbs_ref i\<rparr> else i);
          i = (if Vmax i < Vcs_ref i then i\<lparr>Vmax := Vcs_ref i\<rparr> else i);
          i = i\<lparr>Vmin := Vas_ref i\<rparr>;
          i = (if Vmin i > Vbs_ref i then i\<lparr>Vmin := Vbs_ref i\<rparr> else i);
          i = (if Vmin i > Vcs_ref i then i\<lparr>Vmin := Vcs_ref i\<rparr> else i);
          i = i\<lparr>Voffset := - 0.5 * (Vmax i + Vmin i)\<rparr>;
          i = i\<lparr>Idss_ref := Idsr_ref i * cosThetar_adv i - Iqsr_ref i * sinThetar_adv i\<rparr>;
          i = i\<lparr>Iqss_ref := Idsr_ref i * sinThetar_adv i + Iqsr_ref i * cosThetar_adv i\<rparr>;
          i = i\<lparr>Ia_ref := Idss_ref i\<rparr>;
          i = i\<lparr>Ib_ref := - 0.5 * Idss_ref i + SQRT3HALF P * Iqss_ref i\<rparr>;
          i = i\<lparr>Ic_ref := - 0.5 * Idss_ref i - SQRT3HALF P * Iqss_ref i\<rparr>;
          i = i\<lparr>Va_NLC := A_NLC i * arctan (B_NLC i * Ia_ref i)\<rparr>;
          i = i\<lparr>Vb_NLC := A_NLC i * arctan (B_NLC i * Ib_ref i)\<rparr>;
          i = i\<lparr>Vc_NLC := A_NLC i * arctan (B_NLC i * Ic_ref i)\<rparr>;
          i = i\<lparr>Van_ref := LIMIT (Vas_ref i + Voffset i + Va_NLC i) (- 0.5 * Vdc i) (0.5 * Vdc i)\<rparr>;
          i = i\<lparr>Vbn_ref := LIMIT (Vbs_ref i + Voffset i + Vb_NLC i) (- 0.5 * Vdc i) (0.5 * Vdc i)\<rparr>;
          i = i\<lparr>Vcn_ref := LIMIT (Vcs_ref i + Voffset i + Vc_NLC i) (- 0.5 * Vdc i) (0.5 * Vdc i)\<rparr>;
          i = i\<lparr>Duty_A := LIMIT (Van_ref i * INV_Vdc i + 0.5) 0 1\<rparr>;
          i = i\<lparr>Duty_B := LIMIT (Vbn_ref i * INV_Vdc i + 0.5) 0 1\<rparr>;
          i = i\<lparr>Duty_C := LIMIT (Vcn_ref i * INV_Vdc i + 0.5) 0 1\<rparr>;
          s = s\<lparr>INV := i\<rparr>;
          s = PwmDutyUpt s;
          s = PwmSwOn s
      in if FAULT (FLAG s) = 0 then PWM_BUF_ON s else s)"

subsection \<open>Hall observer and Hall position test (\<^verbatim>\<open>inv.c\<close>, lines 781--850)\<close>

definition GetHallSensorState :: "bool \<Rightarrow> bool \<Rightarrow> bool \<Rightarrow> 8 word" where
  "GetHallSensorState hall_sensor_1 hall_sensor_2 hall_sensor_3 =
     (let hall_state = 0;
          hall_state = hall_state OR (if hall_sensor_1 then 0x01 else 0x00);
          hall_state = hall_state OR (if hall_sensor_2 then 0x02 else 0x00);
          hall_state = hall_state OR (if hall_sensor_3 then 0x04 else 0x00)
      in hall_state)"

definition Hallsensor_Observer :: "platform \<Rightarrow> state \<Rightarrow> state" where
  "Hallsensor_Observer P s =
     (let i = INV s;
          i = i\<lparr>Thetar_err_Hall := BOUND_PI P (Thetar_Hall_PLL i - Thetar_est_Hall i)\<rparr>;
          i = i\<lparr>integ_PLL_Hall := integ_PLL_Hall i + Tsamp P * Ki_PLL_Hall i * Thetar_err_Hall i\<rparr>;
          i = i\<lparr>Wr_est_Hall := Kp_PLL_Hall i * Thetar_err_Hall i + integ_PLL_Hall i\<rparr>;
          i = i\<lparr>Thetar_est_Hall := Thetar_est_Hall i + Tsamp P * Wr_est_Hall i\<rparr>;
          i = i\<lparr>Thetar_est_Hall := BOUND_PI P (Thetar_est_Hall i)\<rparr>;
          i = i\<lparr>Wr := Wr_est_Hall i\<rparr>;
          i = i\<lparr>Wrm := Wr i * INV_PP i\<rparr>;
          i = i\<lparr>Wrpm := Wrm i * Rm2Rpm P\<rparr>;
          i = i\<lparr>hall_a := GPIOC_PIN_6 s\<rparr>;
          i = i\<lparr>hall_b := GPIOC_PIN_7 s\<rparr>;
          i = i\<lparr>hall_c := GPIOD_PIN_2 s\<rparr>;
          i = i\<lparr>hall_state := GetHallSensorState (hall_a i) (hall_b i) (hall_c i)\<rparr>;
          i = (if hall_state i = 6 then i\<lparr>Thetar_Hall_PLL := 0\<rparr>
               else if hall_state i = 4 then i\<lparr>Thetar_Hall_PLL := PIOF3 P\<rparr>
               else if hall_state i = 5 then i\<lparr>Thetar_Hall_PLL := 2 * PIOF3 P\<rparr>
               else if hall_state i = 1 then i\<lparr>Thetar_Hall_PLL := 3 * PIOF3 P\<rparr>
               else if hall_state i = 3 then i\<lparr>Thetar_Hall_PLL := - 2 * PIOF3 P\<rparr>
               else if hall_state i = 2 then i\<lparr>Thetar_Hall_PLL := - PIOF3 P\<rparr>
               else i)
      in s\<lparr>INV := i\<rparr>)"

definition HallPosition_Test :: "state \<Rightarrow> state" where
  "HallPosition_Test s =
     (let i = INV s;
          i = (if duty_state i = 1 then i\<lparr>Duty_A := Duty_Test i, Duty_B := 0, Duty_C := 0\<rparr>
               else if duty_state i = 2 then i\<lparr>Duty_A := Duty_Test i, Duty_B := Duty_Test i, Duty_C := 0\<rparr>
               else if duty_state i = 3 then i\<lparr>Duty_A := 0, Duty_B := Duty_Test i, Duty_C := 0\<rparr>
               else if duty_state i = 4 then i\<lparr>Duty_A := 0, Duty_B := Duty_Test i, Duty_C := Duty_Test i\<rparr>
               else if duty_state i = 5 then i\<lparr>Duty_A := 0, Duty_B := 0, Duty_C := Duty_Test i\<rparr>
               else if duty_state i = 6 then i\<lparr>Duty_A := Duty_Test i, Duty_B := 0, Duty_C := Duty_Test i\<rparr>
               else i\<lparr>Duty_A := 0, Duty_B := 0, Duty_C := 0\<rparr>)
      in s\<lparr>INV := i\<rparr>)"

subsection \<open>Alignment sequencer (\<^verbatim>\<open>inv.c\<close>, lines 867--903)\<close>

definition Align :: "platform \<Rightarrow> state \<Rightarrow> state" where
  "Align P s =
     (let s = s\<lparr>INV := (INV s)\<lparr>Thetar := 0\<rparr>\<rparr>;
          s = (if Mode_align s = 0 then
                 (let s = s\<lparr>Align_done := 0\<rparr>;
                      s = s\<lparr>INV := (INV s)\<lparr>Thetar_offset := 0\<rparr>\<rparr>;
                      s = s\<lparr>INV := (INV s)\<lparr>Idsr_ref := Idsr_align (INV s)\<rparr>\<rparr>;
                      s = s\<lparr>Time_align := 0\<rparr>
                  in s\<lparr>Mode_align := Mode_align s + 1\<rparr>)
               else if Mode_align s = 1 then
                 (let s = CurrentControl P s;
                      s = PwmDutyUpt s;
                      s = PwmSwOn s;
                      s = (if FAULT (FLAG s) = 0 then PWM_BUF_ON s else s)
                  in if Time_align s \<ge> 4 then s\<lparr>Mode_align := Mode_align s + 1\<rparr> else s)
               else if Mode_align s = 2 then
                 (let s = s\<lparr>INV := (INV s)\<lparr>Idsr_ref := 0\<rparr>\<rparr>;
                      s = CurrentControl P s;
                      s = PwmDutyUpt s;
                      s = PwmSwOn s;
                      s = (if FAULT (FLAG s) = 0 then PWM_BUF_ON s else s)
                  in if Time_align s \<ge> 5 then s\<lparr>Mode_align := Mode_align s + 1\<rparr> else s)
               else if Mode_align s = 3 then
                 (let s = s\<lparr>Mode_align := 0\<rparr>;
                      s = s\<lparr>Align_done := 1\<rparr>
                  in s\<lparr>FLAG := (FLAG s)\<lparr>INV_ALIGN := 0\<rparr>\<rparr>)
               else s)
      in s\<lparr>Time_align := f32 P (Time_align s + Tsamp P)\<rparr>)"

subsection \<open>Extended-EMF observer (\<^verbatim>\<open>speed_observer.c\<close>, lines 268--321)\<close>

text \<open>\<^verbatim>\<open>EXT_SS_Sync\<close> in two parts: the observer up to the update of the current model
  (lines 272--310), and the limitation of \<^verbatim>\<open>EEMFq_est\<close> with the position error
  (lines 312--320). The observer is modelled on the single-precision values \<open>float32\<close>,
  every operation rounded on its own, so that a product can overflow to an infinity and
  an estimate can be NaN. \<^verbatim>\<open>Tsamp\<close> is the \<^verbatim>\<open>float\<close> constant of the platform.\<close>

definition EXT_SS_Sync_model ::
  "platform \<Rightarrow> float32 EXT_Sensorless \<Rightarrow> float32 \<Rightarrow> float32 \<Rightarrow> float32 \<Rightarrow> float32
     \<Rightarrow> float32 EXT_Sensorless" where
  "EXT_SS_Sync_model P e Vdss_in Vqss_in Idss_in Iqss_in =
     (let e = e\<lparr>Kpd_EXT := fmul (Ld_hat e) (Wec e)\<rparr>;
          e = e\<lparr>Kid_EXT := fmul (Rs_hat e) (Wec e)\<rparr>;
          e = e\<lparr>Kpq_EXT := fmul (Ld_hat e) (Wec e)\<rparr>;
          e = e\<lparr>Kiq_EXT := fmul (Rs_hat e) (Wec e)\<rparr>;
          e = e\<lparr>Sin_Thetar_EXT := sinf (Thetar_EXT e)\<rparr>;
          e = e\<lparr>Cos_Thetar_EXT := cosf (Thetar_EXT e)\<rparr>;
          e = e\<lparr>Vdss_ref_EXT := fmul (fadd (Vdss_ref_old e) Vdss_in) (Finite 0.5)\<rparr>;
          e = e\<lparr>Vqss_ref_EXT := fmul (fadd (Vqss_ref_old e) Vqss_in) (Finite 0.5)\<rparr>;
          e = e\<lparr>Vdss_ref_old := Vdss_in\<rparr>;
          e = e\<lparr>Vqss_ref_old := Vqss_in\<rparr>;
          e = e\<lparr>Vdse_ref_EXT := fadd (fmul (Vdss_ref_EXT e) (Cos_Thetar_EXT e))
                                   (fmul (Vqss_ref_EXT e) (Sin_Thetar_EXT e))\<rparr>;
          e = e\<lparr>Vqse_ref_EXT := fadd (fmul (Vdss_ref_EXT e) (fneg (Sin_Thetar_EXT e)))
                                   (fmul (Vqss_ref_EXT e) (Cos_Thetar_EXT e))\<rparr>;
          e = e\<lparr>Idse_EXT := fadd (fmul Idss_in (Cos_Thetar_EXT e))
                               (fmul Iqss_in (Sin_Thetar_EXT e))\<rparr>;
          e = e\<lparr>Iqse_EXT := fadd (fmul Idss_in (fneg (Sin_Thetar_EXT e)))
                               (fmul Iqss_in (Cos_Thetar_EXT e))\<rparr>;
          e = e\<lparr>Err_Idse_EXT := fsub (Idse_EXT e) (Idse_EXT_est e)\<rparr>;
          e = e\<lparr>Err_Iqse_EXT := fsub (Iqse_EXT e) (Iqse_EXT_est e)\<rparr>;
          e = e\<lparr>integ_Idse_EXT_est := fadd (integ_Idse_EXT_est e)
                 (fmul (fmul (Finite (Tsamp P)) (Kid_EXT e)) (Err_Idse_EXT e))\<rparr>;
          e = e\<lparr>integ_Iqse_EXT_est := fadd (integ_Iqse_EXT_est e)
                 (fmul (fmul (Finite (Tsamp P)) (Kiq_EXT e)) (Err_Iqse_EXT e))\<rparr>;
          e = e\<lparr>EEMFd_est :=
                 fneg (fadd (fmul (Err_Idse_EXT e) (Kpd_EXT e)) (integ_Idse_EXT_est e))\<rparr>;
          e = e\<lparr>EEMFq_est :=
                 fneg (fadd (fmul (Err_Iqse_EXT e) (Kpq_EXT e)) (integ_Iqse_EXT_est e))\<rparr>;
          e = e\<lparr>Vdse_FF_EXT :=
                 fadd (Vdse_ref_EXT e) (fmul (fmul (Wr_EXT e) (Lq_hat e)) (Iqse_EXT e))\<rparr>;
          e = e\<lparr>Vqse_FF_EXT :=
                 fsub (Vqse_ref_EXT e) (fmul (fmul (Wr_EXT e) (Lq_hat e)) (Idse_EXT e))\<rparr>;
          e = e\<lparr>Idse_EXT_est := fadd (Idse_EXT_est e)
                 (fmul (fmul (INV_Ld_hat e) (Finite (Tsamp P)))
                    (fsub (fsub (Vdse_FF_EXT e) (EEMFd_est e)) (fmul (Rs_hat e) (Idse_EXT e))))\<rparr>;
          e = e\<lparr>Iqse_EXT_est := fadd (Iqse_EXT_est e)
                 (fmul (fmul (INV_Ld_hat e) (Finite (Tsamp P)))
                    (fsub (fsub (Vqse_FF_EXT e) (EEMFq_est e)) (fmul (Rs_hat e) (Iqse_EXT e))))\<rparr>
      in e)"

definition EXT_SS_Sync_angle :: "float32 EXT_Sensorless \<Rightarrow> float32 EXT_Sensorless" where
  "EXT_SS_Sync_angle e =
     (let e = (if flt (fabs (EEMFq_est e)) (Finite 1) then e\<lparr>EEMFq_est := Finite 1\<rparr> else e);
          e = e\<lparr>Err_Thetar_EXT := atan2f (fneg (EEMFd_est e)) (EEMFq_est e)\<rparr>;
          e = e\<lparr>Thetar_EXT_old := Thetar_EXT e\<rparr>;
          e = e\<lparr>Thetarm_EXT_old := Thetarm_EXT e\<rparr>
      in e)"

definition EXT_SS_Sync ::
  "platform \<Rightarrow> float32 EXT_Sensorless \<Rightarrow> float32 \<Rightarrow> float32 \<Rightarrow> float32 \<Rightarrow> float32
     \<Rightarrow> float32 EXT_Sensorless" where
  "EXT_SS_Sync P e Vdss_in Vqss_in Idss_in Iqss_in =
     EXT_SS_Sync_angle (EXT_SS_Sync_model P e Vdss_in Vqss_in Idss_in Iqss_in)"

subsection \<open>The control tick (\<^verbatim>\<open>control.c\<close>, lines 60--138)\<close>

text \<open>\<^verbatim>\<open>Control()\<close> is modelled together with the list of the functions that its body
  calls, in the order of the calls: a pair of the state and this list is threaded
  through the body. \<open>call\<close> is a function call of the body, \<open>exec\<close> a statement of the
  body that is not a call.\<close>

datatype callee =
  c_Offset | c_AdcProcess | c_SoftWareFault | c_UpdateController | c_Hallsensor_Observer
  | c_SpeedControl | c_Vref_GenControl | c_HallPosition_Test | c_PwmDutyUpt | c_PwmSwOn
  | c_OpenLoopControl | c_CurrentControl | c_VoltageOpenLoopControl
  | c_VoltageInjection_SquareWave | c_Align | c_PwmSwOff | c_ResetController

type_synonym traced = "state \<times> callee list"

definition call :: "callee \<Rightarrow> (state \<Rightarrow> state) \<Rightarrow> traced \<Rightarrow> traced" where
  "call c f x = (f (fst x), snd x @ [c])"

definition exec :: "(state \<Rightarrow> state) \<Rightarrow> traced \<Rightarrow> traced" where
  "exec f x = (f (fst x), snd x)"

text \<open>Lines 62--73: the tick counter, the four injected data registers, and the
  calibration step or the conversion step.\<close>

definition Control_sample :: "traced \<Rightarrow> traced" where
  "Control_sample x =
     (let x = exec (\<lambda>s. s\<lparr>ControlCnt := ControlCnt s + 1\<rparr>) x;
          x = exec (\<lambda>s. s\<lparr>adc1Val := (adc1Val s)[0 := u2f (JDR1 s)]\<rparr>) x;
          x = exec (\<lambda>s. s\<lparr>adc1Val := (adc1Val s)[1 := u2f (JDR2 s)]\<rparr>) x;
          x = exec (\<lambda>s. s\<lparr>adc1Val := (adc1Val s)[2 := u2f (JDR3 s)]\<rparr>) x;
          x = exec (\<lambda>s. s\<lparr>adc1Val := (adc1Val s)[3 := u2f (JDR4 s)]\<rparr>) x
      in if AdInitFlag (fst x) = 0 then call c_Offset Offset x
         else call c_AdcProcess AdcProcess x)"

text \<open>Lines 75--78: the software over-current protection.\<close>

definition Control_protect :: "traced \<Rightarrow> traced" where
  "Control_protect x =
     (let x = (if ABS (Ia (INV (fst x))) \<ge> 80 then call c_SoftWareFault SoftWareFault x else x);
          x = (if ABS (Ib (INV (fst x))) \<ge> 80 then call c_SoftWareFault SoftWareFault x else x);
          x = (if ABS (Ic (INV (fst x))) \<ge> 80 then call c_SoftWareFault SoftWareFault x else x)
      in x)"

text \<open>Lines 83--137: the mode dispatch.\<close>

definition Control_dispatch :: "platform \<Rightarrow> traced \<Rightarrow> traced" where
  "Control_dispatch P x =
     (if READY (FLAG (fst x)) \<noteq> 0 \<and> \<not> FAULT (FLAG (fst x)) \<noteq> 0 then
        (if INV_RUN (FLAG (fst x)) \<noteq> 0 then
           (let x = call c_SpeedControl (SpeedControl P) x
            in call c_Vref_GenControl (Vref_GenControl P) x)
         else if HALL_POS_TEST (FLAG (fst x)) \<noteq> 0 then
           (let x = call c_HallPosition_Test HallPosition_Test x;
                x = call c_PwmDutyUpt PwmDutyUpt x;
                x = call c_PwmSwOn PwmSwOn x
            in exec PWM_BUF_ON x)
         else if DUTY_TEST (FLAG (fst x)) \<noteq> 0 then
           (let x = exec (\<lambda>s. s\<lparr>INV := (INV s)\<lparr>Duty_A := LIMIT (Duty_A (INV s)) 0 0.95\<rparr>\<rparr>) x;
                x = exec (\<lambda>s. s\<lparr>INV := (INV s)\<lparr>Duty_B := LIMIT (Duty_B (INV s)) 0 0.95\<rparr>\<rparr>) x;
                x = exec (\<lambda>s. s\<lparr>INV := (INV s)\<lparr>Duty_C := LIMIT (Duty_C (INV s)) 0 0.95\<rparr>\<rparr>) x;
                x = exec (\<lambda>s. s\<lparr>INV := (INV s)\<lparr>Duty_A := 0.2\<rparr>\<rparr>) x;
                x = exec (\<lambda>s. s\<lparr>INV := (INV s)\<lparr>Duty_B := 0.3\<rparr>\<rparr>) x;
                x = exec (\<lambda>s. s\<lparr>INV := (INV s)\<lparr>Duty_C := 0.8\<rparr>\<rparr>) x;
                x = call c_PwmDutyUpt PwmDutyUpt x;
                x = call c_PwmSwOn PwmSwOn x
            in exec PWM_BUF_ON x)
         else if INV_OLC (FLAG (fst x)) \<noteq> 0 then
           (let x = exec (\<lambda>s. s\<lparr>Theta_mode := 1\<rparr>) x;
                x = call c_OpenLoopControl (OpenLoopControl P) x
            in call c_CurrentControl (CurrentControl P) x)
         else if INV_Vref_Gen (FLAG (fst x)) \<noteq> 0 then
           call c_Vref_GenControl (Vref_GenControl P) x
         else if INV_VOLC (FLAG (fst x)) \<noteq> 0 then
           call c_VoltageOpenLoopControl (VoltageOpenLoopControl P) x
         else if Param_Estimation (FLAG (fst x)) \<noteq> 0 then
           call c_VoltageInjection_SquareWave (VoltageInjection_SquareWave P) x
         else if INV_ALIGN (FLAG (fst x)) \<noteq> 0 then
           call c_Align (Align P) x
         else
           (let x = call c_PwmSwOff PwmSwOff x;
                x = call c_PwmDutyUpt PwmDutyUpt x;
                x = call c_ResetController ResetController x;
                x = exec (\<lambda>s. s\<lparr>FLAG := (FLAG s)\<lparr>INV_RUN := 0, INV_OLC := 0, INV_VOLC := 0\<rparr>\<rparr>) x
            in exec (\<lambda>s. s\<lparr>FLAG := (FLAG s)\<lparr>INV_ALIGN := 0, INV_NLC := 0, TS_MODE := 0\<rparr>\<rparr>) x))
      else
        (let x = call c_PwmSwOff PwmSwOff x;
             x = call c_PwmDutyUpt PwmDutyUpt x;
             x = call c_ResetController ResetController x;
             x = exec (\<lambda>s. s\<lparr>FLAG := (FLAG s)\<lparr>INV_RUN := 0, INV_OLC := 0, INV_VOLC := 0\<rparr>\<rparr>) x
         in exec (\<lambda>s. s\<lparr>FLAG := (FLAG s)\<lparr>INV_ALIGN := 0, INV_NLC := 0, TS_MODE := 0,
                                            READY := 0\<rparr>\<rparr>) x))"

text \<open>Lines 62--81: what every tick does before the dispatch.\<close>

definition Control_pre :: "platform \<Rightarrow> state \<Rightarrow> traced" where
  "Control_pre P s =
     (let x = (s, []);
          x = Control_sample x;
          x = Control_protect x;
          x = call c_UpdateController UpdateController x
      in call c_Hallsensor_Observer (Hallsensor_Observer P) x)"

definition Control_traced :: "platform \<Rightarrow> state \<Rightarrow> traced" where
  "Control_traced P s = Control_dispatch P (Control_pre P s)"

definition Control :: "platform \<Rightarrow> state \<Rightarrow> state" where
  "Control P s = fst (Control_traced P s)"

definition Control_calls :: "platform \<Rightarrow> state \<Rightarrow> callee list" where
  "Control_calls P s = snd (Control_traced P s)"

subsection \<open>Runs\<close>

text \<open>What happens to the controller from outside: a timer tick, with the values that
  the ADC and the Hall pins present to it; the external interrupt of the protection
  circuit (between two ticks); a write of the external command channel to the flags and
  to the set-points and parameters of the inverter struct.\<close>

record sample =
  s_JDR1 :: "32 word"
  s_JDR2 :: "32 word"
  s_JDR3 :: "32 word"
  s_JDR4 :: "32 word"
  s_hall_a :: bool
  s_hall_b :: bool
  s_hall_c :: bool

datatype event =
  Tick sample
  | Exti
  | Command "CONTROL_FLAG \<Rightarrow> CONTROL_FLAG" "INVERTER \<Rightarrow> INVERTER"

definition present :: "sample \<Rightarrow> state \<Rightarrow> state" where
  "present x s =
     s\<lparr>JDR1 := s_JDR1 x, JDR2 := s_JDR2 x, JDR3 := s_JDR3 x, JDR4 := s_JDR4 x,
       GPIOC_PIN_6 := s_hall_a x, GPIOC_PIN_7 := s_hall_b x, GPIOD_PIN_2 := s_hall_c x\<rparr>"

fun step :: "platform \<Rightarrow> event \<Rightarrow> state \<Rightarrow> state" where
  "step P (Tick x) s = Control P (present x s)"
| "step P Exti s = HAL_GPIO_EXTI_Callback s"
| "step P (Command f g) s = s\<lparr>FLAG := f (FLAG s), INV := g (INV s)\<rparr>"

fun run :: "platform \<Rightarrow> event list \<Rightarrow> state \<Rightarrow> state" where
  "run P [] s = s"
| "run P (e # es) s = run P es (step P e s)"

subsection \<open>Auxiliary notions of the statements\<close>

text \<open>The state of a tick after the sampling step (lines 62--73), where the protection
  check reads the phase currents.\<close>

definition sampled :: "state \<Rightarrow> state" where
  "sampled s = fst (Control_sample (s, []))"

text \<open>The number of phase currents of a state whose magnitude is at least 80 A.\<close>

definition trips :: "state \<Rightarrow> nat" where
  "trips s = length (filter (\<lambda>x. \<bar>x\<bar> \<ge> 80) [Ia (INV s), Ib (INV s), Ic (INV s)])"

text \<open>What both safe-stop branches do before they clear the flags.\<close>

definition stopped :: "state \<Rightarrow> state" where
  "stopped s = ResetController (PwmDutyUpt (PwmSwOff s))"

text \<open>The dispatch in the words of the specification: the first mode of a priority list
  whose flag is set is selected when the system is ready and not faulted, and the safe stop
  otherwise or when no flag is set; \<open>mode_calls\<close> lists what the branch of a mode
  calls.\<close>

datatype mode =
  ClosedLoopRun | HallPositionTest | FixedDutyTest | OpenLoopCurrent | VoltageFeedForward
  | VoltageOpenLoop | ParameterEstimation | Alignment | SafeStop

definition mode_priority :: "CONTROL_FLAG \<Rightarrow> (int \<times> mode) list" where
  "mode_priority fl =
     [(INV_RUN fl, ClosedLoopRun), (HALL_POS_TEST fl, HallPositionTest),
      (DUTY_TEST fl, FixedDutyTest), (INV_OLC fl, OpenLoopCurrent),
      (INV_Vref_Gen fl, VoltageFeedForward), (INV_VOLC fl, VoltageOpenLoop),
      (Param_Estimation fl, ParameterEstimation), (INV_ALIGN fl, Alignment)]"

definition select_mode :: "CONTROL_FLAG \<Rightarrow> mode" where
  "select_mode fl =
     (if READY fl \<noteq> 0 \<and> FAULT fl = 0 then
        (case List.find (\<lambda>p. fst p \<noteq> 0) (mode_priority fl) of
           Some p \<Rightarrow> snd p
         | None \<Rightarrow> SafeStop)
      else SafeStop)"

fun mode_calls :: "mode \<Rightarrow> callee list" where
  "mode_calls ClosedLoopRun = [c_SpeedControl, c_Vref_GenControl]"
| "mode_calls HallPositionTest = [c_HallPosition_Test, c_PwmDutyUpt, c_PwmSwOn]"
| "mode_calls FixedDutyTest = [c_PwmDutyUpt, c_PwmSwOn]"
| "mode_calls OpenLoopCurrent = [c_OpenLoopControl, c_CurrentControl]"
| "mode_calls VoltageFeedForward = [c_Vref_GenControl]"
| "mode_calls VoltageOpenLoop = [c_VoltageOpenLoopControl]"
| "mode_calls ParameterEstimation = [c_VoltageInjection_SquareWave]"
| "mode_calls Alignment = [c_Align]"
| "mode_calls SafeStop = [c_PwmSwOff, c_PwmDutyUpt, c_ResetController]"

text \<open>The value of \<^verbatim>\<open>Time_align\<close> after \<open>k\<close> ticks of the alignment sequencer since
  its reset to zero.\<close>

definition Time_acc :: "platform \<Rightarrow> nat \<Rightarrow> real" where
  "Time_acc P k = ((\<lambda>t. f32 P (t + Tsamp P)) ^^ k) 0"

subsection \<open>Concrete states and platforms\<close>

text \<open>The globals as the C initialisers leave them, before \<^verbatim>\<open>main()\<close> configures the
  inverter: static storage is zero unless the source initialises it. The auto-reload
  register of timer 1 holds the period 4200 of \<^verbatim>\<open>tim.c\<close>.\<close>

definition FLAG_zero :: CONTROL_FLAG where
  "FLAG_zero = \<lparr>READY = 0, FAULT = 0, FAULT_CLEAR = 0, INV_RUN = 0, INV_OLC = 0, INV_VOLC = 0,
     INV_Vref_Gen = 0, INV_ALIGN = 0, INV_NLC = 0, TS_MODE = 0, TS_MODE_STOP = 0, DUTY_TEST = 0,
     Param_Estimation = 0, HALL_POS_TEST = 0\<rparr>"

definition INV_zero :: INVERTER where
  "INV_zero = \<lparr>
    Kpd_cc = 0, Wcc = 0, Ld = 0, Kpq_cc = 0, Lq = 0, Kid_cc = 0, Rs = 0, Kiq_cc = 0, Kad_cc = 0,
    Kaq_cc = 0, Kp_sc = 0, Jm = 0, Wsc = 0, Ki_scale = 0, Ki_sc = 0, Ka_sc = 0, Wrm_ref_set = 0,
    Wrpm_ref_set = 0, Wrpm_ref_set_old = 0, Wrm_ref = 0, Wrpm_ref = 0, Te_ref_integ = 0,
    Te_ref_aw = 0, Idsr_ref_integ = 0, Idsr_ref_aw = 0, Te_ref_sat = 0, Te_ref = 0, Idsr_ref = 0,
    Iqsr_ref = 0, Idsr_ref_OLC = 0, Iqsr_ref_OLC = 0, Vdsr_ref_OLC = 0, Vqsr_ref_OLC = 0,
    Thetar_OLC = 0, Wrpm_ref_OLC = 0, Wrpm_ref_set_OLC = 0, Wrpm_slope_OLC = 0,
    Vdsr_ref_integ = 0, Vqsr_ref_integ = 0, Vdsr_ref_unsat = 0, Vqsr_ref_unsat = 0,
    Vdsr_ref_aw = 0, Vqsr_ref_aw = 0, TestDuty_A = 0, TestDuty_B = 0, TestDuty_C = 0,
    alpha_LPF = 0, Iqsr_ref_unsat = 0, INV_Kt = 0, Is_rated = 0, Vdsr_ref_old = 0, Vdsr_ref = 0,
    Vqsr_ref_old = 0, Vqsr_ref = 0, Idss = 0, Ia = 0, Ib = 0, Ic = 0, Iqss = 0, Thetar = 0,
    Wr = 0, PP = 0, Thetar_est_Hall = 0, Wr_est_Hall = 0, Wrm = 0, INV_PP = 0, Wrpm = 0,
    Thetar_adv = 0, cosThetar = 0, sinThetar = 0, cosThetar_adv = 0, sinThetar_adv = 0, Idsr = 0,
    Iqsr = 0, Idsr_err = 0, Iqsr_err = 0, Vdsr_ref_ff = 0, Vqsr_ref_ff = 0, Lamf = 0,
    Vdsr_ref_unsat_old = 0, Ractive = 0, Vqsr_ref_unsat_old = 0, Vdc = 0, Vdss_ref = 0,
    Vqss_ref = 0, Vas_ref = 0, Vbs_ref = 0, Vcs_ref = 0, Vmax = 0, Vmin = 0, Voffset = 0,
    Idss_ref = 0, Iqss_ref = 0, Ia_ref = 0, Ib_ref = 0, Ic_ref = 0, Va_NLC = 0, A_NLC = 0,
    B_NLC = 0, Vb_NLC = 0, Vc_NLC = 0, Van_ref = 0, Vbn_ref = 0, Vcn_ref = 0, Duty_A = 0,
    INV_Vdc = 0, Duty_B = 0, Duty_C = 0, Wrpm_ref_cmd = 0, Wrpm_rated = 0, dWrm = 0, Wrm_err = 0,
    Te_ref_unsat = 0, Te_rated = 0, Idsr_ref_set_OLC = 0, Idsr_slope_OLC = 0, Wr_ref_OLC = 0,
    Vmag_inj = 0, Thetar_err_Hall = 0, Thetar_Hall_PLL = 0, integ_PLL_Hall = 0, Ki_PLL_Hall = 0,
    Kp_PLL_Hall = 0, hall_a = False, hall_b = False, hall_c = False, hall_state = 0,
    duty_state = 0, Duty_Test = 0, Thetar_offset = 0, Idsr_align = 0, Idc = 0, Vdc_control = 0\<rparr>"

definition EXT_init :: "'a \<Rightarrow> 'a EXT_Sensorless" where
  \<comment> \<open>The struct with all fields at one value.\<close>
  "EXT_init z = \<lparr>
    Kpd_EXT = z, Kid_EXT = z, Kpq_EXT = z, Kiq_EXT = z, Ld_hat = z, Lq_hat = z, Rs_hat = z,
    INV_Ld_hat = z, Wec = z, Sin_Thetar_EXT = z, Cos_Thetar_EXT = z, Thetar_EXT = z,
    Thetar_EXT_old = z, Thetarm_EXT = z, Thetarm_EXT_old = z, Vdss_ref_EXT = z, Vqss_ref_EXT = z,
    Vdss_ref_old = z, Vqss_ref_old = z, Vdse_ref_EXT = z, Vqse_ref_EXT = z, Idse_EXT = z,
    Iqse_EXT = z, Err_Idse_EXT = z, Err_Iqse_EXT = z, Idse_EXT_est = z, Iqse_EXT_est = z,
    integ_Idse_EXT_est = z, integ_Iqse_EXT_est = z, EEMFd_est = z, EEMFq_est = z,
    Vdse_FF_EXT = z, Vqse_FF_EXT = z, Wr_EXT = z, Wr_EXT_f = z, Err_Thetar_EXT = z\<rparr>"

definition EXT_zero :: "real EXT_Sensorless" where
  "EXT_zero = EXT_init 0"

definition startup :: state where
  "startup = \<lparr>ControlCnt = 0, JDR1 = 0, JDR2 = 0, JDR3 = 0, JDR4 = 0, AdInitFlag = 0,
     adc1Val = [0, 0, 0, 0], ADC1_Result = [0, 0, 0, 0], ADC1_Offset = [2048, 2048, 2048],
     ADC1_Offset_sum = [0, 0, 0], scale_comp = 1, ADCgain = [1, 1, 1, 1],
     Ia_arr = replicate 3000 0, store_cnt = 0, store_flag = 0, AdOffCalcCnt = 0, AdDummyCnt = 0,
     FaultCnt = 0,
     FLTVAL = \<lparr>FLT_Vdc = 0, FLT_Idc = 0, FLT_Ia = 0, FLT_Ib = 0, FLT_Ic = 0, FLT_Wrpm = 0\<rparr>,
     FLAG = FLAG_zero, INV = INV_zero, EXT_1 = EXT_zero, Mode_align = 0, Time_align = 0,
     cnt_inj = 0, Align_done = 0, Theta_mode = 0, Van = 0, Vbn = 0, Vcn = 0, Vdss_ref_set = 0,
     Vqss_ref_set = 0, GPIOC_PIN_6 = False, GPIOC_PIN_7 = False, GPIOD_PIN_2 = False,
     htim1 = \<lparr>ARR = 4200, CCR1 = 0, CCR2 = 0, CCR3 = 0, CH1 = False, CH1N = False,
       CH2 = False, CH2N = False, CH3 = False, CH3N = False\<rparr>,
     PWM_BUF = False\<rparr>"

definition exact_platform :: platform where
  \<comment> \<open>Modelled from the spec: the constants of the absent headers with the values that
     their names and the specification give them (a sample period of 100 microseconds, an
     angle wrapped to \<open>(-\<pi>, \<pi>]\<close>), exact trigonometric functions for the macros
     \<^verbatim>\<open>COS\<close> and \<^verbatim>\<open>SIN\<close>, and exact arithmetic.\<close>
  "exact_platform = \<lparr>Tsamp = 1 / 10000, INV_3 = 1 / 3, INV_SQRT3 = 1 / sqrt 3,
     SQRT3HALF = sqrt 3 / 2, RPM2RM = pi / 30, RM2RPM = 30 / pi, Rm2Rpm = 30 / pi,
     PIOF3 = pi / 3, BOUND_PI = (\<lambda>x. x - 2 * pi * of_int \<lceil>(x - pi) / (2 * pi)\<rceil>),
     COS = (\<lambda>x2. cos (sqrt x2)), SIN = (\<lambda>x x2. sin x), f32 = (\<lambda>x. x)\<rparr>"

text \<open>The platform of the 32-bit target: \<^verbatim>\<open>Time_align += Tsamp\<close> stores the sum rounded
  to single precision, and the \<^verbatim>\<open>float\<close> nearest to 100 microseconds is
  \<open>13743895 / 2 ^ 37\<close>.\<close>

definition single_platform :: platform where
  "single_platform = exact_platform\<lparr>Tsamp := 13743895 / 2 ^ 37, f32 := round32\<rparr>"


subsection \<open>Samples of the calibration\<close>




subsection \<open>Selectors of a sequence of assignments\<close>

text \<open>A field of the result of a body is read by moving the selector to the end of
  the sequence of assignments and resolving the assignments from the last to the first.\<close>

lemma Let_push: "f (Let a g) = Let a (\<lambda>x. f (g x))"
  by (simp add: Let_def)

lemmas sel_Let =
  Let_push [of FLAG] Let_push [of FLTVAL] Let_push [of FaultCnt] Let_push [of AdInitFlag]
  Let_push [of AdDummyCnt] Let_push [of AdOffCalcCnt] Let_push [of ADC1_Offset_sum]
  Let_push [of ADC1_Offset] Let_push [of adc1Val] Let_push [of Theta_mode] Let_push [of cnt_inj]
  Let_push [of Mode_align] Let_push [of Time_align] Let_push [of Align_done] Let_push [of EXT_1]
  Let_push [of INV] Let_push [of htim1] Let_push [of PWM_BUF] Let_push [of Ia] Let_push [of Ib]
  Let_push [of Ic] Let_push [of Vdc] Let_push [of Idc] Let_push [of Wrpm] Let_push [of Idsr_ref]
  Let_push [of Thetar] Let_push [of Thetar_OLC] Let_push [of Vdsr_ref_unsat]
  Let_push [of Vqsr_ref_unsat] Let_push [of sinThetar] Let_push [of cosThetar]
  Let_push [of Vmag_inj] Let_push [of Duty_A] Let_push [of Duty_B] Let_push [of Duty_C]
  Let_push [of Idsr_align] Let_push [of Wr] Let_push [of Iqsr_ref] Let_push [of READY]
  Let_push [of FAULT] Let_push [of INV_RUN] Let_push [of INV_OLC] Let_push [of INV_VOLC]
  Let_push [of INV_ALIGN] Let_push [of INV_NLC] Let_push [of TS_MODE] Let_push [of CCR1]
  Let_push [of CCR2] Let_push [of CCR3] Let_push [of CH1] Let_push [of CH1N] Let_push [of CH2]
  Let_push [of CH2N] Let_push [of CH3] Let_push [of CH3N]

lemmas sel_if =
  if_distrib [of FLAG] if_distrib [of FLTVAL] if_distrib [of FaultCnt]
  if_distrib [of AdInitFlag] if_distrib [of AdDummyCnt] if_distrib [of AdOffCalcCnt]
  if_distrib [of ADC1_Offset_sum] if_distrib [of ADC1_Offset] if_distrib [of adc1Val]
  if_distrib [of Theta_mode] if_distrib [of cnt_inj] if_distrib [of Mode_align]
  if_distrib [of Time_align] if_distrib [of Align_done] if_distrib [of EXT_1]
  if_distrib [of INV] if_distrib [of htim1] if_distrib [of PWM_BUF] if_distrib [of Ia]
  if_distrib [of Ib] if_distrib [of Ic] if_distrib [of Vdc] if_distrib [of Idc]
  if_distrib [of Wrpm] if_distrib [of Idsr_ref] if_distrib [of Thetar]
  if_distrib [of Thetar_OLC] if_distrib [of Vdsr_ref_unsat] if_distrib [of Vqsr_ref_unsat]
  if_distrib [of sinThetar] if_distrib [of cosThetar] if_distrib [of Vmag_inj]
  if_distrib [of Duty_A] if_distrib [of Duty_B] if_distrib [of Duty_C]
  if_distrib [of Idsr_align] if_distrib [of Wr] if_distrib [of Iqsr_ref] if_distrib [of READY]
  if_distrib [of FAULT] if_distrib [of INV_RUN] if_distrib [of INV_OLC] if_distrib [of INV_VOLC]
  if_distrib [of INV_ALIGN] if_distrib [of INV_NLC] if_distrib [of TS_MODE] if_distrib [of CCR1]
  if_distrib [of CCR2] if_distrib [of CCR3] if_distrib [of CH1] if_distrib [of CH1N]
  if_distrib [of CH2] if_distrib [of CH2N] if_distrib [of CH3] if_distrib [of CH3N]

subsection \<open>The globals that each function leaves unchanged\<close>

lemma PWM_BUF_ON_frame [simp]:
  "FLAG (PWM_BUF_ON s) = FLAG s" "FLTVAL (PWM_BUF_ON s) = FLTVAL s"
  "FaultCnt (PWM_BUF_ON s) = FaultCnt s" "AdInitFlag (PWM_BUF_ON s) = AdInitFlag s"
  "AdDummyCnt (PWM_BUF_ON s) = AdDummyCnt s" "AdOffCalcCnt (PWM_BUF_ON s) = AdOffCalcCnt s"
  "ADC1_Offset_sum (PWM_BUF_ON s) = ADC1_Offset_sum s"
  "ADC1_Offset (PWM_BUF_ON s) = ADC1_Offset s" "adc1Val (PWM_BUF_ON s) = adc1Val s"
  "Theta_mode (PWM_BUF_ON s) = Theta_mode s" "cnt_inj (PWM_BUF_ON s) = cnt_inj s"
  "Mode_align (PWM_BUF_ON s) = Mode_align s" "Time_align (PWM_BUF_ON s) = Time_align s"
  "Align_done (PWM_BUF_ON s) = Align_done s" "EXT_1 (PWM_BUF_ON s) = EXT_1 s"
  "INV (PWM_BUF_ON s) = INV s" "htim1 (PWM_BUF_ON s) = htim1 s"
  by (simp_all only: PWM_BUF_ON_def sel_Let sel_if) (simp_all add: Let_def sel_if cong: if_cong)

lemma PWM_BUF_OFF_frame [simp]:
  "FLAG (PWM_BUF_OFF s) = FLAG s" "FLTVAL (PWM_BUF_OFF s) = FLTVAL s"
  "FaultCnt (PWM_BUF_OFF s) = FaultCnt s" "AdInitFlag (PWM_BUF_OFF s) = AdInitFlag s"
  "AdDummyCnt (PWM_BUF_OFF s) = AdDummyCnt s" "AdOffCalcCnt (PWM_BUF_OFF s) = AdOffCalcCnt s"
  "ADC1_Offset_sum (PWM_BUF_OFF s) = ADC1_Offset_sum s"
  "ADC1_Offset (PWM_BUF_OFF s) = ADC1_Offset s" "adc1Val (PWM_BUF_OFF s) = adc1Val s"
  "Theta_mode (PWM_BUF_OFF s) = Theta_mode s" "cnt_inj (PWM_BUF_OFF s) = cnt_inj s"
  "Mode_align (PWM_BUF_OFF s) = Mode_align s" "Time_align (PWM_BUF_OFF s) = Time_align s"
  "Align_done (PWM_BUF_OFF s) = Align_done s" "EXT_1 (PWM_BUF_OFF s) = EXT_1 s"
  "INV (PWM_BUF_OFF s) = INV s" "htim1 (PWM_BUF_OFF s) = htim1 s"
  by (simp_all only: PWM_BUF_OFF_def sel_Let sel_if) (simp_all add: Let_def sel_if cong: if_cong)

lemma PwmSwOn_frame [simp]:
  "FLAG (PwmSwOn s) = FLAG s" "FLTVAL (PwmSwOn s) = FLTVAL s"
  "FaultCnt (PwmSwOn s) = FaultCnt s" "AdInitFlag (PwmSwOn s) = AdInitFlag s"
  "AdDummyCnt (PwmSwOn s) = AdDummyCnt s" "AdOffCalcCnt (PwmSwOn s) = AdOffCalcCnt s"
  "ADC1_Offset_sum (PwmSwOn s) = ADC1_Offset_sum s" "ADC1_Offset (PwmSwOn s) = ADC1_Offset s"
  "adc1Val (PwmSwOn s) = adc1Val s" "Theta_mode (PwmSwOn s) = Theta_mode s"
  "cnt_inj (PwmSwOn s) = cnt_inj s" "Mode_align (PwmSwOn s) = Mode_align s"
  "Time_align (PwmSwOn s) = Time_align s" "Align_done (PwmSwOn s) = Align_done s"
  "EXT_1 (PwmSwOn s) = EXT_1 s" "INV (PwmSwOn s) = INV s" "PWM_BUF (PwmSwOn s) = PWM_BUF s"
  by (simp_all only: PwmSwOn_def sel_Let sel_if) (simp_all add: Let_def sel_if cong: if_cong)

lemma PwmSwOff_frame [simp]:
  "FLAG (PwmSwOff s) = FLAG s" "FLTVAL (PwmSwOff s) = FLTVAL s"
  "FaultCnt (PwmSwOff s) = FaultCnt s" "AdInitFlag (PwmSwOff s) = AdInitFlag s"
  "AdDummyCnt (PwmSwOff s) = AdDummyCnt s" "AdOffCalcCnt (PwmSwOff s) = AdOffCalcCnt s"
  "ADC1_Offset_sum (PwmSwOff s) = ADC1_Offset_sum s" "ADC1_Offset (PwmSwOff s) = ADC1_Offset s"
  "adc1Val (PwmSwOff s) = adc1Val s" "Theta_mode (PwmSwOff s) = Theta_mode s"
  "cnt_inj (PwmSwOff s) = cnt_inj s" "Mode_align (PwmSwOff s) = Mode_align s"
  "Time_align (PwmSwOff s) = Time_align s" "Align_done (PwmSwOff s) = Align_done s"
  "EXT_1 (PwmSwOff s) = EXT_1 s"
  by (simp_all only: PwmSwOff_def sel_Let sel_if) (simp_all add: Let_def sel_if cong: if_cong)

lemma PwmDutyUpt_frame [simp]:
  "FLAG (PwmDutyUpt s) = FLAG s" "FLTVAL (PwmDutyUpt s) = FLTVAL s"
  "FaultCnt (PwmDutyUpt s) = FaultCnt s" "AdInitFlag (PwmDutyUpt s) = AdInitFlag s"
  "AdDummyCnt (PwmDutyUpt s) = AdDummyCnt s" "AdOffCalcCnt (PwmDutyUpt s) = AdOffCalcCnt s"
  "ADC1_Offset_sum (PwmDutyUpt s) = ADC1_Offset_sum s"
  "ADC1_Offset (PwmDutyUpt s) = ADC1_Offset s" "adc1Val (PwmDutyUpt s) = adc1Val s"
  "Theta_mode (PwmDutyUpt s) = Theta_mode s" "cnt_inj (PwmDutyUpt s) = cnt_inj s"
  "Mode_align (PwmDutyUpt s) = Mode_align s" "Time_align (PwmDutyUpt s) = Time_align s"
  "Align_done (PwmDutyUpt s) = Align_done s" "EXT_1 (PwmDutyUpt s) = EXT_1 s"
  "INV (PwmDutyUpt s) = INV s" "PWM_BUF (PwmDutyUpt s) = PWM_BUF s"
  by (simp_all only: PwmDutyUpt_def sel_Let sel_if) (simp_all add: Let_def sel_if cong: if_cong)

lemma AdcProcess_frame [simp]:
  "FLAG (AdcProcess s) = FLAG s" "FLTVAL (AdcProcess s) = FLTVAL s"
  "FaultCnt (AdcProcess s) = FaultCnt s" "AdInitFlag (AdcProcess s) = AdInitFlag s"
  "AdDummyCnt (AdcProcess s) = AdDummyCnt s" "AdOffCalcCnt (AdcProcess s) = AdOffCalcCnt s"
  "ADC1_Offset_sum (AdcProcess s) = ADC1_Offset_sum s"
  "ADC1_Offset (AdcProcess s) = ADC1_Offset s" "adc1Val (AdcProcess s) = adc1Val s"
  "Theta_mode (AdcProcess s) = Theta_mode s" "cnt_inj (AdcProcess s) = cnt_inj s"
  "Mode_align (AdcProcess s) = Mode_align s" "Time_align (AdcProcess s) = Time_align s"
  "Align_done (AdcProcess s) = Align_done s" "EXT_1 (AdcProcess s) = EXT_1 s"
  "htim1 (AdcProcess s) = htim1 s" "PWM_BUF (AdcProcess s) = PWM_BUF s"
  by (simp_all only: AdcProcess_def sel_Let sel_if) (simp_all add: Let_def sel_if cong: if_cong)

lemma UpdateController_frame [simp]:
  "FLAG (UpdateController s) = FLAG s" "FLTVAL (UpdateController s) = FLTVAL s"
  "FaultCnt (UpdateController s) = FaultCnt s" "AdInitFlag (UpdateController s) = AdInitFlag s"
  "AdDummyCnt (UpdateController s) = AdDummyCnt s"
  "AdOffCalcCnt (UpdateController s) = AdOffCalcCnt s"
  "ADC1_Offset_sum (UpdateController s) = ADC1_Offset_sum s"
  "ADC1_Offset (UpdateController s) = ADC1_Offset s" "adc1Val (UpdateController s) = adc1Val s"
  "Theta_mode (UpdateController s) = Theta_mode s" "cnt_inj (UpdateController s) = cnt_inj s"
  "Mode_align (UpdateController s) = Mode_align s"
  "Time_align (UpdateController s) = Time_align s"
  "Align_done (UpdateController s) = Align_done s" "EXT_1 (UpdateController s) = EXT_1 s"
  "htim1 (UpdateController s) = htim1 s" "PWM_BUF (UpdateController s) = PWM_BUF s"
  by (simp_all only: UpdateController_def sel_Let sel_if) (simp_all add: Let_def sel_if cong: if_cong)

lemma ResetController_frame [simp]:
  "FLAG (ResetController s) = FLAG s" "FLTVAL (ResetController s) = FLTVAL s"
  "FaultCnt (ResetController s) = FaultCnt s" "AdInitFlag (ResetController s) = AdInitFlag s"
  "AdDummyCnt (ResetController s) = AdDummyCnt s"
  "AdOffCalcCnt (ResetController s) = AdOffCalcCnt s"
  "ADC1_Offset_sum (ResetController s) = ADC1_Offset_sum s"
  "ADC1_Offset (ResetController s) = ADC1_Offset s" "adc1Val (ResetController s) = adc1Val s"
  "Theta_mode (ResetController s) = Theta_mode s" "cnt_inj (ResetController s) = cnt_inj s"
  "Mode_align (ResetController s) = Mode_align s"
  "Time_align (ResetController s) = Time_align s"
  "Align_done (ResetController s) = Align_done s" "EXT_1 (ResetController s) = EXT_1 s"
  "htim1 (ResetController s) = htim1 s" "PWM_BUF (ResetController s) = PWM_BUF s"
  by (simp_all only: ResetController_def sel_Let sel_if) (simp_all add: Let_def sel_if cong: if_cong)

lemma SpeedControl_frame [simp]:
  "FLAG (SpeedControl P s) = FLAG s" "FLTVAL (SpeedControl P s) = FLTVAL s"
  "FaultCnt (SpeedControl P s) = FaultCnt s" "AdInitFlag (SpeedControl P s) = AdInitFlag s"
  "AdDummyCnt (SpeedControl P s) = AdDummyCnt s"
  "AdOffCalcCnt (SpeedControl P s) = AdOffCalcCnt s"
  "ADC1_Offset_sum (SpeedControl P s) = ADC1_Offset_sum s"
  "ADC1_Offset (SpeedControl P s) = ADC1_Offset s" "adc1Val (SpeedControl P s) = adc1Val s"
  "Theta_mode (SpeedControl P s) = Theta_mode s" "cnt_inj (SpeedControl P s) = cnt_inj s"
  "Mode_align (SpeedControl P s) = Mode_align s" "Time_align (SpeedControl P s) = Time_align s"
  "Align_done (SpeedControl P s) = Align_done s" "EXT_1 (SpeedControl P s) = EXT_1 s"
  "htim1 (SpeedControl P s) = htim1 s" "PWM_BUF (SpeedControl P s) = PWM_BUF s"
  by (simp_all only: SpeedControl_def sel_Let sel_if) (simp_all add: Let_def sel_if cong: if_cong)

lemma OpenLoopControl_frame [simp]:
  "FLAG (OpenLoopControl P s) = FLAG s" "FLTVAL (OpenLoopControl P s) = FLTVAL s"
  "FaultCnt (OpenLoopControl P s) = FaultCnt s"
  "AdInitFlag (OpenLoopControl P s) = AdInitFlag s"
  "AdDummyCnt (OpenLoopControl P s) = AdDummyCnt s"
  "AdOffCalcCnt (OpenLoopControl P s) = AdOffCalcCnt s"
  "ADC1_Offset_sum (OpenLoopControl P s) = ADC1_Offset_sum s"
  "ADC1_Offset (OpenLoopControl P s) = ADC1_Offset s"
  "adc1Val (OpenLoopControl P s) = adc1Val s" "Theta_mode (OpenLoopControl P s) = Theta_mode s"
  "cnt_inj (OpenLoopControl P s) = cnt_inj s" "Mode_align (OpenLoopControl P s) = Mode_align s"
  "Time_align (OpenLoopControl P s) = Time_align s"
  "Align_done (OpenLoopControl P s) = Align_done s" "EXT_1 (OpenLoopControl P s) = EXT_1 s"
  "htim1 (OpenLoopControl P s) = htim1 s" "PWM_BUF (OpenLoopControl P s) = PWM_BUF s"
  by (simp_all only: OpenLoopControl_def sel_Let sel_if) (simp_all add: Let_def sel_if cong: if_cong)

lemma HallPosition_Test_frame [simp]:
  "FLAG (HallPosition_Test s) = FLAG s" "FLTVAL (HallPosition_Test s) = FLTVAL s"
  "FaultCnt (HallPosition_Test s) = FaultCnt s"
  "AdInitFlag (HallPosition_Test s) = AdInitFlag s"
  "AdDummyCnt (HallPosition_Test s) = AdDummyCnt s"
  "AdOffCalcCnt (HallPosition_Test s) = AdOffCalcCnt s"
  "ADC1_Offset_sum (HallPosition_Test s) = ADC1_Offset_sum s"
  "ADC1_Offset (HallPosition_Test s) = ADC1_Offset s"
  "adc1Val (HallPosition_Test s) = adc1Val s" "Theta_mode (HallPosition_Test s) = Theta_mode s"
  "cnt_inj (HallPosition_Test s) = cnt_inj s" "Mode_align (HallPosition_Test s) = Mode_align s"
  "Time_align (HallPosition_Test s) = Time_align s"
  "Align_done (HallPosition_Test s) = Align_done s" "EXT_1 (HallPosition_Test s) = EXT_1 s"
  "htim1 (HallPosition_Test s) = htim1 s" "PWM_BUF (HallPosition_Test s) = PWM_BUF s"
  by (simp_all only: HallPosition_Test_def sel_Let sel_if) (simp_all add: Let_def sel_if cong: if_cong)

lemma Hallsensor_Observer_frame [simp]:
  "FLAG (Hallsensor_Observer P s) = FLAG s" "FLTVAL (Hallsensor_Observer P s) = FLTVAL s"
  "FaultCnt (Hallsensor_Observer P s) = FaultCnt s"
  "AdInitFlag (Hallsensor_Observer P s) = AdInitFlag s"
  "AdDummyCnt (Hallsensor_Observer P s) = AdDummyCnt s"
  "AdOffCalcCnt (Hallsensor_Observer P s) = AdOffCalcCnt s"
  "ADC1_Offset_sum (Hallsensor_Observer P s) = ADC1_Offset_sum s"
  "ADC1_Offset (Hallsensor_Observer P s) = ADC1_Offset s"
  "adc1Val (Hallsensor_Observer P s) = adc1Val s"
  "Theta_mode (Hallsensor_Observer P s) = Theta_mode s"
  "cnt_inj (Hallsensor_Observer P s) = cnt_inj s"
  "Mode_align (Hallsensor_Observer P s) = Mode_align s"
  "Time_align (Hallsensor_Observer P s) = Time_align s"
  "Align_done (Hallsensor_Observer P s) = Align_done s"
  "EXT_1 (Hallsensor_Observer P s) = EXT_1 s" "htim1 (Hallsensor_Observer P s) = htim1 s"
  "PWM_BUF (Hallsensor_Observer P s) = PWM_BUF s"
  by (simp_all only: Hallsensor_Observer_def sel_Let sel_if) (simp_all add: Let_def sel_if cong: if_cong)

lemma CurrentControl_frame [simp]:
  "FLAG (CurrentControl P s) = FLAG s" "FLTVAL (CurrentControl P s) = FLTVAL s"
  "FaultCnt (CurrentControl P s) = FaultCnt s" "AdInitFlag (CurrentControl P s) = AdInitFlag s"
  "AdDummyCnt (CurrentControl P s) = AdDummyCnt s"
  "AdOffCalcCnt (CurrentControl P s) = AdOffCalcCnt s"
  "ADC1_Offset_sum (CurrentControl P s) = ADC1_Offset_sum s"
  "ADC1_Offset (CurrentControl P s) = ADC1_Offset s" "adc1Val (CurrentControl P s) = adc1Val s"
  "Theta_mode (CurrentControl P s) = Theta_mode s" "cnt_inj (CurrentControl P s) = cnt_inj s"
  "Mode_align (CurrentControl P s) = Mode_align s"
  "Time_align (CurrentControl P s) = Time_align s"
  "Align_done (CurrentControl P s) = Align_done s" "EXT_1 (CurrentControl P s) = EXT_1 s"
  by (simp_all only: CurrentControl_def sel_Let sel_if) (simp_all add: Let_def sel_if cong: if_cong)

lemma Vref_GenControl_frame [simp]:
  "FLAG (Vref_GenControl P s) = FLAG s" "FLTVAL (Vref_GenControl P s) = FLTVAL s"
  "FaultCnt (Vref_GenControl P s) = FaultCnt s"
  "AdInitFlag (Vref_GenControl P s) = AdInitFlag s"
  "AdDummyCnt (Vref_GenControl P s) = AdDummyCnt s"
  "AdOffCalcCnt (Vref_GenControl P s) = AdOffCalcCnt s"
  "ADC1_Offset_sum (Vref_GenControl P s) = ADC1_Offset_sum s"
  "ADC1_Offset (Vref_GenControl P s) = ADC1_Offset s"
  "adc1Val (Vref_GenControl P s) = adc1Val s" "Theta_mode (Vref_GenControl P s) = Theta_mode s"
  "cnt_inj (Vref_GenControl P s) = cnt_inj s" "Mode_align (Vref_GenControl P s) = Mode_align s"
  "Time_align (Vref_GenControl P s) = Time_align s"
  "Align_done (Vref_GenControl P s) = Align_done s" "EXT_1 (Vref_GenControl P s) = EXT_1 s"
  by (simp_all only: Vref_GenControl_def sel_Let sel_if) (simp_all add: Let_def sel_if cong: if_cong)

lemma VoltageOpenLoopControl_frame [simp]:
  "FLAG (VoltageOpenLoopControl P s) = FLAG s" "FLTVAL (VoltageOpenLoopControl P s) = FLTVAL s"
  "FaultCnt (VoltageOpenLoopControl P s) = FaultCnt s"
  "AdInitFlag (VoltageOpenLoopControl P s) = AdInitFlag s"
  "AdDummyCnt (VoltageOpenLoopControl P s) = AdDummyCnt s"
  "AdOffCalcCnt (VoltageOpenLoopControl P s) = AdOffCalcCnt s"
  "ADC1_Offset_sum (VoltageOpenLoopControl P s) = ADC1_Offset_sum s"
  "ADC1_Offset (VoltageOpenLoopControl P s) = ADC1_Offset s"
  "adc1Val (VoltageOpenLoopControl P s) = adc1Val s"
  "Theta_mode (VoltageOpenLoopControl P s) = Theta_mode s"
  "cnt_inj (VoltageOpenLoopControl P s) = cnt_inj s"
  "Mode_align (VoltageOpenLoopControl P s) = Mode_align s"
  "Time_align (VoltageOpenLoopControl P s) = Time_align s"
  "Align_done (VoltageOpenLoopControl P s) = Align_done s"
  "EXT_1 (VoltageOpenLoopControl P s) = EXT_1 s"
  by (simp_all only: VoltageOpenLoopControl_def sel_Let sel_if) (simp_all add: Let_def sel_if cong: if_cong)

lemma VoltageInjection_SquareWave_frame [simp]:
  "FLAG (VoltageInjection_SquareWave P s) = FLAG s"
  "FLTVAL (VoltageInjection_SquareWave P s) = FLTVAL s"
  "FaultCnt (VoltageInjection_SquareWave P s) = FaultCnt s"
  "AdInitFlag (VoltageInjection_SquareWave P s) = AdInitFlag s"
  "AdDummyCnt (VoltageInjection_SquareWave P s) = AdDummyCnt s"
  "AdOffCalcCnt (VoltageInjection_SquareWave P s) = AdOffCalcCnt s"
  "ADC1_Offset_sum (VoltageInjection_SquareWave P s) = ADC1_Offset_sum s"
  "ADC1_Offset (VoltageInjection_SquareWave P s) = ADC1_Offset s"
  "adc1Val (VoltageInjection_SquareWave P s) = adc1Val s"
  "Theta_mode (VoltageInjection_SquareWave P s) = Theta_mode s"
  "Mode_align (VoltageInjection_SquareWave P s) = Mode_align s"
  "Time_align (VoltageInjection_SquareWave P s) = Time_align s"
  "Align_done (VoltageInjection_SquareWave P s) = Align_done s"
  "EXT_1 (VoltageInjection_SquareWave P s) = EXT_1 s"
  by (simp_all only: VoltageInjection_SquareWave_def sel_Let sel_if) (simp_all add: Let_def sel_if cong: if_cong)

lemma Offset_frame [simp]:
  "FLAG (Offset s) = FLAG s" "FLTVAL (Offset s) = FLTVAL s" "FaultCnt (Offset s) = FaultCnt s"
  "adc1Val (Offset s) = adc1Val s" "Theta_mode (Offset s) = Theta_mode s"
  "cnt_inj (Offset s) = cnt_inj s" "Mode_align (Offset s) = Mode_align s"
  "Time_align (Offset s) = Time_align s" "Align_done (Offset s) = Align_done s"
  "EXT_1 (Offset s) = EXT_1 s" "INV (Offset s) = INV s" "htim1 (Offset s) = htim1 s"
  "PWM_BUF (Offset s) = PWM_BUF s"
  by (simp_all only: Offset_def sel_Let sel_if) (simp_all add: Let_def sel_if cong: if_cong)

lemma HardWareFault_frame [simp]:
  "AdInitFlag (HardWareFault s) = AdInitFlag s" "AdDummyCnt (HardWareFault s) = AdDummyCnt s"
  "AdOffCalcCnt (HardWareFault s) = AdOffCalcCnt s"
  "ADC1_Offset_sum (HardWareFault s) = ADC1_Offset_sum s"
  "ADC1_Offset (HardWareFault s) = ADC1_Offset s" "adc1Val (HardWareFault s) = adc1Val s"
  "Theta_mode (HardWareFault s) = Theta_mode s" "cnt_inj (HardWareFault s) = cnt_inj s"
  "Mode_align (HardWareFault s) = Mode_align s" "Time_align (HardWareFault s) = Time_align s"
  "Align_done (HardWareFault s) = Align_done s" "EXT_1 (HardWareFault s) = EXT_1 s"
  by (simp_all only: HardWareFault_def sel_Let sel_if) (simp_all add: Let_def sel_if cong: if_cong)

lemma SoftWareFault_frame [simp]:
  "AdInitFlag (SoftWareFault s) = AdInitFlag s" "AdDummyCnt (SoftWareFault s) = AdDummyCnt s"
  "AdOffCalcCnt (SoftWareFault s) = AdOffCalcCnt s"
  "ADC1_Offset_sum (SoftWareFault s) = ADC1_Offset_sum s"
  "ADC1_Offset (SoftWareFault s) = ADC1_Offset s" "adc1Val (SoftWareFault s) = adc1Val s"
  "Theta_mode (SoftWareFault s) = Theta_mode s" "cnt_inj (SoftWareFault s) = cnt_inj s"
  "Mode_align (SoftWareFault s) = Mode_align s" "Time_align (SoftWareFault s) = Time_align s"
  "Align_done (SoftWareFault s) = Align_done s" "EXT_1 (SoftWareFault s) = EXT_1 s"
  by (simp_all only: SoftWareFault_def sel_Let sel_if) (simp_all add: Let_def sel_if cong: if_cong)

lemma Align_frame [simp]:
  "FLTVAL (Align P s) = FLTVAL s" "FaultCnt (Align P s) = FaultCnt s"
  "AdInitFlag (Align P s) = AdInitFlag s" "AdDummyCnt (Align P s) = AdDummyCnt s"
  "AdOffCalcCnt (Align P s) = AdOffCalcCnt s" "ADC1_Offset_sum (Align P s) = ADC1_Offset_sum s"
  "ADC1_Offset (Align P s) = ADC1_Offset s" "adc1Val (Align P s) = adc1Val s"
  "Theta_mode (Align P s) = Theta_mode s" "cnt_inj (Align P s) = cnt_inj s"
  "EXT_1 (Align P s) = EXT_1 s"
  by (simp_all only: Align_def sel_Let sel_if) (simp_all add: Let_def sel_if cong: if_cong)

subsection \<open>Rounding to single precision\<close>

lemma powr_int_diff: "2 powr of_int (int s - int c) = (2 ^ s / 2 ^ c :: real)"
proof -
  have "(2::real) powr of_int (int s - int c) = 2 powr (real s - real c)" by simp
  also have "\<dots> = 2 powr real s / 2 powr real c" by (rule powr_diff)
  also have "\<dots> = 2 ^ s / 2 ^ c" by (simp add: powr_realpow)
  finally show ?thesis .
qed

lemma round32_0 [simp]: "round32 0 = 0"
  by (simp add: round32_def)

lemma round32_binade:
  assumes lo: "2 powr of_int e \<le> \<bar>y\<bar>" and hi: "\<bar>y\<bar> < 2 powr of_int (e + 1)"
    and n: "- 126 \<le> e"
  shows "round32 y = of_int (rne (y / 2 powr of_int (e - 23))) * 2 powr of_int (e - 23)"
proof -
  have "0 < (2::real) powr of_int e" by simp
  with lo have y0: "0 < \<bar>y\<bar>" by linarith
  hence y: "y \<noteq> 0" by simp
  have "\<lfloor>log 2 \<bar>y\<bar>\<rfloor> = e"
    using floor_log_eq_powr_iff [of "\<bar>y\<bar>" 2 e] y0 lo hi by simp
  hence m: "max \<lfloor>log 2 \<bar>y\<bar>\<rfloor> (- 126) = e" using n by simp
  show ?thesis unfolding round32_def Let_def m using y by simp
qed

lemma round32_frac:
  fixes y :: real
  assumes lo: "2 ^ a / 2 ^ b \<le> \<bar>y\<bar>" and hi: "\<bar>y\<bar> < 2 ^ Suc a / 2 ^ b"
    and n: "b \<le> a + 126"
  shows "round32 y = of_int (rne (y * 2 ^ (b + 23) / 2 ^ a)) * 2 ^ a / 2 ^ (b + 23)"
proof -
  have 1: "2 powr of_int (int a - int b) \<le> \<bar>y\<bar>" using lo by (simp only: powr_int_diff)
  have "int a - int b + 1 = int (Suc a) - int b" by simp
  hence 2: "\<bar>y\<bar> < 2 powr of_int (int a - int b + 1)" using hi by (simp only: powr_int_diff)
  have 3: "- 126 \<le> int a - int b" using n by simp
  have "int a - int b - 23 = int a - int (b + 23)" by simp
  hence u: "2 powr of_int (int a - int b - 23) = (2 ^ a / 2 ^ (b + 23) :: real)"
    by (simp only: powr_int_diff)
  have q: "y / (2 ^ a / 2 ^ (b + 23)) = y * 2 ^ (b + 23) / 2 ^ a" by simp
  show ?thesis unfolding round32_binade [OF 1 2 3] u q by simp
qed

lemma round32_units:
  fixes z :: real
  assumes "2 ^ (23 + s) \<le> z" "z < 2 ^ (24 + s)"
  shows "round32 (z / 2 ^ 37) = of_int (rne (z / 2 ^ s)) * 2 ^ s / 2 ^ 37"
proof -
  have z0: "0 < z" by (rule less_le_trans [OF _ assms(1)]) simp
  have a: "\<bar>z / 2 ^ 37\<bar> = z / 2 ^ 37" using z0 by simp
  have lo: "2 ^ (23 + s) / 2 ^ 37 \<le> \<bar>z / 2 ^ 37\<bar>"
    unfolding a using assms(1) by (simp add: divide_right_mono)
  have hi: "\<bar>z / 2 ^ 37\<bar> < 2 ^ Suc (23 + s) / 2 ^ 37"
    unfolding a using assms(2) by (simp add: divide_strict_right_mono)
  have q: "z / 2 ^ 37 * 2 ^ (37 + 23) / 2 ^ (23 + s) = z / 2 ^ s"
    by (simp add: power_add)
  have "round32 (z / 2 ^ 37) =
      of_int (rne (z / 2 ^ 37 * 2 ^ (37 + 23) / 2 ^ (23 + s))) * 2 ^ (23 + s) / 2 ^ (37 + 23)"
    by (rule round32_frac [OF lo hi]) simp
  thus ?thesis unfolding q by (simp add: power_add)
qed

lemma rne_int [simp]: "rne (of_int m) = m"
  by (simp add: rne_def)



lemma round32_nat:
  assumes "n < 2 ^ 24"
  shows "round32 (real n) = real n"
proof (cases "n = 0")
  case True
  thus ?thesis by simp
next
  case False
  hence "1 \<le> n" by simp
  then obtain k where k: "2 ^ k \<le> n" "n < 2 ^ Suc k"
    using ex_power_ivl1 [of 2 n] by auto
  have "(2::nat) ^ k < 2 ^ 24" using k(1) assms by simp
  hence k24: "k < 24" by (rule power_less_imp_less_exp [rotated]) simp
  have lo: "2 ^ k / 2 ^ 0 \<le> \<bar>real n\<bar>"
    using k(1) by (simp add: numeral_power_le_of_nat_cancel_iff)
  have hi: "\<bar>real n\<bar> < 2 ^ Suc k / 2 ^ 0"
    using k(2) by (simp add: of_nat_less_numeral_power_cancel_iff del: power_Suc)
  define j where "j = 23 - k"
  have j: "23 = k + j" using k24 by (simp add: j_def)
  have q: "real n * 2 ^ (0 + 23) / 2 ^ k = of_int (int (n * 2 ^ j))"
    by (simp add: j power_add)
  have "round32 (real n) = of_int (rne (real n * 2 ^ (0 + 23) / 2 ^ k)) * 2 ^ k / 2 ^ (0 + 23)"
    by (rule round32_frac [OF lo hi]) simp
  thus ?thesis unfolding q rne_int by (simp add: j power_add)
qed





subsection \<open>The phases of the tick\<close>

lemma call_simps [simp]: "fst (call c f x) = f (fst x)" "snd (call c f x) = snd x @ [c]"
  by (simp_all add: call_def)

lemma exec_simps [simp]: "fst (exec f x) = f (fst x)" "snd (exec f x) = snd x"
  by (simp_all add: exec_def)

lemma ABS_abs [simp]: "ABS x = \<bar>x\<bar>"
  by (simp add: ABS_def)

lemma Control_sample_fst_eq:
  "fst (Control_sample x) =
     (let s = fst x;
          s1 = s\<lparr>ControlCnt := ControlCnt s + 1,
                  adc1Val := (adc1Val s)[0 := u2f (JDR1 s), 1 := u2f (JDR2 s),
                                          2 := u2f (JDR3 s), 3 := u2f (JDR4 s)]\<rparr>
      in if AdInitFlag s = 0 then Offset s1 else AdcProcess s1)"
  unfolding Control_sample_def Let_def exec_def call_def fst_conv snd_conv
  by (simp cong: if_cong)

lemma sampled_eq:
  "sampled s =
     (let s1 = s\<lparr>ControlCnt := ControlCnt s + 1,
                  adc1Val := (adc1Val s)[0 := u2f (JDR1 s), 1 := u2f (JDR2 s),
                                          2 := u2f (JDR3 s), 3 := u2f (JDR4 s)]\<rparr>
      in if AdInitFlag s = 0 then Offset s1 else AdcProcess s1)"
  by (simp only: sampled_def Control_sample_fst_eq fst_conv Let_def)

lemma Control_sample_fst: "fst (Control_sample (s, t)) = sampled s"
  by (simp only: sampled_eq Control_sample_fst_eq fst_conv Let_def)

lemma Control_sample_snd:
  "snd (Control_sample (s, t)) = t @ [if AdInitFlag s = 0 then c_Offset else c_AdcProcess]"
  by (simp add: Control_sample_def Let_def)

lemma sampled_frame [simp]:
  "FLAG (sampled s) = FLAG s" "FLTVAL (sampled s) = FLTVAL s" "FaultCnt (sampled s) = FaultCnt s"
  "Theta_mode (sampled s) = Theta_mode s" "cnt_inj (sampled s) = cnt_inj s"
  "Mode_align (sampled s) = Mode_align s" "Time_align (sampled s) = Time_align s"
  "Align_done (sampled s) = Align_done s" "EXT_1 (sampled s) = EXT_1 s"
  "htim1 (sampled s) = htim1 s" "PWM_BUF (sampled s) = PWM_BUF s"
  by (simp_all add: sampled_eq Let_def sel_if cong: if_cong)

lemma sampled_INV_calibrating: "AdInitFlag s = 0 \<Longrightarrow> INV (sampled s) = INV s"
  by (simp add: sampled_eq Let_def)

text \<open>The software fault handler, field by field.\<close>

lemma SoftWareFault_fields:
  "PWM_BUF (SoftWareFault s) = False"
  "INV (SoftWareFault s) = (INV s)\<lparr>Duty_A := 0, Duty_B := 0, Duty_C := 0\<rparr>"
  "htim1 (SoftWareFault s) =
     (htim1 s)\<lparr>CH1 := False, CH1N := False, CH2 := False, CH2N := False, CH3 := False,
                 CH3N := False\<rparr>"
  "FLAG (SoftWareFault s) =
     (FLAG s)\<lparr>READY := 0, FAULT := (if FAULT (FLAG s) = 1 then 1 else 2)\<rparr>"
  "FLTVAL (SoftWareFault s) =
     \<lparr>FLT_Vdc = Vdc (INV s), FLT_Idc = Idc (INV s), FLT_Ia = Ia (INV s), FLT_Ib = Ib (INV s),
      FLT_Ic = Ic (INV s), FLT_Wrpm = Wrpm (INV s)\<rparr>"
  "FaultCnt (SoftWareFault s) = FaultCnt s + 1"
  by (simp_all only: SoftWareFault_def sel_Let sel_if)
     (simp_all add: Let_def sel_if PwmSwOff_def PWM_BUF_OFF_def cong: if_cong)

lemma SoftWareFault_rest:
  "ControlCnt (SoftWareFault s) = ControlCnt s" "JDR1 (SoftWareFault s) = JDR1 s"
  "JDR2 (SoftWareFault s) = JDR2 s" "JDR3 (SoftWareFault s) = JDR3 s"
  "JDR4 (SoftWareFault s) = JDR4 s" "ADC1_Result (SoftWareFault s) = ADC1_Result s"
  "scale_comp (SoftWareFault s) = scale_comp s" "ADCgain (SoftWareFault s) = ADCgain s"
  "Ia_arr (SoftWareFault s) = Ia_arr s" "store_cnt (SoftWareFault s) = store_cnt s"
  "store_flag (SoftWareFault s) = store_flag s" "Van (SoftWareFault s) = Van s"
  "Vbn (SoftWareFault s) = Vbn s" "Vcn (SoftWareFault s) = Vcn s"
  "Vdss_ref_set (SoftWareFault s) = Vdss_ref_set s"
  "Vqss_ref_set (SoftWareFault s) = Vqss_ref_set s"
  "GPIOC_PIN_6 (SoftWareFault s) = GPIOC_PIN_6 s" "GPIOC_PIN_7 (SoftWareFault s) = GPIOC_PIN_7 s"
  "GPIOD_PIN_2 (SoftWareFault s) = GPIOD_PIN_2 s" "state.more (SoftWareFault s) = state.more s"
  by (simp_all only: SoftWareFault_def Let_push [of ControlCnt] Let_push [of JDR1]
        Let_push [of JDR2] Let_push [of JDR3] Let_push [of JDR4] Let_push [of ADC1_Result]
        Let_push [of scale_comp] Let_push [of ADCgain] Let_push [of Ia_arr]
        Let_push [of store_cnt] Let_push [of store_flag] Let_push [of Van] Let_push [of Vbn]
        Let_push [of Vcn] Let_push [of Vdss_ref_set] Let_push [of Vqss_ref_set]
        Let_push [of GPIOC_PIN_6] Let_push [of GPIOC_PIN_7] Let_push [of GPIOD_PIN_2]
        Let_push [of state.more])
     (simp_all add: Let_def PwmSwOff_def PWM_BUF_OFF_def cong: if_cong)

lemma SoftWareFault_again:
  "SoftWareFault ((SoftWareFault s)\<lparr>FaultCnt := c\<rparr>) = (SoftWareFault s)\<lparr>FaultCnt := c + 1\<rparr>"
  by (rule state.equality) (simp_all add: SoftWareFault_fields SoftWareFault_rest)

lemma SoftWareFault_once:
  "(SoftWareFault s)\<lparr>FaultCnt := FaultCnt s + 1\<rparr> = SoftWareFault s"
  by (rule state.equality) (simp_all add: SoftWareFault_fields)

lemma SoftWareFault_twice:
  "SoftWareFault (SoftWareFault s) = (SoftWareFault s)\<lparr>FaultCnt := FaultCnt s + 2\<rparr>"
  using SoftWareFault_again [where s = s and c = "FaultCnt s + 1"] by (simp add: SoftWareFault_once)

lemma SoftWareFault_currents [simp]:
  "Ia (INV (SoftWareFault s)) = Ia (INV s)" "Ib (INV (SoftWareFault s)) = Ib (INV s)"
  "Ic (INV (SoftWareFault s)) = Ic (INV s)"
  by (simp_all add: SoftWareFault_fields)

lemma Control_protect_fst:
  "fst (Control_protect (m, t)) =
     (if trips m = 0 then m else (SoftWareFault m)\<lparr>FaultCnt := FaultCnt m + of_nat (trips m)\<rparr>)"
  unfolding Control_protect_def Let_def trips_def
  by (cases "\<bar>Ia (INV m)\<bar> \<ge> 80"; cases "\<bar>Ib (INV m)\<bar> \<ge> 80"; cases "\<bar>Ic (INV m)\<bar> \<ge> 80")
     (simp_all add: SoftWareFault_twice SoftWareFault_again SoftWareFault_once)

lemma Control_protect_snd:
  "snd (Control_protect (m, t)) = t @ replicate (trips m) c_SoftWareFault"
  unfolding Control_protect_def Let_def trips_def
  by (cases "\<bar>Ia (INV m)\<bar> \<ge> 80"; cases "\<bar>Ib (INV m)\<bar> \<ge> 80"; cases "\<bar>Ic (INV m)\<bar> \<ge> 80")
     (simp_all add: numeral_eq_Suc)

lemma Control_protect_fst_gen:
  "fst (Control_protect x) =
     (if trips (fst x) = 0 then fst x
      else (SoftWareFault (fst x))\<lparr>FaultCnt := FaultCnt (fst x) + of_nat (trips (fst x))\<rparr>)"
  using Control_protect_fst [of "fst x" "snd x"] by simp

lemma Control_protect_snd_gen:
  "snd (Control_protect x) = snd x @ replicate (trips (fst x)) c_SoftWareFault"
  using Control_protect_snd [of "fst x" "snd x"] by simp

text \<open>The state in which the tick reaches the dispatch, and the calls made until then.\<close>

lemma Control_pre_fst:
  "fst (Control_pre P s) =
     Hallsensor_Observer P (UpdateController
       (if trips (sampled s) = 0 then sampled s
        else (SoftWareFault (sampled s))\<lparr>FaultCnt := FaultCnt s + of_nat (trips (sampled s))\<rparr>))"
  by (simp add: Control_pre_def Let_def Control_protect_fst_gen Control_sample_fst)

lemma Control_pre_snd:
  "snd (Control_pre P s) =
     [if AdInitFlag s = 0 then c_Offset else c_AdcProcess]
     @ replicate (trips (sampled s)) c_SoftWareFault
     @ [c_UpdateController, c_Hallsensor_Observer]"
  by (simp add: Control_pre_def Let_def Control_protect_snd_gen Control_sample_fst
        Control_sample_snd)

lemma Control_pre_FLAG:
  "FLAG (fst (Control_pre P s)) =
     (if trips (sampled s) = 0 then FLAG s
      else (FLAG s)\<lparr>READY := 0, FAULT := (if FAULT (FLAG s) = 1 then 1 else 2)\<rparr>)"
  by (simp add: Control_pre_fst SoftWareFault_fields)

lemma Control_pre_frame [simp]:
  "Theta_mode (fst (Control_pre P s)) = Theta_mode s"
  "cnt_inj (fst (Control_pre P s)) = cnt_inj s"
  "Mode_align (fst (Control_pre P s)) = Mode_align s"
  "Time_align (fst (Control_pre P s)) = Time_align s"
  "Align_done (fst (Control_pre P s)) = Align_done s"
  "EXT_1 (fst (Control_pre P s)) = EXT_1 s"
  by (simp_all add: Control_pre_fst)

lemma Control_pre_calibration [simp]:
  "AdInitFlag (fst (Control_pre P s)) = AdInitFlag (sampled s)"
  "AdDummyCnt (fst (Control_pre P s)) = AdDummyCnt (sampled s)"
  "AdOffCalcCnt (fst (Control_pre P s)) = AdOffCalcCnt (sampled s)"
  "ADC1_Offset_sum (fst (Control_pre P s)) = ADC1_Offset_sum (sampled s)"
  "ADC1_Offset (fst (Control_pre P s)) = ADC1_Offset (sampled s)"
  "adc1Val (fst (Control_pre P s)) = adc1Val (sampled s)"
  by (simp_all add: Control_pre_fst)

text \<open>The dispatch.\<close>

lemma Align_FLAG:
  "FLAG (Align P s) = (if Mode_align s = 3 then (FLAG s)\<lparr>INV_ALIGN := 0\<rparr> else FLAG s)"
  by (simp only: Align_def sel_Let sel_if) (simp add: Let_def sel_if cong: if_cong)

lemma Align_frame_FLAG [simp]:
  "FAULT (FLAG (Align P s)) = FAULT (FLAG s)" "READY (FLAG (Align P s)) = READY (FLAG s)"
  by (simp_all add: Align_FLAG)

lemma Control_dispatch_snd:
  "snd (Control_dispatch P x) = snd x @ mode_calls (select_mode (FLAG (fst x)))"
  by (simp add: Control_dispatch_def select_mode_def mode_priority_def Let_def)

lemma Control_dispatch_frame [simp]:
  "FLTVAL (fst (Control_dispatch P x)) = FLTVAL (fst x)"
  "FaultCnt (fst (Control_dispatch P x)) = FaultCnt (fst x)"
  "AdInitFlag (fst (Control_dispatch P x)) = AdInitFlag (fst x)"
  "AdDummyCnt (fst (Control_dispatch P x)) = AdDummyCnt (fst x)"
  "AdOffCalcCnt (fst (Control_dispatch P x)) = AdOffCalcCnt (fst x)"
  "ADC1_Offset_sum (fst (Control_dispatch P x)) = ADC1_Offset_sum (fst x)"
  "ADC1_Offset (fst (Control_dispatch P x)) = ADC1_Offset (fst x)"
  "adc1Val (fst (Control_dispatch P x)) = adc1Val (fst x)"
  "EXT_1 (fst (Control_dispatch P x)) = EXT_1 (fst x)"
  "FAULT (FLAG (fst (Control_dispatch P x))) = FAULT (FLAG (fst x))"
  by (simp_all add: Control_dispatch_def Let_def)


lemma Control_FAULT:
  "FAULT (FLAG (Control P s)) =
     (if trips (sampled s) = 0 \<or> FAULT (FLAG s) = 1 then FAULT (FLAG s) else 2)"
  by (simp add: Control_def Control_traced_def Control_pre_FLAG)

text \<open>The safe stop.\<close>

lemma PwmSwOff_fields:
  "PWM_BUF (PwmSwOff s) = False"
  "htim1 (PwmSwOff s) =
     (htim1 s)\<lparr>CH1 := False, CH1N := False, CH2 := False, CH2N := False, CH3 := False,
                 CH3N := False\<rparr>"
  "INV (PwmSwOff s) = (INV s)\<lparr>Duty_A := 0, Duty_B := 0, Duty_C := 0\<rparr>"
  by (simp_all only: PwmSwOff_def sel_Let sel_if)
     (simp_all add: Let_def PWM_BUF_OFF_def cong: if_cong)

lemma PwmDutyUpt_htim1:
  "htim1 (PwmDutyUpt s) =
     (htim1 s)\<lparr>CCR1 := f2u32 (round32 (Duty_A (INV s) * u2f (ARR (htim1 s)))),
                 CCR2 := f2u32 (round32 (Duty_B (INV s) * u2f (ARR (htim1 s)))),
                 CCR3 := f2u32 (round32 (Duty_C (INV s) * u2f (ARR (htim1 s))))\<rparr>"
  by (simp only: PwmDutyUpt_def sel_Let sel_if) (simp add: Let_def cong: if_cong)

lemma f2u32_0 [simp]: "f2u32 0 = 0"
  by (simp add: f2u32_def)

lemma UpdateController_INV [simp]:
  "Ia (INV (UpdateController s)) = Ia (INV s)" "Ib (INV (UpdateController s)) = Ib (INV s)"
  "Ic (INV (UpdateController s)) = Ic (INV s)" "Vdc (INV (UpdateController s)) = Vdc (INV s)"
  "Idc (INV (UpdateController s)) = Idc (INV s)" "Wrpm (INV (UpdateController s)) = Wrpm (INV s)"
  "Duty_A (INV (UpdateController s)) = Duty_A (INV s)"
  "Duty_B (INV (UpdateController s)) = Duty_B (INV s)"
  "Duty_C (INV (UpdateController s)) = Duty_C (INV s)"
  by (simp_all only: UpdateController_def sel_Let sel_if)
     (simp_all add: Let_def sel_if cong: if_cong)

lemma Hallsensor_Observer_INV [simp]:
  "Ia (INV (Hallsensor_Observer P s)) = Ia (INV s)"
  "Ib (INV (Hallsensor_Observer P s)) = Ib (INV s)"
  "Ic (INV (Hallsensor_Observer P s)) = Ic (INV s)"
  "Vdc (INV (Hallsensor_Observer P s)) = Vdc (INV s)"
  "Idc (INV (Hallsensor_Observer P s)) = Idc (INV s)"
  "Duty_A (INV (Hallsensor_Observer P s)) = Duty_A (INV s)"
  "Duty_B (INV (Hallsensor_Observer P s)) = Duty_B (INV s)"
  "Duty_C (INV (Hallsensor_Observer P s)) = Duty_C (INV s)"
  by (simp_all only: Hallsensor_Observer_def sel_Let sel_if)
     (simp_all add: Let_def sel_if cong: if_cong)

lemma ResetController_INV [simp]:
  "Ia (INV (ResetController s)) = Ia (INV s)" "Ib (INV (ResetController s)) = Ib (INV s)"
  "Ic (INV (ResetController s)) = Ic (INV s)" "Vdc (INV (ResetController s)) = Vdc (INV s)"
  "Idc (INV (ResetController s)) = Idc (INV s)" "Wrpm (INV (ResetController s)) = Wrpm (INV s)"
  "Duty_A (INV (ResetController s)) = Duty_A (INV s)"
  "Duty_B (INV (ResetController s)) = Duty_B (INV s)"
  "Duty_C (INV (ResetController s)) = Duty_C (INV s)"
  by (simp_all only: ResetController_def sel_Let sel_if)
     (simp_all add: Let_def sel_if cong: if_cong)

lemma stopped_fields:
  "PWM_BUF (stopped s) = False"
  "htim1 (stopped s) =
     (htim1 s)\<lparr>CH1 := False, CH1N := False, CH2 := False, CH2N := False, CH3 := False,
                 CH3N := False, CCR1 := 0, CCR2 := 0, CCR3 := 0\<rparr>"
  "Duty_A (INV (stopped s)) = 0" "Duty_B (INV (stopped s)) = 0" "Duty_C (INV (stopped s)) = 0"
  "Ia (INV (stopped s)) = Ia (INV s)" "Ib (INV (stopped s)) = Ib (INV s)"
  "Ic (INV (stopped s)) = Ic (INV s)" "Vdc (INV (stopped s)) = Vdc (INV s)"
  "Idc (INV (stopped s)) = Idc (INV s)" "Wrpm (INV (stopped s)) = Wrpm (INV s)"
  "FLAG (stopped s) = FLAG s" "FLTVAL (stopped s) = FLTVAL s" "FaultCnt (stopped s) = FaultCnt s"
  "Theta_mode (stopped s) = Theta_mode s"
  by (simp_all add: stopped_def PwmSwOff_fields PwmDutyUpt_htim1)

lemma Control_dispatch_not_ready:
  assumes "READY (FLAG (fst x)) = 0 \<or> FAULT (FLAG (fst x)) \<noteq> 0"
  shows "fst (Control_dispatch P x) =
     (stopped (fst x))\<lparr>FLAG := (FLAG (fst x))\<lparr>INV_RUN := 0, INV_OLC := 0, INV_VOLC := 0,
        INV_ALIGN := 0, INV_NLC := 0, TS_MODE := 0, READY := 0\<rparr>\<rparr>"
proof -
  have c: "\<not> (READY (FLAG (fst x)) \<noteq> 0 \<and> \<not> FAULT (FLAG (fst x)) \<noteq> 0)"
    using assms by auto
  show ?thesis
    by (simp only: Control_dispatch_def if_not_P [OF c]) (simp add: Let_def stopped_def)
qed

lemma Control_dispatch_no_mode:
  assumes "READY (FLAG (fst x)) \<noteq> 0" "FAULT (FLAG (fst x)) = 0"
    and "INV_RUN (FLAG (fst x)) = 0" "HALL_POS_TEST (FLAG (fst x)) = 0"
    and "DUTY_TEST (FLAG (fst x)) = 0" "INV_OLC (FLAG (fst x)) = 0"
    and "INV_Vref_Gen (FLAG (fst x)) = 0" "INV_VOLC (FLAG (fst x)) = 0"
    and "Param_Estimation (FLAG (fst x)) = 0" "INV_ALIGN (FLAG (fst x)) = 0"
  shows "fst (Control_dispatch P x) =
     (stopped (fst x))\<lparr>FLAG := (FLAG (fst x))\<lparr>INV_RUN := 0, INV_OLC := 0, INV_VOLC := 0,
        INV_ALIGN := 0, INV_NLC := 0, TS_MODE := 0\<rparr>\<rparr>"
  using assms by (simp add: Control_dispatch_def Let_def stopped_def)

text \<open>Fields of the inverter struct after the regulators.\<close>

lemma CurrentControl_INV:
  "Thetar (INV (CurrentControl P s)) =
     (if Theta_mode s = 1 then Thetar_OLC (INV s) else Thetar_est_Hall (INV s))"
  "Wr (INV (CurrentControl P s)) =
     (if Theta_mode s = 1 then Wrpm_ref_OLC (INV s) * RPM2RM P * PP (INV s)
      else Wr_est_Hall (INV s))"
  "Idsr_ref (INV (CurrentControl P s)) = (if INV_RUN (FLAG s) \<noteq> 0 then 0 else Idsr_ref (INV s))"
  "Idsr_align (INV (CurrentControl P s)) = Idsr_align (INV s)"
  by (simp_all only: CurrentControl_def sel_Let sel_if)
     (simp_all add: Let_def sel_if cong: if_cong)



lemma VoltageInjection_SquareWave_INV:
  "Vmag_inj (INV (VoltageInjection_SquareWave P s)) = 1"
  "Vdsr_ref_unsat (INV (VoltageInjection_SquareWave P s)) = (if 2 \<le> cnt_inj s then 1 else - 1)"
  "Vqsr_ref_unsat (INV (VoltageInjection_SquareWave P s)) = 0"
  "sinThetar (INV (VoltageInjection_SquareWave P s)) = 0"
  "cosThetar (INV (VoltageInjection_SquareWave P s)) = 1"
  by (simp_all only: VoltageInjection_SquareWave_def sel_Let sel_if)
     (simp_all add: Let_def sel_if cong: if_cong)

lemma VoltageInjection_SquareWave_cnt_inj:
  "cnt_inj (VoltageInjection_SquareWave P s) = (if 2 \<le> cnt_inj s then 1 else 2)"
  by (simp only: VoltageInjection_SquareWave_def sel_Let sel_if)
     (simp add: Let_def sel_if cong: if_cong)

lemma Align_fields:
  "Mode_align (Align P s) =
     (if Mode_align s = 0 then 1
      else if Mode_align s = 1 then (if 4 \<le> Time_align s then 2 else 1)
      else if Mode_align s = 2 then (if 5 \<le> Time_align s then 3 else 2)
      else if Mode_align s = 3 then 0 else Mode_align s)"
  "Time_align (Align P s) = f32 P ((if Mode_align s = 0 then 0 else Time_align s) + Tsamp P)"
  "Align_done (Align P s) =
     (if Mode_align s = 0 then 0 else if Mode_align s = 3 then 1 else Align_done s)"
  "Idsr_ref (INV (Align P s)) =
     (if Mode_align s = 0 then Idsr_align (INV s)
      else if Mode_align s = 1 then (if INV_RUN (FLAG s) \<noteq> 0 then 0 else Idsr_ref (INV s))
      else if Mode_align s = 2 then 0 else Idsr_ref (INV s))"
  "Idsr_align (INV (Align P s)) = Idsr_align (INV s)"
  by (simp_all only: Align_def sel_Let sel_if)
     (simp_all add: Let_def sel_if CurrentControl_INV cong: if_cong)

section \<open>The claims\<close>

subsection \<open>Fault handling\<close>

lemma Control_fields_tripped:
  assumes "trips (sampled s) \<noteq> 0"
  shows "Control P s =
     (stopped (fst (Control_pre P s)))\<lparr>FLAG := (FLAG (fst (Control_pre P s)))\<lparr>INV_RUN := 0,
        INV_OLC := 0, INV_VOLC := 0, INV_ALIGN := 0, INV_NLC := 0, TS_MODE := 0, READY := 0\<rparr>\<rparr>"
proof -
  have "FAULT (FLAG (fst (Control_pre P s))) \<noteq> 0"
    using assms by (simp add: Control_pre_FLAG)
  then show ?thesis
    by (simp only: Control_def Control_traced_def) (rule Control_dispatch_not_ready, simp)
qed

lemma trips_pos:
  "trips m \<noteq> 0 \<longleftrightarrow> 80 \<le> \<bar>Ia (INV m)\<bar> \<or> 80 \<le> \<bar>Ib (INV m)\<bar> \<or> 80 \<le> \<bar>Ic (INV m)\<bar>"
  by (simp add: trips_def)

text \<open>
  C1. In every tick in which the magnitude of a phase current is at least 80 A when the
  protection check reads it (that is, in the state after the sampling step of the tick),
  the tick ends with the output gate disabled, the six PWM outputs stopped, the duties and
  the compare registers at zero, \<open>READY = 0\<close>, the fault code 2 unless it was 1 already,
  and the fault snapshot equal to the bus voltage, the bus current, the phase currents and
  the speed that the inverter struct held at the check. The bus and phase values are still
  those of the struct at the end of the tick. Nothing is assumed about the state in which
  the tick starts, hence about the mode of the previous tick.
\<close>

theorem overcurrent_trip:
  assumes "80 \<le> \<bar>Ia (INV (sampled s))\<bar> \<or> 80 \<le> \<bar>Ib (INV (sampled s))\<bar>
           \<or> 80 \<le> \<bar>Ic (INV (sampled s))\<bar>"
  shows "PWM_BUF (Control P s) = False
    \<and> htim1 (Control P s) = (htim1 s)\<lparr>CH1 := False, CH1N := False, CH2 := False, CH2N := False,
          CH3 := False, CH3N := False, CCR1 := 0, CCR2 := 0, CCR3 := 0\<rparr>
    \<and> Duty_A (INV (Control P s)) = 0 \<and> Duty_B (INV (Control P s)) = 0
    \<and> Duty_C (INV (Control P s)) = 0
    \<and> READY (FLAG (Control P s)) = 0
    \<and> FAULT (FLAG (Control P s)) = (if FAULT (FLAG s) = 1 then 1 else 2)
    \<and> FLTVAL (Control P s) =
          \<lparr>FLT_Vdc = Vdc (INV (sampled s)), FLT_Idc = Idc (INV (sampled s)),
           FLT_Ia = Ia (INV (sampled s)), FLT_Ib = Ib (INV (sampled s)),
           FLT_Ic = Ic (INV (sampled s)), FLT_Wrpm = Wrpm (INV (sampled s))\<rparr>
    \<and> Vdc (INV (Control P s)) = Vdc (INV (sampled s))
    \<and> Idc (INV (Control P s)) = Idc (INV (sampled s))
    \<and> Ia (INV (Control P s)) = Ia (INV (sampled s))
    \<and> Ib (INV (Control P s)) = Ib (INV (sampled s))
    \<and> Ic (INV (Control P s)) = Ic (INV (sampled s))
    \<and> c_SoftWareFault \<in> set (Control_calls P s)"
proof -
  have t: "trips (sampled s) \<noteq> 0"
    using assms by (simp only: trips_pos)
  have pre: "fst (Control_pre P s) =
      Hallsensor_Observer P (UpdateController
        ((SoftWareFault (sampled s))\<lparr>FaultCnt := FaultCnt s + of_nat (trips (sampled s))\<rparr>))"
    using t by (simp add: Control_pre_fst)
  have calls: "c_SoftWareFault \<in> set (Control_calls P s)"
    using t by (simp add: Control_calls_def Control_traced_def Control_dispatch_snd Control_pre_snd)
  show ?thesis
    using t calls
    by (simp add: Control_fields_tripped stopped_fields pre SoftWareFault_fields)
qed

theorem overcurrent_trip_witness:
  "80 \<le> \<bar>Ia (INV (sampled (startup\<lparr>INV := INV_zero\<lparr>Ia := - 100\<rparr>\<rparr>)))\<bar>
   \<and> PWM_BUF (Control exact_platform (startup\<lparr>INV := INV_zero\<lparr>Ia := - 100\<rparr>\<rparr>)) = False
   \<and> READY (FLAG (Control exact_platform (startup\<lparr>INV := INV_zero\<lparr>Ia := - 100\<rparr>\<rparr>))) = 0
   \<and> FAULT (FLAG (Control exact_platform (startup\<lparr>INV := INV_zero\<lparr>Ia := - 100\<rparr>\<rparr>))) = 2
   \<and> FLT_Ia (FLTVAL (Control exact_platform (startup\<lparr>INV := INV_zero\<lparr>Ia := - 100\<rparr>\<rparr>))) = - 100"
proof -
  let ?s = "startup\<lparr>INV := INV_zero\<lparr>Ia := - 100\<rparr>\<rparr>"
  have i: "INV (sampled ?s) = INV_zero\<lparr>Ia := - 100\<rparr>"
    by (simp add: sampled_INV_calibrating startup_def)
  have h: "80 \<le> \<bar>Ia (INV (sampled ?s))\<bar> \<or> 80 \<le> \<bar>Ib (INV (sampled ?s))\<bar>
           \<or> 80 \<le> \<bar>Ic (INV (sampled ?s))\<bar>"
    by (simp add: i)
  have f: "FAULT (FLAG ?s) = 0"
    by (simp add: startup_def FLAG_zero_def)
  show ?thesis
    using overcurrent_trip [OF h, of exact_platform] f by (simp add: i)
qed

text \<open>
  C2. Once the fault code is 1 (hardware fault) it stays 1: the software fault handler
  leaves it, a tick leaves it whatever the phase currents are, the external interrupt
  sets it to 1 again, and so does every run of ticks, interrupts and commands whose
  commands do not change a fault code of 1. No function of the core writes 0 to it; only a
  command of the external channel can.
\<close>

theorem hardware_fault_sticky:
  assumes "FAULT (FLAG s) = 1"
    and "\<forall>e \<in> set es. \<forall>f g. e = Command f g \<longrightarrow> (\<forall>fl. FAULT fl = 1 \<longrightarrow> FAULT (f fl) = 1)"
  shows "FAULT (FLAG (SoftWareFault s)) = 1 \<and> FAULT (FLAG (Control P s)) = 1
    \<and> FAULT (FLAG (run P es s)) = 1"
proof -
  have r: "FAULT (FLAG (run P es s)) = 1"
    using assms
  proof (induction es arbitrary: s)
    case Nil
    then show ?case by simp
  next
    case (Cons e es)
    have "FAULT (FLAG (step P e s)) = 1"
    proof (cases e)
      case (Tick x)
      have "FAULT (FLAG (present x s)) = 1"
        using Cons.prems(1) by (simp add: present_def)
      then show ?thesis
        using Tick by (simp add: Control_FAULT)
    next
      case Exti
      have "FLAG (HardWareFault t) = (FLAG t)\<lparr>FAULT := 1, READY := 0\<rparr>" for t
        by (simp only: HardWareFault_def sel_Let sel_if) (simp add: Let_def cong: if_cong)
      then show ?thesis
        using Exti by (simp add: HAL_GPIO_EXTI_Callback_def)
    next
      case (Command f g)
      then show ?thesis
        using Cons.prems by simp
    qed
    moreover have "\<forall>e \<in> set es. \<forall>f g. e = Command f g \<longrightarrow> (\<forall>fl. FAULT fl = 1 \<longrightarrow> FAULT (f fl) = 1)"
      using Cons.prems(2) by simp
    ultimately show ?case
      using Cons.IH by simp
  qed
  show ?thesis
    using assms(1) r by (simp add: SoftWareFault_fields Control_FAULT)
qed

theorem hardware_fault_sticky_witness:
  "FAULT (FLAG (startup\<lparr>FLAG := FLAG_zero\<lparr>FAULT := 1\<rparr>, INV := INV_zero\<lparr>Ib := 90\<rparr>\<rparr>)) = 1
   \<and> FAULT (FLAG (SoftWareFault
         (startup\<lparr>FLAG := FLAG_zero\<lparr>FAULT := 1\<rparr>, INV := INV_zero\<lparr>Ib := 90\<rparr>\<rparr>))) = 1
   \<and> FAULT (FLAG (run exact_platform
         [Tick \<lparr>s_JDR1 = 2048, s_JDR2 = 4095, s_JDR3 = 0, s_JDR4 = 1000, s_hall_a = True,
                s_hall_b = False, s_hall_c = False\<rparr>,
          Exti, Command (\<lambda>fl. fl\<lparr>READY := 1, INV_RUN := 1\<rparr>) (\<lambda>i. i\<lparr>Wrpm_ref_cmd := 1000\<rparr>),
          Tick \<lparr>s_JDR1 = 0, s_JDR2 = 0, s_JDR3 = 4095, s_JDR4 = 1000, s_hall_a = True,
                s_hall_b = True, s_hall_c = False\<rparr>]
         (startup\<lparr>FLAG := FLAG_zero\<lparr>FAULT := 1\<rparr>, INV := INV_zero\<lparr>Ib := 90\<rparr>\<rparr>))) = 1"
proof -
  let ?s = "startup\<lparr>FLAG := FLAG_zero\<lparr>FAULT := 1\<rparr>, INV := INV_zero\<lparr>Ib := 90\<rparr>\<rparr>"
  let ?es = "[Tick \<lparr>s_JDR1 = 2048, s_JDR2 = 4095, s_JDR3 = 0, s_JDR4 = 1000, s_hall_a = True,
                s_hall_b = False, s_hall_c = False\<rparr>,
          Exti, Command (\<lambda>fl. fl\<lparr>READY := 1, INV_RUN := 1\<rparr>) (\<lambda>i. i\<lparr>Wrpm_ref_cmd := 1000\<rparr>),
          Tick \<lparr>s_JDR1 = 0, s_JDR2 = 0, s_JDR3 = 4095, s_JDR4 = 1000, s_hall_a = True,
                s_hall_b = True, s_hall_c = False\<rparr>]"
  have h: "FAULT (FLAG ?s) = 1"
    by simp
  have c: "\<forall>e \<in> set ?es. \<forall>f g. e = Command f g \<longrightarrow> (\<forall>fl. FAULT fl = 1 \<longrightarrow> FAULT (f fl) = 1)"
    by simp
  from hardware_fault_sticky [OF h c, of exact_platform] h show ?thesis
    by blast
qed

text \<open>
  C3. As stated the claim fails: \<^verbatim>\<open>SoftWareFault\<close> increments the fault counter at every
  call, so that two calls do not leave the state of one call, and a tick in which two
  phases trip does not leave the fault counter of a tick in which one phase trips.
\<close>

theorem software_fault_counts_every_call:
  "FaultCnt (SoftWareFault startup) = 1
   \<and> FaultCnt (SoftWareFault (SoftWareFault startup)) = 2
   \<and> SoftWareFault (SoftWareFault startup) \<noteq> SoftWareFault startup
   \<and> FaultCnt (Control exact_platform (startup\<lparr>INV := INV_zero\<lparr>Ia := 100\<rparr>\<rparr>)) = 1
   \<and> FaultCnt (Control exact_platform (startup\<lparr>INV := INV_zero\<lparr>Ia := 100, Ib := - 100\<rparr>\<rparr>)) = 2"
proof -
  have c: "FaultCnt startup = 0"
    by (simp add: startup_def)
  have 1: "FaultCnt (SoftWareFault startup) = 1"
    by (simp add: SoftWareFault_fields c)
  have 2: "FaultCnt (SoftWareFault (SoftWareFault startup)) = 2"
    by (simp add: SoftWareFault_fields c)
  have 3: "SoftWareFault (SoftWareFault startup) \<noteq> SoftWareFault startup"
  proof
    assume "SoftWareFault (SoftWareFault startup) = SoftWareFault startup"
    then have "FaultCnt (SoftWareFault (SoftWareFault startup)) = FaultCnt (SoftWareFault startup)"
      by simp
    then show False
      by (simp only: 1 2) simp
  qed
  have k: "FaultCnt (Control P s) = FaultCnt s + of_nat (trips (sampled s))" for P s
    by (simp add: Control_def Control_traced_def Control_pre_fst SoftWareFault_fields)
  have i: "INV (sampled (startup\<lparr>INV := j\<rparr>)) = j" for j
    by (simp add: sampled_INV_calibrating startup_def)
  have 4: "FaultCnt (Control exact_platform (startup\<lparr>INV := INV_zero\<lparr>Ia := 100\<rparr>\<rparr>)) = 1"
    by (simp add: k trips_def i c) (simp add: INV_zero_def)
  have 5: "FaultCnt (Control exact_platform
             (startup\<lparr>INV := INV_zero\<lparr>Ia := 100, Ib := - 100\<rparr>\<rparr>)) = 2"
    by (simp add: k trips_def i c) (simp add: INV_zero_def)
  show ?thesis
    using 1 2 3 4 5 by simp
qed

text \<open>
  C3, amended. A repeated call of \<^verbatim>\<open>SoftWareFault\<close> changes nothing but the fault counter:
  two calls in succession leave the state of one call with the counter incremented twice.
  The protection check of a tick in which \<open>n > 0\<close> phase currents have a magnitude of at
  least 80 A leaves the state of a single call (fault code, ready bit, PWM state, duties
  and fault snapshot included) with the counter incremented \<open>n\<close> times, and so the tick
  adds \<open>n\<close> to the fault counter.
\<close>

theorem software_fault_repeated:
  "SoftWareFault (SoftWareFault s) = (SoftWareFault s)\<lparr>FaultCnt := FaultCnt s + 2\<rparr>
   \<and> fst (Control_protect (m, t)) =
       (if trips m = 0 then m
        else (SoftWareFault m)\<lparr>FaultCnt := FaultCnt m + of_nat (trips m)\<rparr>)
   \<and> FaultCnt (Control P s) = FaultCnt s + of_nat (trips (sampled s))"
proof -
  have "FaultCnt (Control P s) = FaultCnt s + of_nat (trips (sampled s))"
    by (simp add: Control_def Control_traced_def Control_pre_fst SoftWareFault_fields)
  then show ?thesis
    by (simp only: SoftWareFault_twice Control_protect_fst)
qed

subsection \<open>Mode dispatch\<close>

lemma Control_calls_eq:
  "Control_calls P s =
     snd (Control_pre P s) @ mode_calls (select_mode (FLAG (fst (Control_pre P s))))"
  by (simp only: Control_calls_def Control_traced_def Control_dispatch_snd)

lemma Control_dispatch_run:
  assumes "READY (FLAG (fst x)) \<noteq> 0" "FAULT (FLAG (fst x)) = 0" "INV_RUN (FLAG (fst x)) \<noteq> 0"
  shows "fst (Control_dispatch P x) = Vref_GenControl P (SpeedControl P (fst x))"
  using assms by (simp add: Control_dispatch_def Let_def)

text \<open>
  C6. The calls of a tick are those made before the dispatch followed by the calls of
  exactly one mode, the mode that the first-match-wins priority list of the specification
  selects from the flags at the dispatch (closed-loop run, Hall-position test, fixed-duty
  test, open-loop current control, voltage feed-forward generator, voltage open-loop
  control, parameter-estimation injection, alignment sequencer, safe stop). In particular,
  in a tick that starts ready and not faulted, in which no phase current trips and
  \<open>INV_RUN\<close> is set, the closed-loop path runs (\<^verbatim>\<open>SpeedControl\<close>, then
  \<^verbatim>\<open>Vref_GenControl\<close>), whatever \<open>INV_OLC\<close> and the other mode flags are, and neither
  \<^verbatim>\<open>OpenLoopControl\<close> nor \<^verbatim>\<open>CurrentControl\<close> is called.
\<close>

theorem dispatch_first_match:
  "Control_calls P s =
     snd (Control_pre P s) @ mode_calls (select_mode (FLAG (fst (Control_pre P s))))
   \<and> snd (Control_dispatch P x) = snd x @ mode_calls (select_mode (FLAG (fst x)))
   \<and> (READY (FLAG s) \<noteq> 0 \<and> FAULT (FLAG s) = 0 \<and> trips (sampled s) = 0 \<and> INV_RUN (FLAG s) \<noteq> 0
        \<longrightarrow> select_mode (FLAG (fst (Control_pre P s))) = ClosedLoopRun
          \<and> Control_calls P s =
               [if AdInitFlag s = 0 then c_Offset else c_AdcProcess, c_UpdateController,
                c_Hallsensor_Observer, c_SpeedControl, c_Vref_GenControl]
          \<and> Control P s = Vref_GenControl P (SpeedControl P (fst (Control_pre P s)))
          \<and> c_OpenLoopControl \<notin> set (Control_calls P s)
          \<and> c_CurrentControl \<notin> set (Control_calls P s))"
proof -
  have "select_mode (FLAG (fst (Control_pre P s))) = ClosedLoopRun
      \<and> Control_calls P s =
           [if AdInitFlag s = 0 then c_Offset else c_AdcProcess, c_UpdateController,
            c_Hallsensor_Observer, c_SpeedControl, c_Vref_GenControl]
      \<and> Control P s = Vref_GenControl P (SpeedControl P (fst (Control_pre P s)))
      \<and> c_OpenLoopControl \<notin> set (Control_calls P s)
      \<and> c_CurrentControl \<notin> set (Control_calls P s)"
    if a: "READY (FLAG s) \<noteq> 0" "FAULT (FLAG s) = 0" "trips (sampled s) = 0"
      "INV_RUN (FLAG s) \<noteq> 0"
  proof -
    have f: "FLAG (fst (Control_pre P s)) = FLAG s"
      using a by (simp add: Control_pre_FLAG)
    have m: "select_mode (FLAG (fst (Control_pre P s))) = ClosedLoopRun"
      using a by (simp add: f select_mode_def mode_priority_def)
    have c: "Control_calls P s =
        [if AdInitFlag s = 0 then c_Offset else c_AdcProcess, c_UpdateController,
         c_Hallsensor_Observer, c_SpeedControl, c_Vref_GenControl]"
      using a by (simp add: Control_calls_eq m Control_pre_snd)
    have e: "Control P s = Vref_GenControl P (SpeedControl P (fst (Control_pre P s)))"
      using a by (simp only: Control_def Control_traced_def) (rule Control_dispatch_run, simp_all add: f)
    show ?thesis
      using m e by (simp add: c)
  qed
  then show ?thesis
    by (simp only: Control_calls_eq [symmetric] Control_dispatch_snd) blast
qed

theorem dispatch_first_match_witness:
  "READY (FLAG (startup\<lparr>FLAG := FLAG_zero\<lparr>READY := 1, INV_RUN := 1, INV_OLC := 1\<rparr>\<rparr>)) \<noteq> 0
   \<and> INV_OLC (FLAG (startup\<lparr>FLAG := FLAG_zero\<lparr>READY := 1, INV_RUN := 1, INV_OLC := 1\<rparr>\<rparr>)) \<noteq> 0
   \<and> Control_calls exact_platform
        (startup\<lparr>FLAG := FLAG_zero\<lparr>READY := 1, INV_RUN := 1, INV_OLC := 1\<rparr>\<rparr>) =
       [c_Offset, c_UpdateController, c_Hallsensor_Observer, c_SpeedControl, c_Vref_GenControl]
   \<and> c_OpenLoopControl \<notin> set (Control_calls exact_platform
        (startup\<lparr>FLAG := FLAG_zero\<lparr>READY := 1, INV_RUN := 1, INV_OLC := 1\<rparr>\<rparr>))"
proof -
  let ?s = "startup\<lparr>FLAG := FLAG_zero\<lparr>READY := 1, INV_RUN := 1, INV_OLC := 1\<rparr>\<rparr>"
  have i: "INV (sampled ?s) = INV_zero"
    by (simp add: sampled_INV_calibrating startup_def)
  have h: "READY (FLAG ?s) \<noteq> 0 \<and> FAULT (FLAG ?s) = 0 \<and> trips (sampled ?s) = 0
           \<and> INV_RUN (FLAG ?s) \<noteq> 0"
    by (simp add: trips_def i) (simp add: INV_zero_def FLAG_zero_def)
  have c: "AdInitFlag ?s = 0"
    by (simp add: startup_def)
  have o: "INV_OLC (FLAG ?s) \<noteq> 0"
    by simp
  have "Control_calls exact_platform ?s =
          [if AdInitFlag ?s = 0 then c_Offset else c_AdcProcess, c_UpdateController,
           c_Hallsensor_Observer, c_SpeedControl, c_Vref_GenControl]
        \<and> c_OpenLoopControl \<notin> set (Control_calls exact_platform ?s)"
    using dispatch_first_match [where P = exact_platform and s = ?s and x = "(?s, [])"] h
    by blast
  then have "Control_calls exact_platform ?s =
          [c_Offset, c_UpdateController, c_Hallsensor_Observer, c_SpeedControl, c_Vref_GenControl]
        \<and> c_OpenLoopControl \<notin> set (Control_calls exact_platform ?s)"
    by (simp add: c)
  then show ?thesis
    using h o by blast
qed

text \<open>
  C7. Both safe-stop branches disable the output gate, stop the six PWM outputs, set the
  three duties and the three compare registers to zero, call \<^verbatim>\<open>ResetController\<close> and
  clear the flags \<open>INV_RUN\<close>, \<open>INV_OLC\<close>, \<open>INV_VOLC\<close>, \<open>INV_ALIGN\<close>, \<open>INV_NLC\<close> and
  \<open>TS_MODE\<close>. The branch taken when the system is not ready or faulted also clears
  \<open>READY\<close>; the branch taken when it is ready, not faulted and no mode flag is set
  leaves \<open>READY\<close> as it is. A tick that starts with \<open>READY = 0\<close> ends with the duties at
  zero and the PWM output disabled, whatever the other flags are.
\<close>

theorem safe_stop_branches:
  "(READY (FLAG (fst x)) = 0 \<or> FAULT (FLAG (fst x)) \<noteq> 0 \<longrightarrow>
      fst (Control_dispatch P x) =
        (stopped (fst x))\<lparr>FLAG := (FLAG (fst x))\<lparr>INV_RUN := 0, INV_OLC := 0, INV_VOLC := 0,
           INV_ALIGN := 0, INV_NLC := 0, TS_MODE := 0, READY := 0\<rparr>\<rparr>
      \<and> snd (Control_dispatch P x) = snd x @ [c_PwmSwOff, c_PwmDutyUpt, c_ResetController])
   \<and> (READY (FLAG (fst x)) \<noteq> 0 \<and> FAULT (FLAG (fst x)) = 0 \<and> INV_RUN (FLAG (fst x)) = 0
       \<and> HALL_POS_TEST (FLAG (fst x)) = 0 \<and> DUTY_TEST (FLAG (fst x)) = 0
       \<and> INV_OLC (FLAG (fst x)) = 0 \<and> INV_Vref_Gen (FLAG (fst x)) = 0
       \<and> INV_VOLC (FLAG (fst x)) = 0 \<and> Param_Estimation (FLAG (fst x)) = 0
       \<and> INV_ALIGN (FLAG (fst x)) = 0 \<longrightarrow>
      fst (Control_dispatch P x) =
        (stopped (fst x))\<lparr>FLAG := (FLAG (fst x))\<lparr>INV_RUN := 0, INV_OLC := 0, INV_VOLC := 0,
           INV_ALIGN := 0, INV_NLC := 0, TS_MODE := 0\<rparr>\<rparr>
      \<and> snd (Control_dispatch P x) = snd x @ [c_PwmSwOff, c_PwmDutyUpt, c_ResetController]
      \<and> READY (FLAG (fst (Control_dispatch P x))) = READY (FLAG (fst x)))
   \<and> stopped s = ResetController (PwmDutyUpt (PwmSwOff s))
   \<and> PWM_BUF (stopped s) = False
   \<and> htim1 (stopped s) =
        (htim1 s)\<lparr>CH1 := False, CH1N := False, CH2 := False, CH2N := False, CH3 := False,
                    CH3N := False, CCR1 := 0, CCR2 := 0, CCR3 := 0\<rparr>
   \<and> Duty_A (INV (stopped s)) = 0 \<and> Duty_B (INV (stopped s)) = 0 \<and> Duty_C (INV (stopped s)) = 0
   \<and> (READY (FLAG s) = 0 \<longrightarrow>
        Duty_A (INV (Control P s)) = 0 \<and> Duty_B (INV (Control P s)) = 0
        \<and> Duty_C (INV (Control P s)) = 0 \<and> PWM_BUF (Control P s) = False
        \<and> htim1 (Control P s) =
             (htim1 s)\<lparr>CH1 := False, CH1N := False, CH2 := False, CH2N := False, CH3 := False,
                         CH3N := False, CCR1 := 0, CCR2 := 0, CCR3 := 0\<rparr>
        \<and> READY (FLAG (Control P s)) = 0)"
proof -
  have a: "fst (Control_dispatch P x) =
        (stopped (fst x))\<lparr>FLAG := (FLAG (fst x))\<lparr>INV_RUN := 0, INV_OLC := 0, INV_VOLC := 0,
           INV_ALIGN := 0, INV_NLC := 0, TS_MODE := 0, READY := 0\<rparr>\<rparr>
      \<and> snd (Control_dispatch P x) = snd x @ [c_PwmSwOff, c_PwmDutyUpt, c_ResetController]"
    if "READY (FLAG (fst x)) = 0 \<or> FAULT (FLAG (fst x)) \<noteq> 0"
  proof -
    have "select_mode (FLAG (fst x)) = SafeStop"
      using that by (auto simp add: select_mode_def)
    then show ?thesis
      using that by (simp add: Control_dispatch_not_ready Control_dispatch_snd)
  qed
  have b: "fst (Control_dispatch P x) =
        (stopped (fst x))\<lparr>FLAG := (FLAG (fst x))\<lparr>INV_RUN := 0, INV_OLC := 0, INV_VOLC := 0,
           INV_ALIGN := 0, INV_NLC := 0, TS_MODE := 0\<rparr>\<rparr>
      \<and> snd (Control_dispatch P x) = snd x @ [c_PwmSwOff, c_PwmDutyUpt, c_ResetController]
      \<and> READY (FLAG (fst (Control_dispatch P x))) = READY (FLAG (fst x))"
    if "READY (FLAG (fst x)) \<noteq> 0 \<and> FAULT (FLAG (fst x)) = 0 \<and> INV_RUN (FLAG (fst x)) = 0
       \<and> HALL_POS_TEST (FLAG (fst x)) = 0 \<and> DUTY_TEST (FLAG (fst x)) = 0
       \<and> INV_OLC (FLAG (fst x)) = 0 \<and> INV_Vref_Gen (FLAG (fst x)) = 0
       \<and> INV_VOLC (FLAG (fst x)) = 0 \<and> Param_Estimation (FLAG (fst x)) = 0
       \<and> INV_ALIGN (FLAG (fst x)) = 0"
  proof -
    have "select_mode (FLAG (fst x)) = SafeStop"
      using that by (simp add: select_mode_def mode_priority_def)
    then show ?thesis
      using that by (simp add: Control_dispatch_no_mode Control_dispatch_snd)
  qed
  have c: "Duty_A (INV (Control P s)) = 0 \<and> Duty_B (INV (Control P s)) = 0
        \<and> Duty_C (INV (Control P s)) = 0 \<and> PWM_BUF (Control P s) = False
        \<and> htim1 (Control P s) =
             (htim1 s)\<lparr>CH1 := False, CH1N := False, CH2 := False, CH2N := False, CH3 := False,
                         CH3N := False, CCR1 := 0, CCR2 := 0, CCR3 := 0\<rparr>
        \<and> READY (FLAG (Control P s)) = 0"
    if r: "READY (FLAG s) = 0"
  proof -
    have "READY (FLAG (fst (Control_pre P s))) = 0"
      using r by (simp add: Control_pre_FLAG)
    then have e: "Control P s =
        (stopped (fst (Control_pre P s)))\<lparr>FLAG := (FLAG (fst (Control_pre P s)))\<lparr>INV_RUN := 0,
           INV_OLC := 0, INV_VOLC := 0, INV_ALIGN := 0, INV_NLC := 0, TS_MODE := 0, READY := 0\<rparr>\<rparr>"
      by (simp only: Control_def Control_traced_def) (rule Control_dispatch_not_ready, simp)
    show ?thesis
      by (simp add: e stopped_fields Control_pre_fst SoftWareFault_fields)
  qed
  show ?thesis
    using a b c by (simp add: stopped_fields) (simp add: stopped_def)
qed

theorem safe_stop_branches_witness:
  "READY (FLAG (startup\<lparr>FLAG := FLAG_zero\<lparr>INV_RUN := 1, INV_OLC := 1, DUTY_TEST := 1\<rparr>,
                          INV := INV_zero\<lparr>Duty_A := 1 / 2\<rparr>, PWM_BUF := True\<rparr>)) = 0
   \<and> Duty_A (INV (Control exact_platform
        (startup\<lparr>FLAG := FLAG_zero\<lparr>INV_RUN := 1, INV_OLC := 1, DUTY_TEST := 1\<rparr>,
                  INV := INV_zero\<lparr>Duty_A := 1 / 2\<rparr>, PWM_BUF := True\<rparr>))) = 0
   \<and> PWM_BUF (Control exact_platform
        (startup\<lparr>FLAG := FLAG_zero\<lparr>INV_RUN := 1, INV_OLC := 1, DUTY_TEST := 1\<rparr>,
                  INV := INV_zero\<lparr>Duty_A := 1 / 2\<rparr>, PWM_BUF := True\<rparr>)) = False
   \<and> READY (FLAG (fst (Control_dispatch exact_platform
        (startup\<lparr>FLAG := FLAG_zero\<lparr>READY := 1\<rparr>\<rparr>, [])))) = 1
   \<and> snd (Control_dispatch exact_platform (startup\<lparr>FLAG := FLAG_zero\<lparr>READY := 1\<rparr>\<rparr>, [])) =
       [c_PwmSwOff, c_PwmDutyUpt, c_ResetController]
   \<and> READY (FLAG (fst (Control_dispatch exact_platform
        (startup\<lparr>FLAG := FLAG_zero\<lparr>READY := 1, FAULT := 2\<rparr>\<rparr>, [])))) = 0"
proof -
  let ?s = "startup\<lparr>FLAG := FLAG_zero\<lparr>INV_RUN := 1, INV_OLC := 1, DUTY_TEST := 1\<rparr>,
                    INV := INV_zero\<lparr>Duty_A := 1 / 2\<rparr>, PWM_BUF := True\<rparr>"
  have r: "READY (FLAG ?s) = 0"
    by (simp add: FLAG_zero_def)
  have 1: "Duty_A (INV (Control exact_platform ?s)) = 0 \<and> PWM_BUF (Control exact_platform ?s) = False"
    using safe_stop_branches [of "(?s, [])" exact_platform ?s] r by blast
  let ?t = "startup\<lparr>FLAG := FLAG_zero\<lparr>READY := 1\<rparr>\<rparr>"
  have "READY (FLAG (fst (Control_dispatch exact_platform (?t, [])))) = READY (FLAG ?t)
      \<and> snd (Control_dispatch exact_platform (?t, [])) = [c_PwmSwOff, c_PwmDutyUpt, c_ResetController]"
    using safe_stop_branches [of "(?t, [])" exact_platform ?t] by (simp add: FLAG_zero_def)
  then have 2: "READY (FLAG (fst (Control_dispatch exact_platform (?t, [])))) = 1
      \<and> snd (Control_dispatch exact_platform (?t, [])) = [c_PwmSwOff, c_PwmDutyUpt, c_ResetController]"
    by simp
  let ?u = "startup\<lparr>FLAG := FLAG_zero\<lparr>READY := 1, FAULT := 2\<rparr>\<rparr>"
  have "fst (Control_dispatch exact_platform (?u, [])) =
        (stopped ?u)\<lparr>FLAG := (FLAG ?u)\<lparr>INV_RUN := 0, INV_OLC := 0, INV_VOLC := 0,
           INV_ALIGN := 0, INV_NLC := 0, TS_MODE := 0, READY := 0\<rparr>\<rparr>"
    using safe_stop_branches [of "(?u, [])" exact_platform ?u] by simp
  then have 3: "READY (FLAG (fst (Control_dispatch exact_platform (?u, [])))) = 0"
    by simp
  show ?thesis
    using r 1 2 3 by blast
qed

subsection \<open>Square-wave injection\<close>

lemma Control_dispatch_injection:
  assumes "READY (FLAG (fst x)) \<noteq> 0" "FAULT (FLAG (fst x)) = 0" "INV_RUN (FLAG (fst x)) = 0"
    and "HALL_POS_TEST (FLAG (fst x)) = 0" "DUTY_TEST (FLAG (fst x)) = 0"
    and "INV_OLC (FLAG (fst x)) = 0" "INV_Vref_Gen (FLAG (fst x)) = 0"
    and "INV_VOLC (FLAG (fst x)) = 0" "Param_Estimation (FLAG (fst x)) \<noteq> 0"
  shows "fst (Control_dispatch P x) = VoltageInjection_SquareWave P (fst x)"
  using assms by (simp add: Control_dispatch_def Let_def)

text \<open>
  C5. As stated the claim fails: the polarity of the injected d-axis voltage is not held
  for two ticks. From the initial counter \<open>cnt_inj = 0\<close> three calls in succession give
  \<open>-1\<close>, \<open>+1\<close>, \<open>-1\<close>.
\<close>

theorem injection_no_two_tick_dwell:
  "Vdsr_ref_unsat (INV (VoltageInjection_SquareWave exact_platform startup)) = - 1
   \<and> Vdsr_ref_unsat (INV (VoltageInjection_SquareWave exact_platform
        (VoltageInjection_SquareWave exact_platform startup))) = 1
   \<and> Vdsr_ref_unsat (INV (VoltageInjection_SquareWave exact_platform
        (VoltageInjection_SquareWave exact_platform
          (VoltageInjection_SquareWave exact_platform startup)))) = - 1"
proof -
  have "cnt_inj startup = 0"
    by (simp add: startup_def)
  then show ?thesis
    by (simp add: VoltageInjection_SquareWave_INV VoltageInjection_SquareWave_cnt_inj)
qed

text \<open>
  C5, amended. \<^verbatim>\<open>VoltageInjection_SquareWave\<close> sets \<open>Vmag_inj\<close> to 1 and applies a d-axis
  voltage reference of that magnitude whose sign alternates at every call (each polarity
  is held for one tick, the period of the square wave is two ticks): the reference is
  \<open>+Vmag_inj\<close> when the counter \<open>cnt_inj\<close> is at least 2 on entry and \<open>-Vmag_inj\<close>
  otherwise, and the call after it applies the opposite sign. The q-axis voltage reference
  is zero, \<open>sinThetar = 0\<close> and \<open>cosThetar = 1\<close>. A tick that starts ready and not
  faulted, in which no phase current trips, no flag of a mode of higher priority is set
  and \<open>Param_Estimation\<close> is set, dispatches to this function and ends with these
  values.
\<close>

theorem injection_alternates_every_tick:
  "Vmag_inj (INV (VoltageInjection_SquareWave P s)) = 1
   \<and> Vdsr_ref_unsat (INV (VoltageInjection_SquareWave P s)) = (if 2 \<le> cnt_inj s then 1 else - 1)
   \<and> \<bar>Vdsr_ref_unsat (INV (VoltageInjection_SquareWave P s))\<bar> =
       Vmag_inj (INV (VoltageInjection_SquareWave P s))
   \<and> Vdsr_ref_unsat (INV (VoltageInjection_SquareWave P (VoltageInjection_SquareWave P s))) =
       - Vdsr_ref_unsat (INV (VoltageInjection_SquareWave P s))
   \<and> Vqsr_ref_unsat (INV (VoltageInjection_SquareWave P s)) = 0
   \<and> sinThetar (INV (VoltageInjection_SquareWave P s)) = 0
   \<and> cosThetar (INV (VoltageInjection_SquareWave P s)) = 1
   \<and> cnt_inj (VoltageInjection_SquareWave P s) = (if 2 \<le> cnt_inj s then 1 else 2)
   \<and> (READY (FLAG s) \<noteq> 0 \<and> FAULT (FLAG s) = 0 \<and> trips (sampled s) = 0
       \<and> INV_RUN (FLAG s) = 0 \<and> HALL_POS_TEST (FLAG s) = 0 \<and> DUTY_TEST (FLAG s) = 0
       \<and> INV_OLC (FLAG s) = 0 \<and> INV_Vref_Gen (FLAG s) = 0 \<and> INV_VOLC (FLAG s) = 0
       \<and> Param_Estimation (FLAG s) \<noteq> 0 \<longrightarrow>
         Control P s = VoltageInjection_SquareWave P (fst (Control_pre P s))
         \<and> Vdsr_ref_unsat (INV (Control P s)) = (if 2 \<le> cnt_inj s then 1 else - 1)
         \<and> Vqsr_ref_unsat (INV (Control P s)) = 0
         \<and> sinThetar (INV (Control P s)) = 0 \<and> cosThetar (INV (Control P s)) = 1
         \<and> cnt_inj (Control P s) = (if 2 \<le> cnt_inj s then 1 else 2))"
proof -
  have t: "Control P s = VoltageInjection_SquareWave P (fst (Control_pre P s))
         \<and> Vdsr_ref_unsat (INV (Control P s)) = (if 2 \<le> cnt_inj s then 1 else - 1)
         \<and> Vqsr_ref_unsat (INV (Control P s)) = 0
         \<and> sinThetar (INV (Control P s)) = 0 \<and> cosThetar (INV (Control P s)) = 1
         \<and> cnt_inj (Control P s) = (if 2 \<le> cnt_inj s then 1 else 2)"
    if a: "READY (FLAG s) \<noteq> 0 \<and> FAULT (FLAG s) = 0 \<and> trips (sampled s) = 0
       \<and> INV_RUN (FLAG s) = 0 \<and> HALL_POS_TEST (FLAG s) = 0 \<and> DUTY_TEST (FLAG s) = 0
       \<and> INV_OLC (FLAG s) = 0 \<and> INV_Vref_Gen (FLAG s) = 0 \<and> INV_VOLC (FLAG s) = 0
       \<and> Param_Estimation (FLAG s) \<noteq> 0"
  proof -
    have f: "FLAG (fst (Control_pre P s)) = FLAG s"
      using a by (simp add: Control_pre_FLAG)
    have e: "Control P s = VoltageInjection_SquareWave P (fst (Control_pre P s))"
      using a
      by (simp only: Control_def Control_traced_def)
         (rule Control_dispatch_injection, simp_all add: f)
    show ?thesis
      by (simp add: e VoltageInjection_SquareWave_INV VoltageInjection_SquareWave_cnt_inj)
  qed
  have u: "Vmag_inj (INV (VoltageInjection_SquareWave P s)) = 1
   \<and> Vdsr_ref_unsat (INV (VoltageInjection_SquareWave P s)) = (if 2 \<le> cnt_inj s then 1 else - 1)
   \<and> \<bar>Vdsr_ref_unsat (INV (VoltageInjection_SquareWave P s))\<bar> =
       Vmag_inj (INV (VoltageInjection_SquareWave P s))
   \<and> Vdsr_ref_unsat (INV (VoltageInjection_SquareWave P (VoltageInjection_SquareWave P s))) =
       - Vdsr_ref_unsat (INV (VoltageInjection_SquareWave P s))
   \<and> Vqsr_ref_unsat (INV (VoltageInjection_SquareWave P s)) = 0
   \<and> sinThetar (INV (VoltageInjection_SquareWave P s)) = 0
   \<and> cosThetar (INV (VoltageInjection_SquareWave P s)) = 1
   \<and> cnt_inj (VoltageInjection_SquareWave P s) = (if 2 \<le> cnt_inj s then 1 else 2)"
    by (simp add: VoltageInjection_SquareWave_INV VoltageInjection_SquareWave_cnt_inj)
  show ?thesis
    using t u by blast
qed

theorem injection_alternates_every_tick_witness:
  "Param_Estimation (FLAG (startup\<lparr>FLAG := FLAG_zero\<lparr>READY := 1, Param_Estimation := 1\<rparr>,
                               cnt_inj := 0\<rparr>)) \<noteq> 0
   \<and> Vdsr_ref_unsat (INV (Control exact_platform
        (startup\<lparr>FLAG := FLAG_zero\<lparr>READY := 1, Param_Estimation := 1\<rparr>, cnt_inj := 0\<rparr>))) = - 1
   \<and> cnt_inj (Control exact_platform
        (startup\<lparr>FLAG := FLAG_zero\<lparr>READY := 1, Param_Estimation := 1\<rparr>, cnt_inj := 0\<rparr>)) = 2
   \<and> Vdsr_ref_unsat (INV (Control exact_platform
        (startup\<lparr>FLAG := FLAG_zero\<lparr>READY := 1, Param_Estimation := 1\<rparr>, cnt_inj := 2\<rparr>))) = 1
   \<and> cnt_inj (Control exact_platform
        (startup\<lparr>FLAG := FLAG_zero\<lparr>READY := 1, Param_Estimation := 1\<rparr>, cnt_inj := 2\<rparr>)) = 1"
proof -
  let ?f = "FLAG_zero\<lparr>READY := 1, Param_Estimation := 1\<rparr>"
  have i: "INV (sampled (startup\<lparr>FLAG := ?f, cnt_inj := c\<rparr>)) = INV_zero" for c
    by (simp add: sampled_INV_calibrating startup_def)
  have h: "READY (FLAG t) \<noteq> 0 \<and> FAULT (FLAG t) = 0 \<and> trips (sampled t) = 0
       \<and> INV_RUN (FLAG t) = 0 \<and> HALL_POS_TEST (FLAG t) = 0 \<and> DUTY_TEST (FLAG t) = 0
       \<and> INV_OLC (FLAG t) = 0 \<and> INV_Vref_Gen (FLAG t) = 0 \<and> INV_VOLC (FLAG t) = 0
       \<and> Param_Estimation (FLAG t) \<noteq> 0"
    if "t = startup\<lparr>FLAG := ?f, cnt_inj := c\<rparr>" for t c
    using that by (simp add: trips_def i) (simp add: INV_zero_def FLAG_zero_def)
  let ?s0 = "startup\<lparr>FLAG := ?f, cnt_inj := 0\<rparr>"
  let ?s2 = "startup\<lparr>FLAG := ?f, cnt_inj := 2\<rparr>"
  note t0 = injection_alternates_every_tick [where P = exact_platform and s = ?s0,
      THEN conjunct2, THEN conjunct2, THEN conjunct2, THEN conjunct2, THEN conjunct2,
      THEN conjunct2, THEN conjunct2, THEN conjunct2, THEN mp, OF h [OF refl]]
  note t2 = injection_alternates_every_tick [where P = exact_platform and s = ?s2,
      THEN conjunct2, THEN conjunct2, THEN conjunct2, THEN conjunct2, THEN conjunct2,
      THEN conjunct2, THEN conjunct2, THEN conjunct2, THEN mp, OF h [OF refl]]
  have 1: "Vdsr_ref_unsat (INV (Control exact_platform ?s0)) = - 1"
    using t0 [THEN conjunct2, THEN conjunct1] by simp
  have 2: "cnt_inj (Control exact_platform ?s0) = 2"
    using t0 [THEN conjunct2, THEN conjunct2, THEN conjunct2, THEN conjunct2, THEN conjunct2]
    by simp
  have 3: "Vdsr_ref_unsat (INV (Control exact_platform ?s2)) = 1"
    using t2 [THEN conjunct2, THEN conjunct1] by simp
  have 4: "cnt_inj (Control exact_platform ?s2) = 1"
    using t2 [THEN conjunct2, THEN conjunct2, THEN conjunct2, THEN conjunct2, THEN conjunct2]
    by simp
  have 0: "Param_Estimation (FLAG ?s0) \<noteq> 0"
    by simp
  show ?thesis
    by (intro conjI) (rule 0 1 2 3 4)+
qed

subsection \<open>The extended-EMF observer\<close>

lemma EXT_SS_Sync_angle_fields:
  "EEMFq_est (EXT_SS_Sync_angle e) =
     (if flt (fabs (EEMFq_est e)) (Finite 1) then Finite 1 else EEMFq_est e)"
  "EEMFd_est (EXT_SS_Sync_angle e) = EEMFd_est e"
  "Err_Thetar_EXT (EXT_SS_Sync_angle e) =
     atan2f (fneg (EEMFd_est e))
       (if flt (fabs (EEMFq_est e)) (Finite 1) then Finite 1 else EEMFq_est e)"
  by (simp_all only: EXT_SS_Sync_angle_def Let_push [of EEMFq_est] Let_push [of EEMFd_est]
        Let_push [of Err_Thetar_EXT])
     (simp_all add: Let_def if_distrib [of EEMFq_est] if_distrib [of EEMFd_est] cong: if_cong)

text \<open>The q-axis estimate that the current-model part leaves, as an expression of the
  inputs.\<close>

lemma EXT_SS_Sync_model_EEMFq:
  "EEMFq_est (EXT_SS_Sync_model P e a b c d) =
     fneg (fadd
       (fmul (fsub (fadd (fmul c (fneg (sinf (Thetar_EXT e)))) (fmul d (cosf (Thetar_EXT e))))
                (Iqse_EXT_est e))
             (fmul (Ld_hat e) (Wec e)))
       (fadd (integ_Iqse_EXT_est e)
          (fmul (fmul (Finite (Tsamp P)) (fmul (Rs_hat e) (Wec e)))
             (fsub (fadd (fmul c (fneg (sinf (Thetar_EXT e)))) (fmul d (cosf (Thetar_EXT e))))
                (Iqse_EXT_est e)))))"
  by (simp only: EXT_SS_Sync_model_def Let_push [of EEMFq_est]) (simp add: Let_def)

lemma NaN_right [simp]: "fadd a NaN = NaN" "fmul a NaN = NaN" "atan2f a NaN = NaN"
  by (cases a; simp)+

lemma flt_fabs_1: "flt (fabs q) (Finite 1) = (\<exists>x. q = Finite x \<and> \<bar>x\<bar> < 1)"
  by (cases q) simp_all

lemma to_float_simps [simp]: "to_float 0 = Finite 0" "to_float 1 = Finite 1"
  using round32_nat [of 1] by (simp_all add: to_float_def)

text \<open>
  C9, not as stated. With the finite inputs \<open>Ld_hat = Wec = 2 ^ 100\<close> and all other
  fields and arguments zero, the gain \<open>Ld_hat * Wec\<close> overflows to infinity, its product with
  the zero current error is NaN, and so is the q-axis estimate; NaN is not below 1, the
  limitation leaves it, and \<^verbatim>\<open>atan2f\<close> receives a second argument that is NaN, whose
  magnitude is not at least 1.
\<close>

theorem eemfq_nan_not_limited:
  "EEMFq_est (EXT_SS_Sync single_platform
       ((EXT_init (Finite 0))\<lparr>Ld_hat := Finite (2 ^ 100), Wec := Finite (2 ^ 100)\<rparr>)
       (Finite 0) (Finite 0) (Finite 0) (Finite 0)) = NaN
   \<and> \<not> fle (Finite 1) (fabs (EEMFq_est (EXT_SS_Sync single_platform
       ((EXT_init (Finite 0))\<lparr>Ld_hat := Finite (2 ^ 100), Wec := Finite (2 ^ 100)\<rparr>)
       (Finite 0) (Finite 0) (Finite 0) (Finite 0))))
   \<and> Err_Thetar_EXT (EXT_SS_Sync single_platform
       ((EXT_init (Finite 0))\<lparr>Ld_hat := Finite (2 ^ 100), Wec := Finite (2 ^ 100)\<rparr>)
       (Finite 0) (Finite 0) (Finite 0) (Finite 0)) = NaN"
proof -
  let ?e = "(EXT_init (Finite 0))\<lparr>Ld_hat := Finite (2 ^ 100), Wec := Finite (2 ^ 100)\<rparr>"
  have q: "EEMFq_est (EXT_SS_Sync_model single_platform ?e (Finite 0) (Finite 0) (Finite 0)
      (Finite 0)) = NaN"
    unfolding EXT_SS_Sync_model_EEMFq by (simp add: EXT_init_def fsub_def to_float_def)
  have 1: "EEMFq_est (EXT_SS_Sync single_platform ?e (Finite 0) (Finite 0) (Finite 0)
      (Finite 0)) = NaN"
    by (simp only: EXT_SS_Sync_def EXT_SS_Sync_angle_fields q) simp
  have 2: "Err_Thetar_EXT (EXT_SS_Sync single_platform ?e (Finite 0) (Finite 0) (Finite 0)
      (Finite 0)) = NaN"
    by (simp only: EXT_SS_Sync_def EXT_SS_Sync_angle_fields q) simp
  show ?thesis unfolding 1 2 by (simp add: fle_def)
qed

text \<open>
  C9, amended. When the q-axis estimate that the current-model part of \<^verbatim>\<open>EXT_SS_Sync\<close>
  leaves is a number of magnitude below 1, the function replaces it by \<open>+1\<close>, whatever its
  sign; otherwise, and so when it is an infinity or NaN, it keeps it. The position error
  is \<^verbatim>\<open>atan2f\<close> of the negated d-axis estimate and of this q-axis estimate, which has a
  magnitude of at least 1 unless it is NaN, and is NaN exactly when the estimate was; it
  is never zero, so that the pair \<open>(0, 0)\<close> is never passed to \<^verbatim>\<open>atan2f\<close>.
\<close>

theorem eemfq_limited:
  "(flt (fabs (EEMFq_est (EXT_SS_Sync_model P e a b c d))) (Finite 1) \<longrightarrow>
      EEMFq_est (EXT_SS_Sync P e a b c d) = Finite 1)
   \<and> (\<not> flt (fabs (EEMFq_est (EXT_SS_Sync_model P e a b c d))) (Finite 1) \<longrightarrow>
        EEMFq_est (EXT_SS_Sync P e a b c d) = EEMFq_est (EXT_SS_Sync_model P e a b c d))
   \<and> flt (fabs (EEMFq_est (EXT_SS_Sync_model P e a b c d))) (Finite 1) =
       (\<exists>x. EEMFq_est (EXT_SS_Sync_model P e a b c d) = Finite x \<and> \<bar>x\<bar> < 1)
   \<and> EEMFd_est (EXT_SS_Sync P e a b c d) = EEMFd_est (EXT_SS_Sync_model P e a b c d)
   \<and> Err_Thetar_EXT (EXT_SS_Sync P e a b c d) =
       atan2f (fneg (EEMFd_est (EXT_SS_Sync P e a b c d))) (EEMFq_est (EXT_SS_Sync P e a b c d))
   \<and> (EEMFq_est (EXT_SS_Sync P e a b c d) \<noteq> NaN \<longrightarrow>
        fle (Finite 1) (fabs (EEMFq_est (EXT_SS_Sync P e a b c d))))
   \<and> (EEMFq_est (EXT_SS_Sync P e a b c d) = NaN) =
       (EEMFq_est (EXT_SS_Sync_model P e a b c d) = NaN)
   \<and> EEMFq_est (EXT_SS_Sync P e a b c d) \<noteq> Finite 0"
proof -
  define q where "q = EEMFq_est (EXT_SS_Sync_model P e a b c d)"
  define r where "r = EEMFq_est (EXT_SS_Sync P e a b c d)"
  have r: "r = (if flt (fabs q) (Finite 1) then Finite 1 else q)"
    by (simp add: r_def EXT_SS_Sync_def EXT_SS_Sync_angle_fields q_def)
  have d: "EEMFd_est (EXT_SS_Sync P e a b c d) = EEMFd_est (EXT_SS_Sync_model P e a b c d)"
    by (simp add: EXT_SS_Sync_def EXT_SS_Sync_angle_fields)
  have 1: "flt (fabs q) (Finite 1) \<longrightarrow> r = Finite 1" by (simp add: r)
  have 2: "\<not> flt (fabs q) (Finite 1) \<longrightarrow> r = q" by (simp add: r)
  have 3: "flt (fabs q) (Finite 1) = (\<exists>x. q = Finite x \<and> \<bar>x\<bar> < 1)" by (rule flt_fabs_1)
  have 5: "Err_Thetar_EXT (EXT_SS_Sync P e a b c d) =
      atan2f (fneg (EEMFd_est (EXT_SS_Sync P e a b c d))) r"
    unfolding d r by (simp add: EXT_SS_Sync_def EXT_SS_Sync_angle_fields q_def)
  have 6: "r \<noteq> NaN \<longrightarrow> fle (Finite 1) (fabs r)"
    unfolding r by (cases q) (simp_all add: fle_def)
  have 7: "(r = NaN) = (q = NaN)" unfolding r by (cases q) simp_all
  have 8: "r \<noteq> Finite 0" unfolding r by (cases q) auto
  from 1 2 3 d 5 6 7 8 show ?thesis unfolding q_def r_def by (intro conjI)
qed

theorem eemfq_limited_witness:
  "flt (fabs (EEMFq_est (EXT_SS_Sync_model single_platform
       ((EXT_init (Finite 0))\<lparr>integ_Iqse_EXT_est := Finite (1 / 2)\<rparr>)
       (Finite 0) (Finite 0) (Finite 0) (Finite 0)))) (Finite 1)
   \<and> EEMFq_est (EXT_SS_Sync_model single_platform
       ((EXT_init (Finite 0))\<lparr>integ_Iqse_EXT_est := Finite (1 / 2)\<rparr>)
       (Finite 0) (Finite 0) (Finite 0) (Finite 0)) = Finite (- 1 / 2)
   \<and> EEMFq_est (EXT_SS_Sync single_platform
       ((EXT_init (Finite 0))\<lparr>integ_Iqse_EXT_est := Finite (1 / 2)\<rparr>)
       (Finite 0) (Finite 0) (Finite 0) (Finite 0)) = Finite 1
   \<and> EEMFq_est (EXT_SS_Sync_model single_platform
       ((EXT_init (Finite 0))\<lparr>integ_Iqse_EXT_est := Finite (- 3)\<rparr>)
       (Finite 0) (Finite 0) (Finite 0) (Finite 0)) = Finite 3
   \<and> EEMFq_est (EXT_SS_Sync single_platform
       ((EXT_init (Finite 0))\<lparr>integ_Iqse_EXT_est := Finite (- 3)\<rparr>)
       (Finite 0) (Finite 0) (Finite 0) (Finite 0)) = Finite 3
   \<and> fle (Finite 1) (fabs (EEMFq_est (EXT_SS_Sync single_platform
       ((EXT_init (Finite 0))\<lparr>integ_Iqse_EXT_est := Finite (- 3)\<rparr>)
       (Finite 0) (Finite 0) (Finite 0) (Finite 0))))"
proof -
  let ?e = "(EXT_init (Finite 0))\<lparr>integ_Iqse_EXT_est := Finite (1 / 2)\<rparr>"
  let ?f = "(EXT_init (Finite 0))\<lparr>integ_Iqse_EXT_est := Finite (- 3)\<rparr>"
  have "round32 (1 / 2) = of_int (rne (1 / 2 * 2 ^ (1 + 23) / 2 ^ 0)) * 2 ^ 0 / 2 ^ (1 + 23)"
    by (rule round32_frac) simp_all
  also have "rne (1 / 2 * 2 ^ (1 + 23) / 2 ^ 0) = 8388608" by (simp add: rne_def Let_def)
  finally have h: "to_float (1 / 2) = Finite (1 / 2)" by (simp add: to_float_def)
  have "round32 (- 3) = of_int (rne (- 3 * 2 ^ (0 + 23) / 2 ^ 1)) * 2 ^ 1 / 2 ^ (0 + 23)"
    by (rule round32_frac) simp_all
  also have "rne (- 3 * 2 ^ (0 + 23) / 2 ^ 1) = - 12582912" by (simp add: rne_def Let_def)
  finally have t: "to_float (- 3) = Finite (- 3)" by (simp add: to_float_def)
  have qe: "EEMFq_est (EXT_SS_Sync_model single_platform ?e (Finite 0) (Finite 0) (Finite 0)
      (Finite 0)) = Finite (- 1 / 2)"
    unfolding EXT_SS_Sync_model_EEMFq by (simp add: EXT_init_def fsub_def h)
  have qf: "EEMFq_est (EXT_SS_Sync_model single_platform ?f (Finite 0) (Finite 0) (Finite 0)
      (Finite 0)) = Finite 3"
    unfolding EXT_SS_Sync_model_EEMFq by (simp add: EXT_init_def fsub_def t)
  note E = eemfq_limited [of single_platform ?e "Finite 0" "Finite 0" "Finite 0" "Finite 0"]
  note F = eemfq_limited [of single_platform ?f "Finite 0" "Finite 0" "Finite 0" "Finite 0"]
  have 1: "flt (fabs (EEMFq_est (EXT_SS_Sync_model single_platform ?e (Finite 0) (Finite 0)
      (Finite 0) (Finite 0)))) (Finite 1)"
    unfolding qe by simp
  have 3: "EEMFq_est (EXT_SS_Sync single_platform ?e (Finite 0) (Finite 0) (Finite 0)
      (Finite 0)) = Finite 1"
    by (rule E [THEN conjunct1, THEN mp, OF 1])
  have n: "\<not> flt (fabs (EEMFq_est (EXT_SS_Sync_model single_platform ?f (Finite 0) (Finite 0)
      (Finite 0) (Finite 0)))) (Finite 1)"
    unfolding qf by simp
  have 5: "EEMFq_est (EXT_SS_Sync single_platform ?f (Finite 0) (Finite 0) (Finite 0)
      (Finite 0)) = Finite 3"
    using F [THEN conjunct2, THEN conjunct1, THEN mp, OF n] by (simp only: qf)
  have 6: "fle (Finite 1) (fabs (EEMFq_est (EXT_SS_Sync single_platform ?f (Finite 0)
      (Finite 0) (Finite 0) (Finite 0))))"
    unfolding 5 by (simp add: fle_def)
  from 1 qe 3 qf 5 6 show ?thesis by (intro conjI)
qed

subsection \<open>The angle-source selector\<close>





subsection \<open>Offset calibration\<close>






















subsection \<open>Single-precision accumulation of the sample period\<close>

lemma rne_shift:
  assumes "d - of_int \<lfloor>d\<rfloor> \<noteq> 1 / 2"
  shows "rne (of_int m + d) = m + rne d"
proof -
  have f: "\<lfloor>of_int m + d\<rfloor> = m + \<lfloor>d\<rfloor>" by simp
  show ?thesis using assms unfolding rne_def Let_def f by simp
qed

lemma Time_acc_Suc: "Time_acc P (Suc k) = f32 P (Time_acc P k + Tsamp P)"
  by (simp add: Time_acc_def)

lemma Time_acc_single:
  "Time_acc single_platform (Suc k) = round32 (Time_acc single_platform k + 13743895 / 2 ^ 37)"
  by (simp add: Time_acc_Suc single_platform_def)

lemma Time_acc_0 [simp]: "Time_acc P 0 = 0"
  by (simp add: Time_acc_def)

text \<open>One addition that stays in the binade of the unit \<open>2 ^ s / 2 ^ 37\<close>, from a multiple
  \<open>a\<close> of that unit: the sum is rounded to \<open>a + d\<close> units, \<open>d\<close> the rounded number of
  units in the sample period.\<close>

lemma binade_step:
  assumes t: "Time_acc single_platform k = real (a * 2 ^ s) / 2 ^ 37"
    and d: "rne (13743895 / 2 ^ s) = int d"
    and h: "13743895 / 2 ^ s - of_int \<lfloor>13743895 / 2 ^ s :: real\<rfloor> \<noteq> (1 / 2 :: real)"
    and lo: "2 ^ (23 + s) \<le> a * 2 ^ s + 13743895"
    and hi: "a * 2 ^ s + 13743895 < 2 ^ (24 + s)"
  shows "Time_acc single_platform (Suc k) = real ((a + d) * 2 ^ s) / 2 ^ 37"
proof -
  let ?z = "real (a * 2 ^ s + 13743895)"
  have lo': "2 ^ (23 + s) \<le> ?z" using lo by (metis of_nat_le_iff of_nat_numeral of_nat_power)
  have hi': "?z < 2 ^ (24 + s)" using hi by (metis of_nat_less_iff of_nat_numeral of_nat_power)
  have q: "?z / 2 ^ s = of_int (int a) + 13743895 / 2 ^ s" by (simp add: field_simps)
  have "Time_acc single_platform (Suc k) = round32 (?z / 2 ^ 37)"
    by (simp add: Time_acc_single t add_divide_distrib)
  also have "\<dots> = of_int (rne (?z / 2 ^ s)) * 2 ^ s / 2 ^ 37"
    by (rule round32_units [OF lo' hi'])
  also have "rne (?z / 2 ^ s) = int a + int d"
    by (simp only: q rne_shift [OF h] d)
  finally show ?thesis by simp
qed

text \<open>One addition whose sum is rounded in the binade of the unit \<open>2 ^ s / 2 ^ 37\<close>,
  from any value.\<close>

lemma cross_step:
  assumes t: "Time_acc single_platform k = real n / 2 ^ 37"
    and lo: "2 ^ (23 + s) \<le> n + 13743895"
    and hi: "n + 13743895 < 2 ^ (24 + s)"
    and r: "rne (real (n + 13743895) / 2 ^ s) = int m"
  shows "Time_acc single_platform (k + 1) = real (m * 2 ^ s) / 2 ^ 37"
proof -
  let ?z = "real (n + 13743895)"
  have lo': "2 ^ (23 + s) \<le> ?z" using lo by (metis of_nat_le_iff of_nat_numeral of_nat_power)
  have hi': "?z < 2 ^ (24 + s)" using hi by (metis of_nat_less_iff of_nat_numeral of_nat_power)
  have "Time_acc single_platform (Suc k) = round32 (?z / 2 ^ 37)"
    by (simp add: Time_acc_single t add_divide_distrib)
  also have "\<dots> = of_int (rne (?z / 2 ^ s)) * 2 ^ s / 2 ^ 37"
    by (rule round32_units [OF lo' hi'])
  finally have "Time_acc single_platform (Suc k) = of_int (int m) * 2 ^ s / 2 ^ 37"
    unfolding r .
  thus ?thesis by simp
qed

text \<open>The accumulated time of the single-precision platform, addition by addition: the
  value after \<open>K + j\<close> additions, in units of \<open>1 / 2 ^ 37\<close>, binade by binade.\<close>

lemma single_acc_0:
  "j \<le> 1 \<Longrightarrow> Time_acc single_platform (0 + j) = real ((0 + j * 13743895) * 2 ^ 0) / 2 ^ 37"
proof (induction j)
  case 0
  show ?case using Time_acc_0 by simp
next
  case (Suc j)
  hence ih: "Time_acc single_platform (0 + j) = real ((0 + j * 13743895) * 2 ^ 0) / 2 ^ 37"
    and j: "j < 1" by simp_all
  have "Time_acc single_platform (Suc (0 + j)) = real ((0 + j * 13743895 + 13743895) * 2 ^ 0) / 2 ^ 37"
  proof (rule binade_step [OF ih])
    show "rne (13743895 / 2 ^ 0) = int 13743895" by (simp add: rne_def Let_def)
    show "13743895 / 2 ^ 0 - of_int \<lfloor>13743895 / 2 ^ 0 :: real\<rfloor> \<noteq> (1 / 2 :: real)" by simp
    show "2 ^ (23 + 0) \<le> (0 + j * 13743895) * 2 ^ 0 + 13743895" using j by simp
    show "(0 + j * 13743895) * 2 ^ 0 + 13743895 < 2 ^ (24 + 0)" using j by simp
  qed
  thus ?case by (simp add: algebra_simps)
qed

lemma single_acc_0_end: "Time_acc single_platform 1 = real 13743895 / 2 ^ 37"
  using single_acc_0 [of 1] by simp

lemma single_acc_1_end: "Time_acc single_platform 2 = real 27487790 / 2 ^ 37"
  using cross_step [OF single_acc_0_end, of 1 13743895] by (simp add: rne_def Let_def numeral_2_eq_2 [symmetric])

lemma single_acc_2_end: "Time_acc single_platform 3 = real 41231684 / 2 ^ 37"
  using cross_step [OF single_acc_1_end, of 2 10307921] by (simp add: rne_def Let_def)

lemma single_acc_3:
  "j \<le> 1 \<Longrightarrow> Time_acc single_platform (3 + j) = real ((10307921 + j * 3435974) * 2 ^ 2) / 2 ^ 37"
proof (induction j)
  case 0
  show ?case using single_acc_2_end by simp
next
  case (Suc j)
  hence ih: "Time_acc single_platform (3 + j) = real ((10307921 + j * 3435974) * 2 ^ 2) / 2 ^ 37"
    and j: "j < 1" by simp_all
  have "Time_acc single_platform (Suc (3 + j)) = real ((10307921 + j * 3435974 + 3435974) * 2 ^ 2) / 2 ^ 37"
  proof (rule binade_step [OF ih])
    show "rne (13743895 / 2 ^ 2) = int 3435974" by (simp add: rne_def Let_def)
    show "13743895 / 2 ^ 2 - of_int \<lfloor>13743895 / 2 ^ 2 :: real\<rfloor> \<noteq> (1 / 2 :: real)" by simp
    show "2 ^ (23 + 2) \<le> (10307921 + j * 3435974) * 2 ^ 2 + 13743895" using j by simp
    show "(10307921 + j * 3435974) * 2 ^ 2 + 13743895 < 2 ^ (24 + 2)" using j by simp
  qed
  thus ?case by (simp add: algebra_simps)
qed

lemma single_acc_3_end: "Time_acc single_platform 4 = real 54975580 / 2 ^ 37"
  using single_acc_3 [of 1] by simp

lemma single_acc_4_end: "Time_acc single_platform 5 = real 68719472 / 2 ^ 37"
  using cross_step [OF single_acc_3_end, of 3 8589934] by (simp add: rne_def Let_def)

lemma single_acc_5:
  "j \<le> 4 \<Longrightarrow> Time_acc single_platform (5 + j) = real ((8589934 + j * 1717987) * 2 ^ 3) / 2 ^ 37"
proof (induction j)
  case 0
  show ?case using single_acc_4_end by simp
next
  case (Suc j)
  hence ih: "Time_acc single_platform (5 + j) = real ((8589934 + j * 1717987) * 2 ^ 3) / 2 ^ 37"
    and j: "j < 4" by simp_all
  have "Time_acc single_platform (Suc (5 + j)) = real ((8589934 + j * 1717987 + 1717987) * 2 ^ 3) / 2 ^ 37"
  proof (rule binade_step [OF ih])
    show "rne (13743895 / 2 ^ 3) = int 1717987" by (simp add: rne_def Let_def)
    show "13743895 / 2 ^ 3 - of_int \<lfloor>13743895 / 2 ^ 3 :: real\<rfloor> \<noteq> (1 / 2 :: real)" by simp
    show "2 ^ (23 + 3) \<le> (8589934 + j * 1717987) * 2 ^ 3 + 13743895" using j by simp
    show "(8589934 + j * 1717987) * 2 ^ 3 + 13743895 < 2 ^ (24 + 3)" using j by simp
  qed
  thus ?case by (simp add: algebra_simps)
qed

lemma single_acc_5_end: "Time_acc single_platform 9 = real 123695056 / 2 ^ 37"
  using single_acc_5 [of 4] by simp

lemma single_acc_6:
  "j \<le> 10 \<Longrightarrow> Time_acc single_platform (9 + j) = real ((7730941 + j * 858993) * 2 ^ 4) / 2 ^ 37"
proof (induction j)
  case 0
  show ?case using single_acc_5_end by simp
next
  case (Suc j)
  hence ih: "Time_acc single_platform (9 + j) = real ((7730941 + j * 858993) * 2 ^ 4) / 2 ^ 37"
    and j: "j < 10" by simp_all
  have "Time_acc single_platform (Suc (9 + j)) = real ((7730941 + j * 858993 + 858993) * 2 ^ 4) / 2 ^ 37"
  proof (rule binade_step [OF ih])
    show "rne (13743895 / 2 ^ 4) = int 858993" by (simp add: rne_def Let_def)
    show "13743895 / 2 ^ 4 - of_int \<lfloor>13743895 / 2 ^ 4 :: real\<rfloor> \<noteq> (1 / 2 :: real)" by simp
    show "2 ^ (23 + 4) \<le> (7730941 + j * 858993) * 2 ^ 4 + 13743895" using j by simp
    show "(7730941 + j * 858993) * 2 ^ 4 + 13743895 < 2 ^ (24 + 4)" using j by simp
  qed
  thus ?case by (simp add: algebra_simps)
qed

lemma single_acc_6_end: "Time_acc single_platform 19 = real 261133936 / 2 ^ 37"
  using single_acc_6 [of 10] by simp

lemma single_acc_7_end: "Time_acc single_platform 20 = real 274877824 / 2 ^ 37"
  using cross_step [OF single_acc_6_end, of 5 8589932] by (simp add: rne_def Let_def)

lemma single_acc_8:
  "j \<le> 19 \<Longrightarrow> Time_acc single_platform (20 + j) = real ((8589932 + j * 429497) * 2 ^ 5) / 2 ^ 37"
proof (induction j)
  case 0
  show ?case using single_acc_7_end by simp
next
  case (Suc j)
  hence ih: "Time_acc single_platform (20 + j) = real ((8589932 + j * 429497) * 2 ^ 5) / 2 ^ 37"
    and j: "j < 19" by simp_all
  have "Time_acc single_platform (Suc (20 + j)) = real ((8589932 + j * 429497 + 429497) * 2 ^ 5) / 2 ^ 37"
  proof (rule binade_step [OF ih])
    show "rne (13743895 / 2 ^ 5) = int 429497" by (simp add: rne_def Let_def)
    show "13743895 / 2 ^ 5 - of_int \<lfloor>13743895 / 2 ^ 5 :: real\<rfloor> \<noteq> (1 / 2 :: real)" by simp
    show "2 ^ (23 + 5) \<le> (8589932 + j * 429497) * 2 ^ 5 + 13743895" using j by simp
    show "(8589932 + j * 429497) * 2 ^ 5 + 13743895 < 2 ^ (24 + 5)" using j by simp
  qed
  thus ?case by (simp add: algebra_simps)
qed

lemma single_acc_8_end: "Time_acc single_platform 39 = real 536012000 / 2 ^ 37"
  using single_acc_8 [of 19] by simp

lemma single_acc_9_end: "Time_acc single_platform 40 = real 549755904 / 2 ^ 37"
  using cross_step [OF single_acc_8_end, of 6 8589936] by (simp add: rne_def Let_def)

lemma single_acc_10:
  "j \<le> 38 \<Longrightarrow> Time_acc single_platform (40 + j) = real ((8589936 + j * 214748) * 2 ^ 6) / 2 ^ 37"
proof (induction j)
  case 0
  show ?case using single_acc_9_end by simp
next
  case (Suc j)
  hence ih: "Time_acc single_platform (40 + j) = real ((8589936 + j * 214748) * 2 ^ 6) / 2 ^ 37"
    and j: "j < 38" by simp_all
  have "Time_acc single_platform (Suc (40 + j)) = real ((8589936 + j * 214748 + 214748) * 2 ^ 6) / 2 ^ 37"
  proof (rule binade_step [OF ih])
    show "rne (13743895 / 2 ^ 6) = int 214748" by (simp add: rne_def Let_def)
    show "13743895 / 2 ^ 6 - of_int \<lfloor>13743895 / 2 ^ 6 :: real\<rfloor> \<noteq> (1 / 2 :: real)" by simp
    show "2 ^ (23 + 6) \<le> (8589936 + j * 214748) * 2 ^ 6 + 13743895" using j by simp
    show "(8589936 + j * 214748) * 2 ^ 6 + 13743895 < 2 ^ (24 + 6)" using j by simp
  qed
  thus ?case by (simp add: algebra_simps)
qed

lemma single_acc_10_end: "Time_acc single_platform 78 = real 1072023040 / 2 ^ 37"
  using single_acc_10 [of 38] by simp

lemma single_acc_11:
  "j \<le> 78 \<Longrightarrow> Time_acc single_platform (78 + j) = real ((8375180 + j * 107374) * 2 ^ 7) / 2 ^ 37"
proof (induction j)
  case 0
  show ?case using single_acc_10_end by simp
next
  case (Suc j)
  hence ih: "Time_acc single_platform (78 + j) = real ((8375180 + j * 107374) * 2 ^ 7) / 2 ^ 37"
    and j: "j < 78" by simp_all
  have "Time_acc single_platform (Suc (78 + j)) = real ((8375180 + j * 107374 + 107374) * 2 ^ 7) / 2 ^ 37"
  proof (rule binade_step [OF ih])
    show "rne (13743895 / 2 ^ 7) = int 107374" by (simp add: rne_def Let_def)
    show "13743895 / 2 ^ 7 - of_int \<lfloor>13743895 / 2 ^ 7 :: real\<rfloor> \<noteq> (1 / 2 :: real)" by simp
    show "2 ^ (23 + 7) \<le> (8375180 + j * 107374) * 2 ^ 7 + 13743895" using j by simp
    show "(8375180 + j * 107374) * 2 ^ 7 + 13743895 < 2 ^ (24 + 7)" using j by simp
  qed
  thus ?case by (simp add: algebra_simps)
qed

lemma single_acc_11_end: "Time_acc single_platform 156 = real 2144045056 / 2 ^ 37"
  using single_acc_11 [of 78] by simp

lemma single_acc_12:
  "j \<le> 156 \<Longrightarrow> Time_acc single_platform (156 + j) = real ((8375176 + j * 53687) * 2 ^ 8) / 2 ^ 37"
proof (induction j)
  case 0
  show ?case using single_acc_11_end by simp
next
  case (Suc j)
  hence ih: "Time_acc single_platform (156 + j) = real ((8375176 + j * 53687) * 2 ^ 8) / 2 ^ 37"
    and j: "j < 156" by simp_all
  have "Time_acc single_platform (Suc (156 + j)) = real ((8375176 + j * 53687 + 53687) * 2 ^ 8) / 2 ^ 37"
  proof (rule binade_step [OF ih])
    show "rne (13743895 / 2 ^ 8) = int 53687" by (simp add: rne_def Let_def)
    show "13743895 / 2 ^ 8 - of_int \<lfloor>13743895 / 2 ^ 8 :: real\<rfloor> \<noteq> (1 / 2 :: real)" by simp
    show "2 ^ (23 + 8) \<le> (8375176 + j * 53687) * 2 ^ 8 + 13743895" using j by simp
    show "(8375176 + j * 53687) * 2 ^ 8 + 13743895 < 2 ^ (24 + 8)" using j by simp
  qed
  thus ?case by (simp add: algebra_simps)
qed

lemma single_acc_12_end: "Time_acc single_platform 312 = real 4288089088 / 2 ^ 37"
  using single_acc_12 [of 156] by simp

lemma single_acc_13:
  "j \<le> 312 \<Longrightarrow> Time_acc single_platform (312 + j) = real ((8375174 + j * 26844) * 2 ^ 9) / 2 ^ 37"
proof (induction j)
  case 0
  show ?case using single_acc_12_end by simp
next
  case (Suc j)
  hence ih: "Time_acc single_platform (312 + j) = real ((8375174 + j * 26844) * 2 ^ 9) / 2 ^ 37"
    and j: "j < 312" by simp_all
  have "Time_acc single_platform (Suc (312 + j)) = real ((8375174 + j * 26844 + 26844) * 2 ^ 9) / 2 ^ 37"
  proof (rule binade_step [OF ih])
    show "rne (13743895 / 2 ^ 9) = int 26844" by (simp add: rne_def Let_def)
    show "13743895 / 2 ^ 9 - of_int \<lfloor>13743895 / 2 ^ 9 :: real\<rfloor> \<noteq> (1 / 2 :: real)" by simp
    show "2 ^ (23 + 9) \<le> (8375174 + j * 26844) * 2 ^ 9 + 13743895" using j by simp
    show "(8375174 + j * 26844) * 2 ^ 9 + 13743895 < 2 ^ (24 + 9)" using j by simp
  qed
  thus ?case by (simp add: algebra_simps)
qed

lemma single_acc_13_end: "Time_acc single_platform 624 = real 8576257024 / 2 ^ 37"
  using single_acc_13 [of 312] by simp

lemma single_acc_14:
  "j \<le> 625 \<Longrightarrow> Time_acc single_platform (624 + j) = real ((8375251 + j * 13422) * 2 ^ 10) / 2 ^ 37"
proof (induction j)
  case 0
  show ?case using single_acc_13_end by simp
next
  case (Suc j)
  hence ih: "Time_acc single_platform (624 + j) = real ((8375251 + j * 13422) * 2 ^ 10) / 2 ^ 37"
    and j: "j < 625" by simp_all
  have "Time_acc single_platform (Suc (624 + j)) = real ((8375251 + j * 13422 + 13422) * 2 ^ 10) / 2 ^ 37"
  proof (rule binade_step [OF ih])
    show "rne (13743895 / 2 ^ 10) = int 13422" by (simp add: rne_def Let_def)
    show "13743895 / 2 ^ 10 - of_int \<lfloor>13743895 / 2 ^ 10 :: real\<rfloor> \<noteq> (1 / 2 :: real)" by simp
    show "2 ^ (23 + 10) \<le> (8375251 + j * 13422) * 2 ^ 10 + 13743895" using j by simp
    show "(8375251 + j * 13422) * 2 ^ 10 + 13743895 < 2 ^ (24 + 10)" using j by simp
  qed
  thus ?case by (simp add: algebra_simps)
qed

lemma single_acc_14_end: "Time_acc single_platform 1249 = real 17166337024 / 2 ^ 37"
  using single_acc_14 [of 625] by simp

lemma single_acc_15_end: "Time_acc single_platform 1250 = real 17180080128 / 2 ^ 37"
  using cross_step [OF single_acc_14_end, of 11 8388711] by (simp add: rne_def Let_def)

lemma single_acc_16:
  "j \<le> 1249 \<Longrightarrow> Time_acc single_platform (1250 + j) = real ((8388711 + j * 6711) * 2 ^ 11) / 2 ^ 37"
proof (induction j)
  case 0
  show ?case using single_acc_15_end by simp
next
  case (Suc j)
  hence ih: "Time_acc single_platform (1250 + j) = real ((8388711 + j * 6711) * 2 ^ 11) / 2 ^ 37"
    and j: "j < 1249" by simp_all
  have "Time_acc single_platform (Suc (1250 + j)) = real ((8388711 + j * 6711 + 6711) * 2 ^ 11) / 2 ^ 37"
  proof (rule binade_step [OF ih])
    show "rne (13743895 / 2 ^ 11) = int 6711" by (simp add: rne_def Let_def)
    show "13743895 / 2 ^ 11 - of_int \<lfloor>13743895 / 2 ^ 11 :: real\<rfloor> \<noteq> (1 / 2 :: real)" by simp
    show "2 ^ (23 + 11) \<le> (8388711 + j * 6711) * 2 ^ 11 + 13743895" using j by simp
    show "(8388711 + j * 6711) * 2 ^ 11 + 13743895 < 2 ^ (24 + 11)" using j by simp
  qed
  thus ?case by (simp add: algebra_simps)
qed

lemma single_acc_16_end: "Time_acc single_platform 2499 = real 34346496000 / 2 ^ 37"
  using single_acc_16 [of 1249] by simp

lemma single_acc_17:
  "j \<le> 2501 \<Longrightarrow> Time_acc single_platform (2499 + j) = real ((8385375 + j * 3355) * 2 ^ 12) / 2 ^ 37"
proof (induction j)
  case 0
  show ?case using single_acc_16_end by simp
next
  case (Suc j)
  hence ih: "Time_acc single_platform (2499 + j) = real ((8385375 + j * 3355) * 2 ^ 12) / 2 ^ 37"
    and j: "j < 2501" by simp_all
  have "Time_acc single_platform (Suc (2499 + j)) = real ((8385375 + j * 3355 + 3355) * 2 ^ 12) / 2 ^ 37"
  proof (rule binade_step [OF ih])
    show "rne (13743895 / 2 ^ 12) = int 3355" by (simp add: rne_def Let_def)
    show "13743895 / 2 ^ 12 - of_int \<lfloor>13743895 / 2 ^ 12 :: real\<rfloor> \<noteq> (1 / 2 :: real)" by simp
    show "2 ^ (23 + 12) \<le> (8385375 + j * 3355) * 2 ^ 12 + 13743895" using j by simp
    show "(8385375 + j * 3355) * 2 ^ 12 + 13743895 < 2 ^ (24 + 12)" using j by simp
  qed
  thus ?case by (simp add: algebra_simps)
qed

lemma single_acc_17_end: "Time_acc single_platform 5000 = real 68715438080 / 2 ^ 37"
  using single_acc_17 [of 2501] by simp

lemma single_acc_18:
  "j \<le> 4999 \<Longrightarrow> Time_acc single_platform (5000 + j) = real ((8388115 + j * 1678) * 2 ^ 13) / 2 ^ 37"
proof (induction j)
  case 0
  show ?case using single_acc_17_end by simp
next
  case (Suc j)
  hence ih: "Time_acc single_platform (5000 + j) = real ((8388115 + j * 1678) * 2 ^ 13) / 2 ^ 37"
    and j: "j < 4999" by simp_all
  have "Time_acc single_platform (Suc (5000 + j)) = real ((8388115 + j * 1678 + 1678) * 2 ^ 13) / 2 ^ 37"
  proof (rule binade_step [OF ih])
    show "rne (13743895 / 2 ^ 13) = int 1678" by (simp add: rne_def Let_def)
    show "13743895 / 2 ^ 13 - of_int \<lfloor>13743895 / 2 ^ 13 :: real\<rfloor> \<noteq> (1 / 2 :: real)" by simp
    show "2 ^ (23 + 13) \<le> (8388115 + j * 1678) * 2 ^ 13 + 13743895" using j by simp
    show "(8388115 + j * 1678) * 2 ^ 13 + 13743895 < 2 ^ (24 + 13)" using j by simp
  qed
  thus ?case by (simp add: algebra_simps)
qed

lemma single_acc_18_end: "Time_acc single_platform 9999 = real 137432571904 / 2 ^ 37"
  using single_acc_18 [of 4999] by simp

lemma single_acc_19_end: "Time_acc single_platform 10000 = real 137446309888 / 2 ^ 37"
  using cross_step [OF single_acc_18_end, of 14 8389057] by (simp add: rne_def Let_def)

lemma single_acc_20:
  "j \<le> 9997 \<Longrightarrow> Time_acc single_platform (10000 + j) = real ((8389057 + j * 839) * 2 ^ 14) / 2 ^ 37"
proof (induction j)
  case 0
  show ?case using single_acc_19_end by simp
next
  case (Suc j)
  hence ih: "Time_acc single_platform (10000 + j) = real ((8389057 + j * 839) * 2 ^ 14) / 2 ^ 37"
    and j: "j < 9997" by simp_all
  have "Time_acc single_platform (Suc (10000 + j)) = real ((8389057 + j * 839 + 839) * 2 ^ 14) / 2 ^ 37"
  proof (rule binade_step [OF ih])
    show "rne (13743895 / 2 ^ 14) = int 839" by (simp add: rne_def Let_def)
    show "13743895 / 2 ^ 14 - of_int \<lfloor>13743895 / 2 ^ 14 :: real\<rfloor> \<noteq> (1 / 2 :: real)" by simp
    show "2 ^ (23 + 14) \<le> (8389057 + j * 839) * 2 ^ 14 + 13743895" using j by simp
    show "(8389057 + j * 839) * 2 ^ 14 + 13743895 < 2 ^ (24 + 14)" using j by simp
  qed
  thus ?case by (simp add: algebra_simps)
qed

lemma single_acc_20_end: "Time_acc single_platform 19997 = real 274866831360 / 2 ^ 37"
  using single_acc_20 [of 9997] by simp

lemma single_acc_21:
  "j \<le> 20021 \<Longrightarrow> Time_acc single_platform (19997 + j) = real ((8388270 + j * 419) * 2 ^ 15) / 2 ^ 37"
proof (induction j)
  case 0
  show ?case using single_acc_20_end by simp
next
  case (Suc j)
  hence ih: "Time_acc single_platform (19997 + j) = real ((8388270 + j * 419) * 2 ^ 15) / 2 ^ 37"
    and j: "j < 20021" by simp_all
  have "Time_acc single_platform (Suc (19997 + j)) = real ((8388270 + j * 419 + 419) * 2 ^ 15) / 2 ^ 37"
  proof (rule binade_step [OF ih])
    show "rne (13743895 / 2 ^ 15) = int 419" by (simp add: rne_def Let_def)
    show "13743895 / 2 ^ 15 - of_int \<lfloor>13743895 / 2 ^ 15 :: real\<rfloor> \<noteq> (1 / 2 :: real)" by simp
    show "2 ^ (23 + 15) \<le> (8388270 + j * 419) * 2 ^ 15 + 13743895" using j by simp
    show "(8388270 + j * 419) * 2 ^ 15 + 13743895 < 2 ^ (24 + 15)" using j by simp
  qed
  thus ?case by (simp add: algebra_simps)
qed

lemma single_acc_21_end: "Time_acc single_platform 40018 = real 549750996992 / 2 ^ 37"
  using single_acc_21 [of 20021] by simp

lemma single_acc_22_end: "Time_acc single_platform 40019 = real 549764726784 / 2 ^ 37"
  using cross_step [OF single_acc_21_end, of 16 8388744] by (simp add: rne_def Let_def)

lemma single_acc_23:
  "j \<le> 9986 \<Longrightarrow> Time_acc single_platform (40019 + j) = real ((8388744 + j * 210) * 2 ^ 16) / 2 ^ 37"
proof (induction j)
  case 0
  show ?case using single_acc_22_end by simp
next
  case (Suc j)
  hence ih: "Time_acc single_platform (40019 + j) = real ((8388744 + j * 210) * 2 ^ 16) / 2 ^ 37"
    and j: "j < 9986" by simp_all
  have "Time_acc single_platform (Suc (40019 + j)) = real ((8388744 + j * 210 + 210) * 2 ^ 16) / 2 ^ 37"
  proof (rule binade_step [OF ih])
    show "rne (13743895 / 2 ^ 16) = int 210" by (simp add: rne_def Let_def)
    show "13743895 / 2 ^ 16 - of_int \<lfloor>13743895 / 2 ^ 16 :: real\<rfloor> \<noteq> (1 / 2 :: real)" by simp
    show "2 ^ (23 + 16) \<le> (8388744 + j * 210) * 2 ^ 16 + 13743895" using j by simp
    show "(8388744 + j * 210) * 2 ^ 16 + 13743895 < 2 ^ (24 + 16)" using j by simp
  qed
  thus ?case by (simp add: algebra_simps)
qed

lemma single_acc_23_end: "Time_acc single_platform 50005 = real 687197650944 / 2 ^ 37"
  using single_acc_23 [of 9986] by simp

subsection \<open>The alignment sequencer\<close>

lemma Align_phase1:
  assumes m: "Mode_align s = 0"
    and b: "\<forall>k. 0 < k \<and> k < N1 \<longrightarrow> Time_acc P k < 4"
  shows "0 < j \<Longrightarrow> j \<le> N1 \<Longrightarrow>
    Mode_align ((Align P ^^ j) s) = 1 \<and> Time_align ((Align P ^^ j) s) = Time_acc P j \<and>
    Align_done ((Align P ^^ j) s) = 0"
proof (induction j)
  case 0
  thus ?case by simp
next
  case (Suc j)
  show ?case
  proof (cases "j = 0")
    case True
    thus ?thesis by (simp add: Align_fields m Time_acc_Suc)
  next
    case False
    with Suc have ih: "Mode_align ((Align P ^^ j) s) = 1"
      "Time_align ((Align P ^^ j) s) = Time_acc P j" "Align_done ((Align P ^^ j) s) = 0"
      and j: "0 < j" "j < N1" by simp_all
    from b j have "\<not> 4 \<le> Time_acc P j" by (simp add: not_le)
    thus ?thesis by (simp add: Align_fields ih Time_acc_Suc)
  qed
qed

lemma Align_phase2:
  assumes a: "Mode_align ((Align P ^^ N1) s) = 1"
      "Time_align ((Align P ^^ N1) s) = Time_acc P N1" "Align_done ((Align P ^^ N1) s) = 0"
    and t: "4 \<le> Time_acc P N1"
    and b: "\<forall>k. N1 < k \<and> k < N2 \<longrightarrow> Time_acc P k < 5"
  shows "N1 < j \<Longrightarrow> j \<le> N2 \<Longrightarrow>
    Mode_align ((Align P ^^ j) s) = 2 \<and> Time_align ((Align P ^^ j) s) = Time_acc P j \<and>
    Align_done ((Align P ^^ j) s) = 0 \<and>
    (if N1 + 1 < j then Idsr_ref (INV ((Align P ^^ j) s)) = 0 else j = N1 + 1)"
proof (induction j)
  case 0
  thus ?case by simp
next
  case (Suc j)
  show ?case
  proof (cases "j = N1")
    case True
    thus ?thesis by (simp add: Align_fields a t Time_acc_Suc)
  next
    case False
    with Suc have ih: "Mode_align ((Align P ^^ j) s) = 2"
      "Time_align ((Align P ^^ j) s) = Time_acc P j" "Align_done ((Align P ^^ j) s) = 0"
      and j: "N1 < j" "j < N2" by simp_all
    from b j have "\<not> 5 \<le> Time_acc P j" by (simp add: not_le)
    thus ?thesis using j by (simp add: Align_fields ih Time_acc_Suc)
  qed
qed

lemma Align_phase3:
  assumes a: "Mode_align ((Align P ^^ N2) s) = 2"
      "Time_align ((Align P ^^ N2) s) = Time_acc P N2" "Align_done ((Align P ^^ N2) s) = 0"
    and t: "5 \<le> Time_acc P N2"
  shows "Mode_align ((Align P ^^ (N2 + 1)) s) = 3"
    "Idsr_ref (INV ((Align P ^^ (N2 + 1)) s)) = 0"
    "Align_done ((Align P ^^ (N2 + 1)) s) = 0"
    "Mode_align ((Align P ^^ (N2 + 2)) s) = 0"
    "Idsr_ref (INV ((Align P ^^ (N2 + 2)) s)) = 0"
    "Align_done ((Align P ^^ (N2 + 2)) s) = 1"
    "INV_ALIGN (FLAG ((Align P ^^ (N2 + 2)) s)) = 0"
proof -
  show 1: "Mode_align ((Align P ^^ (N2 + 1)) s) = 3"
    and 2: "Idsr_ref (INV ((Align P ^^ (N2 + 1)) s)) = 0"
    and 3: "Align_done ((Align P ^^ (N2 + 1)) s) = 0"
    by (simp_all add: Align_fields a t)
  have "(Align P ^^ (N2 + 2)) s = Align P ((Align P ^^ (N2 + 1)) s)" by simp
  thus "Mode_align ((Align P ^^ (N2 + 2)) s) = 0"
    "Idsr_ref (INV ((Align P ^^ (N2 + 2)) s)) = 0"
    "Align_done ((Align P ^^ (N2 + 2)) s) = 1"
    "INV_ALIGN (FLAG ((Align P ^^ (N2 + 2)) s)) = 0"
    by (simp_all only: Align_fields Align_FLAG 1 2 3) simp_all
qed

lemma Time_acc_exact: "Time_acc exact_platform k = real k / 10000"
  by (induction k) (simp_all add: Time_acc_Suc exact_platform_def field_simps)

lemma units_less: "n < c * 2 ^ 37 \<Longrightarrow> real n / 2 ^ 37 < real c"
proof -
  assume "n < c * 2 ^ 37"
  hence "real n < real (c * 2 ^ 37)" by (simp only: of_nat_less_iff)
  thus ?thesis by (simp add: field_simps)
qed

lemma units_ge: "c * 2 ^ 37 \<le> n \<Longrightarrow> real c \<le> real n / 2 ^ 37"
proof -
  assume "c * 2 ^ 37 \<le> n"
  hence "real (c * 2 ^ 37) \<le> real n" by (simp only: of_nat_le_iff)
  thus ?thesis by (simp add: field_simps)
qed

text \<open>In single precision the accumulated time is below 4 until the 40019th addition, and
  below 5 until the 50005th.\<close>

lemma single_lt4_0:
  assumes "k \<le> 1" shows "Time_acc single_platform k < 4"
proof -
  from assms have j: "k - 0 \<le> 1" and k: "0 + (k - 0) = k" by simp_all
  note j' = j
  have "Time_acc single_platform k = real ((0 + (k - 0) * 13743895) * 2 ^ 0) / 2 ^ 37"
    using single_acc_0 [OF j'] by (simp only: k)
  moreover have "real ((0 + (k - 0) * 13743895) * 2 ^ 0) / 2 ^ 37 < real 4"
    using j by (intro units_less) simp
  ultimately show ?thesis by simp
qed

lemma single_lt4_1:
  assumes "k \<le> 2" shows "Time_acc single_platform k < 4"
proof (cases "k \<le> 1")
  case True
  thus ?thesis by (rule single_lt4_0)
next
  case False
  with assms have "k = 2" by simp
  thus ?thesis by (simp add: single_acc_1_end)
qed

lemma single_lt4_2:
  assumes "k \<le> 3" shows "Time_acc single_platform k < 4"
proof (cases "k \<le> 2")
  case True
  thus ?thesis by (rule single_lt4_1)
next
  case False
  with assms have "k = 3" by simp
  thus ?thesis by (simp add: single_acc_2_end)
qed

lemma single_lt4_3:
  assumes "k \<le> 4" shows "Time_acc single_platform k < 4"
proof (cases "k \<le> 3")
  case True
  thus ?thesis by (rule single_lt4_2)
next
  case False
  with assms have j: "k - 3 \<le> 1" and k: "3 + (k - 3) = k" by simp_all
  note j' = j
  have "Time_acc single_platform k = real ((10307921 + (k - 3) * 3435974) * 2 ^ 2) / 2 ^ 37"
    using single_acc_3 [OF j'] by (simp only: k)
  moreover have "real ((10307921 + (k - 3) * 3435974) * 2 ^ 2) / 2 ^ 37 < real 4"
    using j by (intro units_less) simp
  ultimately show ?thesis by simp
qed

lemma single_lt4_4:
  assumes "k \<le> 5" shows "Time_acc single_platform k < 4"
proof (cases "k \<le> 4")
  case True
  thus ?thesis by (rule single_lt4_3)
next
  case False
  with assms have "k = 5" by simp
  thus ?thesis by (simp add: single_acc_4_end)
qed

lemma single_lt4_5:
  assumes "k \<le> 9" shows "Time_acc single_platform k < 4"
proof (cases "k \<le> 5")
  case True
  thus ?thesis by (rule single_lt4_4)
next
  case False
  with assms have j: "k - 5 \<le> 4" and k: "5 + (k - 5) = k" by simp_all
  note j' = j
  have "Time_acc single_platform k = real ((8589934 + (k - 5) * 1717987) * 2 ^ 3) / 2 ^ 37"
    using single_acc_5 [OF j'] by (simp only: k)
  moreover have "real ((8589934 + (k - 5) * 1717987) * 2 ^ 3) / 2 ^ 37 < real 4"
    using j by (intro units_less) simp
  ultimately show ?thesis by simp
qed

lemma single_lt4_6:
  assumes "k \<le> 19" shows "Time_acc single_platform k < 4"
proof (cases "k \<le> 9")
  case True
  thus ?thesis by (rule single_lt4_5)
next
  case False
  with assms have j: "k - 9 \<le> 10" and k: "9 + (k - 9) = k" by simp_all
  note j' = j
  have "Time_acc single_platform k = real ((7730941 + (k - 9) * 858993) * 2 ^ 4) / 2 ^ 37"
    using single_acc_6 [OF j'] by (simp only: k)
  moreover have "real ((7730941 + (k - 9) * 858993) * 2 ^ 4) / 2 ^ 37 < real 4"
    using j by (intro units_less) simp
  ultimately show ?thesis by simp
qed

lemma single_lt4_7:
  assumes "k \<le> 20" shows "Time_acc single_platform k < 4"
proof (cases "k \<le> 19")
  case True
  thus ?thesis by (rule single_lt4_6)
next
  case False
  with assms have "k = 20" by simp
  thus ?thesis by (simp add: single_acc_7_end)
qed

lemma single_lt4_8:
  assumes "k \<le> 39" shows "Time_acc single_platform k < 4"
proof (cases "k \<le> 20")
  case True
  thus ?thesis by (rule single_lt4_7)
next
  case False
  with assms have j: "k - 20 \<le> 19" and k: "20 + (k - 20) = k" by simp_all
  note j' = j
  have "Time_acc single_platform k = real ((8589932 + (k - 20) * 429497) * 2 ^ 5) / 2 ^ 37"
    using single_acc_8 [OF j'] by (simp only: k)
  moreover have "real ((8589932 + (k - 20) * 429497) * 2 ^ 5) / 2 ^ 37 < real 4"
    using j by (intro units_less) simp
  ultimately show ?thesis by simp
qed

lemma single_lt4_9:
  assumes "k \<le> 40" shows "Time_acc single_platform k < 4"
proof (cases "k \<le> 39")
  case True
  thus ?thesis by (rule single_lt4_8)
next
  case False
  with assms have "k = 40" by simp
  thus ?thesis by (simp add: single_acc_9_end)
qed

lemma single_lt4_10:
  assumes "k \<le> 78" shows "Time_acc single_platform k < 4"
proof (cases "k \<le> 40")
  case True
  thus ?thesis by (rule single_lt4_9)
next
  case False
  with assms have j: "k - 40 \<le> 38" and k: "40 + (k - 40) = k" by simp_all
  note j' = j
  have "Time_acc single_platform k = real ((8589936 + (k - 40) * 214748) * 2 ^ 6) / 2 ^ 37"
    using single_acc_10 [OF j'] by (simp only: k)
  moreover have "real ((8589936 + (k - 40) * 214748) * 2 ^ 6) / 2 ^ 37 < real 4"
    using j by (intro units_less) simp
  ultimately show ?thesis by simp
qed

lemma single_lt4_11:
  assumes "k \<le> 156" shows "Time_acc single_platform k < 4"
proof (cases "k \<le> 78")
  case True
  thus ?thesis by (rule single_lt4_10)
next
  case False
  with assms have j: "k - 78 \<le> 78" and k: "78 + (k - 78) = k" by simp_all
  note j' = j
  have "Time_acc single_platform k = real ((8375180 + (k - 78) * 107374) * 2 ^ 7) / 2 ^ 37"
    using single_acc_11 [OF j'] by (simp only: k)
  moreover have "real ((8375180 + (k - 78) * 107374) * 2 ^ 7) / 2 ^ 37 < real 4"
    using j by (intro units_less) simp
  ultimately show ?thesis by simp
qed

lemma single_lt4_12:
  assumes "k \<le> 312" shows "Time_acc single_platform k < 4"
proof (cases "k \<le> 156")
  case True
  thus ?thesis by (rule single_lt4_11)
next
  case False
  with assms have j: "k - 156 \<le> 156" and k: "156 + (k - 156) = k" by simp_all
  note j' = j
  have "Time_acc single_platform k = real ((8375176 + (k - 156) * 53687) * 2 ^ 8) / 2 ^ 37"
    using single_acc_12 [OF j'] by (simp only: k)
  moreover have "real ((8375176 + (k - 156) * 53687) * 2 ^ 8) / 2 ^ 37 < real 4"
    using j by (intro units_less) simp
  ultimately show ?thesis by simp
qed

lemma single_lt4_13:
  assumes "k \<le> 624" shows "Time_acc single_platform k < 4"
proof (cases "k \<le> 312")
  case True
  thus ?thesis by (rule single_lt4_12)
next
  case False
  with assms have j: "k - 312 \<le> 312" and k: "312 + (k - 312) = k" by simp_all
  note j' = j
  have "Time_acc single_platform k = real ((8375174 + (k - 312) * 26844) * 2 ^ 9) / 2 ^ 37"
    using single_acc_13 [OF j'] by (simp only: k)
  moreover have "real ((8375174 + (k - 312) * 26844) * 2 ^ 9) / 2 ^ 37 < real 4"
    using j by (intro units_less) simp
  ultimately show ?thesis by simp
qed

lemma single_lt4_14:
  assumes "k \<le> 1249" shows "Time_acc single_platform k < 4"
proof (cases "k \<le> 624")
  case True
  thus ?thesis by (rule single_lt4_13)
next
  case False
  with assms have j: "k - 624 \<le> 625" and k: "624 + (k - 624) = k" by simp_all
  note j' = j
  have "Time_acc single_platform k = real ((8375251 + (k - 624) * 13422) * 2 ^ 10) / 2 ^ 37"
    using single_acc_14 [OF j'] by (simp only: k)
  moreover have "real ((8375251 + (k - 624) * 13422) * 2 ^ 10) / 2 ^ 37 < real 4"
    using j by (intro units_less) simp
  ultimately show ?thesis by simp
qed

lemma single_lt4_15:
  assumes "k \<le> 1250" shows "Time_acc single_platform k < 4"
proof (cases "k \<le> 1249")
  case True
  thus ?thesis by (rule single_lt4_14)
next
  case False
  with assms have "k = 1250" by simp
  thus ?thesis by (simp add: single_acc_15_end)
qed

lemma single_lt4_16:
  assumes "k \<le> 2499" shows "Time_acc single_platform k < 4"
proof (cases "k \<le> 1250")
  case True
  thus ?thesis by (rule single_lt4_15)
next
  case False
  with assms have j: "k - 1250 \<le> 1249" and k: "1250 + (k - 1250) = k" by simp_all
  note j' = j
  have "Time_acc single_platform k = real ((8388711 + (k - 1250) * 6711) * 2 ^ 11) / 2 ^ 37"
    using single_acc_16 [OF j'] by (simp only: k)
  moreover have "real ((8388711 + (k - 1250) * 6711) * 2 ^ 11) / 2 ^ 37 < real 4"
    using j by (intro units_less) simp
  ultimately show ?thesis by simp
qed

lemma single_lt4_17:
  assumes "k \<le> 5000" shows "Time_acc single_platform k < 4"
proof (cases "k \<le> 2499")
  case True
  thus ?thesis by (rule single_lt4_16)
next
  case False
  with assms have j: "k - 2499 \<le> 2501" and k: "2499 + (k - 2499) = k" by simp_all
  note j' = j
  have "Time_acc single_platform k = real ((8385375 + (k - 2499) * 3355) * 2 ^ 12) / 2 ^ 37"
    using single_acc_17 [OF j'] by (simp only: k)
  moreover have "real ((8385375 + (k - 2499) * 3355) * 2 ^ 12) / 2 ^ 37 < real 4"
    using j by (intro units_less) simp
  ultimately show ?thesis by simp
qed

lemma single_lt4_18:
  assumes "k \<le> 9999" shows "Time_acc single_platform k < 4"
proof (cases "k \<le> 5000")
  case True
  thus ?thesis by (rule single_lt4_17)
next
  case False
  with assms have j: "k - 5000 \<le> 4999" and k: "5000 + (k - 5000) = k" by simp_all
  note j' = j
  have "Time_acc single_platform k = real ((8388115 + (k - 5000) * 1678) * 2 ^ 13) / 2 ^ 37"
    using single_acc_18 [OF j'] by (simp only: k)
  moreover have "real ((8388115 + (k - 5000) * 1678) * 2 ^ 13) / 2 ^ 37 < real 4"
    using j by (intro units_less) simp
  ultimately show ?thesis by simp
qed

lemma single_lt4_19:
  assumes "k \<le> 10000" shows "Time_acc single_platform k < 4"
proof (cases "k \<le> 9999")
  case True
  thus ?thesis by (rule single_lt4_18)
next
  case False
  with assms have "k = 10000" by simp
  thus ?thesis by (simp add: single_acc_19_end)
qed

lemma single_lt4_20:
  assumes "k \<le> 19997" shows "Time_acc single_platform k < 4"
proof (cases "k \<le> 10000")
  case True
  thus ?thesis by (rule single_lt4_19)
next
  case False
  with assms have j: "k - 10000 \<le> 9997" and k: "10000 + (k - 10000) = k" by simp_all
  note j' = j
  have "Time_acc single_platform k = real ((8389057 + (k - 10000) * 839) * 2 ^ 14) / 2 ^ 37"
    using single_acc_20 [OF j'] by (simp only: k)
  moreover have "real ((8389057 + (k - 10000) * 839) * 2 ^ 14) / 2 ^ 37 < real 4"
    using j by (intro units_less) simp
  ultimately show ?thesis by simp
qed

lemma single_lt4_21:
  assumes "k \<le> 40018" shows "Time_acc single_platform k < 4"
proof (cases "k \<le> 19997")
  case True
  thus ?thesis by (rule single_lt4_20)
next
  case False
  with assms have j: "k - 19997 \<le> 20021" and k: "19997 + (k - 19997) = k" by simp_all
  note j' = j
  have "Time_acc single_platform k = real ((8388270 + (k - 19997) * 419) * 2 ^ 15) / 2 ^ 37"
    using single_acc_21 [OF j'] by (simp only: k)
  moreover have "real ((8388270 + (k - 19997) * 419) * 2 ^ 15) / 2 ^ 37 < real 4"
    using j by (intro units_less) simp
  ultimately show ?thesis by simp
qed

lemma single_ge4: "4 \<le> Time_acc single_platform 40019"
  by (simp add: single_acc_22_end)

lemma single_lt5_23:
  assumes "40019 \<le> k" "k \<le> 50004" shows "Time_acc single_platform k < 5"
proof -
  from assms have j: "k - 40019 \<le> 9985" and k: "40019 + (k - 40019) = k" by simp_all
  have j': "k - 40019 \<le> 9986" using j by simp
  have "Time_acc single_platform k = real ((8388744 + (k - 40019) * 210) * 2 ^ 16) / 2 ^ 37"
    using single_acc_23 [OF j'] by (simp only: k)
  moreover have "real ((8388744 + (k - 40019) * 210) * 2 ^ 16) / 2 ^ 37 < real 5"
    using j by (intro units_less) simp
  ultimately show ?thesis by simp
qed

lemma single_ge5: "5 \<le> Time_acc single_platform 50005"
  using single_acc_23 [of 9986] by simp

text \<open>
  C8, not as stated. On the single-precision platform with a sample period of 100
  microseconds, the sequencer started in state 0 is still in state 1 after 40001 calls and
  after 40019 calls, and enters state 2 only with call 40020, after 40019 calls in state 1
  and not after \<open>4.0 / Tsamp = 40000\<close>; it enters state 3 with call 50006, after 9986
  calls in state 2 and not after 10000.
\<close>

theorem alignment_single_precision:
  "Mode_align ((Align single_platform ^^ 40001) startup) = 1 \<and>
   Mode_align ((Align single_platform ^^ 40019) startup) = 1 \<and>
   Mode_align ((Align single_platform ^^ 40020) startup) = 2 \<and>
   Mode_align ((Align single_platform ^^ 50005) startup) = 2 \<and>
   Mode_align ((Align single_platform ^^ 50006) startup) = 3"
proof -
  have m: "Mode_align startup = 0" by (simp add: startup_def)
  have b4: "\<forall>k. 0 < k \<and> k < 40019 \<longrightarrow> Time_acc single_platform k < 4"
    by (simp add: single_lt4_21)
  have b5: "\<forall>k. 40019 < k \<and> k < 50005 \<longrightarrow> Time_acc single_platform k < 5"
    by (simp add: single_lt5_23)
  note p1 = Align_phase1 [OF m b4]
  have 1: "Mode_align ((Align single_platform ^^ 40001) startup) = 1"
    using p1 [of 40001] by simp
  have a: "Mode_align ((Align single_platform ^^ 40019) startup) = 1"
    "Time_align ((Align single_platform ^^ 40019) startup) = Time_acc single_platform 40019"
    "Align_done ((Align single_platform ^^ 40019) startup) = 0"
    using p1 [of 40019] by simp_all
  note p2 = Align_phase2 [OF a single_ge4 b5]
  have 3: "Mode_align ((Align single_platform ^^ 40020) startup) = 2"
    using p2 [of 40020] by simp
  have c: "Mode_align ((Align single_platform ^^ 50005) startup) = 2"
    "Time_align ((Align single_platform ^^ 50005) startup) = Time_acc single_platform 50005"
    "Align_done ((Align single_platform ^^ 50005) startup) = 0"
    using p2 [of 50005] by simp_all
  have 5: "Mode_align ((Align single_platform ^^ 50006) startup) = 3"
    using Align_phase3(1) [OF c single_ge5] by simp
  from 1 a(1) 3 c(1) 5 show ?thesis by (intro conjI)
qed

text \<open>
  C8, amended. Let \<open>Time_acc P k\<close> be the accumulated time after \<open>k\<close> additions of the
  sample period, each sum rounded as the platform rounds it, let \<open>N1\<close> be the first
  number of additions at which it has reached 4, and \<open>N2\<close> the first number after \<open>N1\<close> at
  which it has reached 5. The sequencer started in state 0 sets the d-axis current
  reference to \<^verbatim>\<open>Idsr_align\<close> and enters state 1 with its first call; it is in state 1 after
  each of the calls 1 to \<open>N1\<close> and in state 2 after each of the calls \<open>N1 + 1\<close> to \<open>N2\<close>; call
  \<open>N2 + 1\<close> enters state 3 with the d-axis current reference at 0; \<^verbatim>\<open>Align_done\<close> is 0 after
  each of the calls 1 to \<open>N2 + 1\<close>, and call \<open>N2 + 2\<close> sets it to 1, clears \<^verbatim>\<open>FLAG.INV_ALIGN\<close>
  and returns to state 0. In between \<^verbatim>\<open>Time_align\<close> is the accumulated time.
\<close>

theorem alignment_sequencer:
  assumes "Mode_align s = 0"
    and "0 < N1" "\<forall>k. 0 < k \<and> k < N1 \<longrightarrow> Time_acc P k < 4" "4 \<le> Time_acc P N1"
    and "N1 < N2" "\<forall>k. N1 < k \<and> k < N2 \<longrightarrow> Time_acc P k < 5" "5 \<le> Time_acc P N2"
  shows "Mode_align ((Align P ^^ 1) s) = 1 \<and>
    Idsr_ref (INV ((Align P ^^ 1) s)) = Idsr_align (INV s) \<and>
    (\<forall>j. 0 < j \<and> j \<le> N1 \<longrightarrow> Mode_align ((Align P ^^ j) s) = 1) \<and>
    (\<forall>j. N1 < j \<and> j \<le> N2 \<longrightarrow> Mode_align ((Align P ^^ j) s) = 2) \<and>
    Mode_align ((Align P ^^ (N2 + 1)) s) = 3 \<and>
    Idsr_ref (INV ((Align P ^^ (N2 + 1)) s)) = 0 \<and>
    (\<forall>j. 0 < j \<and> j \<le> N2 + 1 \<longrightarrow> Align_done ((Align P ^^ j) s) = 0) \<and>
    Mode_align ((Align P ^^ (N2 + 2)) s) = 0 \<and>
    Align_done ((Align P ^^ (N2 + 2)) s) = 1 \<and>
    INV_ALIGN (FLAG ((Align P ^^ (N2 + 2)) s)) = 0 \<and>
    (\<forall>j. 0 < j \<and> j \<le> N2 \<longrightarrow> Time_align ((Align P ^^ j) s) = Time_acc P j)"
proof -
  note p1 = Align_phase1 [OF assms(1) assms(3)]
  have a: "Mode_align ((Align P ^^ N1) s) = 1"
    "Time_align ((Align P ^^ N1) s) = Time_acc P N1" "Align_done ((Align P ^^ N1) s) = 0"
    using p1 [of N1] assms(2) by simp_all
  note p2 = Align_phase2 [OF a assms(4) assms(6)]
  have c: "Mode_align ((Align P ^^ N2) s) = 2"
    "Time_align ((Align P ^^ N2) s) = Time_acc P N2" "Align_done ((Align P ^^ N2) s) = 0"
    using p2 [of N2] assms(5) by simp_all
  note p3 = Align_phase3 [OF c assms(7)]
  have 1: "Mode_align ((Align P ^^ 1) s) = 1"
    "Idsr_ref (INV ((Align P ^^ 1) s)) = Idsr_align (INV s)"
    by (simp_all add: Align_fields assms(1))
  have 2: "\<forall>j. 0 < j \<and> j \<le> N1 \<longrightarrow> Mode_align ((Align P ^^ j) s) = 1"
    using p1 by blast
  have 3: "\<forall>j. N1 < j \<and> j \<le> N2 \<longrightarrow> Mode_align ((Align P ^^ j) s) = 2"
    using p2 by blast
  have 4: "\<forall>j. 0 < j \<and> j \<le> N2 + 1 \<longrightarrow> Align_done ((Align P ^^ j) s) = 0"
  proof (intro allI impI)
    fix j assume j: "0 < j \<and> j \<le> N2 + 1"
    consider "j \<le> N1" | "N1 < j" "j \<le> N2" | "j = N2 + 1" using j by linarith
    thus "Align_done ((Align P ^^ j) s) = 0"
    proof cases
      case 1 thus ?thesis using p1 [of j] j by simp
    next
      case 2 thus ?thesis using p2 [of j] by simp
    next
      case 3 thus ?thesis using p3(3) by simp
    qed
  qed
  have 5: "\<forall>j. 0 < j \<and> j \<le> N2 \<longrightarrow> Time_align ((Align P ^^ j) s) = Time_acc P j"
  proof (intro allI impI)
    fix j assume j: "0 < j \<and> j \<le> N2"
    consider "j \<le> N1" | "N1 < j" using j by linarith
    thus "Time_align ((Align P ^^ j) s) = Time_acc P j"
    proof cases
      case 1 thus ?thesis using p1 [of j] j by simp
    next
      case 2 thus ?thesis using p2 [of j] j by simp
    qed
  qed
  from 1 2 3 p3(1) p3(2) 4 p3(4) p3(6) p3(7) 5 show ?thesis by (intro conjI)
qed

theorem alignment_sequencer_witness:
  "Mode_align ((Align exact_platform ^^ 1) (startup\<lparr>INV := INV_zero\<lparr>Idsr_align := 2\<rparr>\<rparr>)) = 1 \<and>
   Idsr_ref (INV ((Align exact_platform ^^ 1) (startup\<lparr>INV := INV_zero\<lparr>Idsr_align := 2\<rparr>\<rparr>))) = 2 \<and>
   Mode_align ((Align exact_platform ^^ 40000) (startup\<lparr>INV := INV_zero\<lparr>Idsr_align := 2\<rparr>\<rparr>)) = 1 \<and>
   Mode_align ((Align exact_platform ^^ 40001) (startup\<lparr>INV := INV_zero\<lparr>Idsr_align := 2\<rparr>\<rparr>)) = 2 \<and>
   Mode_align ((Align exact_platform ^^ 50000) (startup\<lparr>INV := INV_zero\<lparr>Idsr_align := 2\<rparr>\<rparr>)) = 2 \<and>
   Mode_align ((Align exact_platform ^^ 50001) (startup\<lparr>INV := INV_zero\<lparr>Idsr_align := 2\<rparr>\<rparr>)) = 3 \<and>
   Idsr_ref (INV ((Align exact_platform ^^ 50001)
     (startup\<lparr>INV := INV_zero\<lparr>Idsr_align := 2\<rparr>\<rparr>))) = 0 \<and>
   Align_done ((Align exact_platform ^^ 50001) (startup\<lparr>INV := INV_zero\<lparr>Idsr_align := 2\<rparr>\<rparr>)) = 0 \<and>
   Mode_align ((Align exact_platform ^^ 50002) (startup\<lparr>INV := INV_zero\<lparr>Idsr_align := 2\<rparr>\<rparr>)) = 0 \<and>
   Align_done ((Align exact_platform ^^ 50002) (startup\<lparr>INV := INV_zero\<lparr>Idsr_align := 2\<rparr>\<rparr>)) = 1 \<and>
   INV_ALIGN (FLAG ((Align exact_platform ^^ 50002)
     (startup\<lparr>INV := INV_zero\<lparr>Idsr_align := 2\<rparr>\<rparr>))) = 0 \<and>
   Time_align ((Align exact_platform ^^ 50000) (startup\<lparr>INV := INV_zero\<lparr>Idsr_align := 2\<rparr>\<rparr>)) = 5"
proof -
  let ?s = "startup\<lparr>INV := INV_zero\<lparr>Idsr_align := 2\<rparr>\<rparr>"
  have m: "Mode_align ?s = 0" by (simp add: startup_def)
  have i: "Idsr_align (INV ?s) = 2" by simp
  have n: "0 < (40000::nat)" "(40000::nat) < 50000" by simp_all
  have b4: "\<forall>k. 0 < k \<and> k < 40000 \<longrightarrow> Time_acc exact_platform k < 4"
    by (simp add: Time_acc_exact)
  have b5: "\<forall>k. 40000 < k \<and> k < 50000 \<longrightarrow> Time_acc exact_platform k < 5"
    by (simp add: Time_acc_exact)
  have t4: "4 \<le> Time_acc exact_platform 40000" by (simp add: Time_acc_exact)
  have t5: "5 \<le> Time_acc exact_platform 50000" by (simp add: Time_acc_exact)
  note T = alignment_sequencer [OF m n(1) b4 t4 n(2) b5 t5]
  note T2 = T [THEN conjunct2, THEN conjunct2]
  note T4 = T2 [THEN conjunct2, THEN conjunct2]
  note T6 = T4 [THEN conjunct2, THEN conjunct2]
  note T8 = T6 [THEN conjunct2, THEN conjunct2]
  have 1: "Mode_align ((Align exact_platform ^^ 1) ?s) = 1" by (rule T [THEN conjunct1])
  have 2: "Idsr_ref (INV ((Align exact_platform ^^ 1) ?s)) = 2"
    using T [THEN conjunct2, THEN conjunct1] by (simp only: i)
  have 3: "Mode_align ((Align exact_platform ^^ 40000) ?s) = 1"
    using T2 [THEN conjunct1, THEN spec, of 40000] by simp
  have 4: "Mode_align ((Align exact_platform ^^ 40001) ?s) = 2"
    using T2 [THEN conjunct2, THEN conjunct1, THEN spec, of 40001] by simp
  have 5: "Mode_align ((Align exact_platform ^^ 50000) ?s) = 2"
    using T2 [THEN conjunct2, THEN conjunct1, THEN spec, of 50000] by simp
  have 6: "Mode_align ((Align exact_platform ^^ 50001) ?s) = 3"
    using T4 [THEN conjunct1] by simp
  have 7: "Idsr_ref (INV ((Align exact_platform ^^ 50001) ?s)) = 0"
    using T4 [THEN conjunct2, THEN conjunct1] by simp
  have 8: "Align_done ((Align exact_platform ^^ 50001) ?s) = 0"
    using T6 [THEN conjunct1, THEN spec, of 50001] by simp
  have 9: "Mode_align ((Align exact_platform ^^ 50002) ?s) = 0"
    using T6 [THEN conjunct2, THEN conjunct1] by simp
  have 10: "Align_done ((Align exact_platform ^^ 50002) ?s) = 1"
    using T8 [THEN conjunct1] by simp
  have 11: "INV_ALIGN (FLAG ((Align exact_platform ^^ 50002) ?s)) = 0"
    using T8 [THEN conjunct2, THEN conjunct1] by simp
  have 12: "Time_align ((Align exact_platform ^^ 50000) ?s) = 5"
    using T8 [THEN conjunct2, THEN conjunct2, THEN spec, of 50000]
    by (simp add: Time_acc_exact)
  from 1 2 3 4 5 6 7 8 9 10 11 12 show ?thesis by (intro conjI)
qed

end
